theory Spec2Isabelle
  imports Main
begin

section \<open>Pipelines of the DAT recipe compiler (dat/vistrails\_interface.py)\<close>

text \<open>
  The development embeds the recipe-to-pipeline code of \<^verbatim>\<open>dat/vistrails_interface.py\<close>:
  \<^verbatim>\<open>delete_linked\<close>, \<^verbatim>\<open>PipelineGenerator\<close>, \<^verbatim>\<open>add_variable_subworkflow\<close>,
  \<^verbatim>\<open>add_constant_module\<close>, \<^verbatim>\<open>create_pipeline\<close> and \<^verbatim>\<open>update_pipeline\<close>.

  Python objects are values here. A pipeline module and a connection carry the integer id
  VisTrails gave them; a dictionary is an association list in its iteration order, read
  with \<^const>\<open>map_of\<close> or \<^const>\<open>find\<close>; a Python \<^verbatim>\<open>set\<close> is a list without
  repetition, in the order its elements were added. Every exception the Python raises is a
  value of \<open>error\<close>, returned as \<open>Inl\<close>.
\<close>

datatype error =
    KeyError | IndexError | ValueError | UpdateError | AssertionError | TypeError
  | AttributeError | ZeroDivisionError | IOError | MissingModule

text \<open>
  A module descriptor of the VisTrails registry. The code tests descriptors by identity
  (\<^verbatim>\<open>module.module_descriptor is inputport_desc\<close>) and by \<^verbatim>\<open>issubclass\<close>; the
  class hierarchy belongs to VisTrails, so \<open>issubclass\<close> is a field of the controller.
\<close>

datatype descriptor = InputPort | OutputPort | CellLocation | SpreadsheetCell | Other string

record connection =
  c_id :: nat
  source_moduleId :: nat
  source_name :: string
  destination_moduleId :: nat
  destination_name :: string

record pmodule =
  m_id :: nat
  module_descriptor :: descriptor
  module_functions :: "(string \<times> string list) list"

record pipeline =
  module_list :: "pmodule list"
  connection_list :: "connection list"

text \<open>\<^verbatim>\<open>pipeline.modules[i]\<close> and \<^verbatim>\<open>pipeline.connections[i]\<close>: \<open>None\<close> is Python's KeyError.\<close>

definition modules_get :: "pipeline \<Rightarrow> nat \<Rightarrow> pmodule option" where
  "modules_get p i = find (\<lambda>m. m_id m = i) (module_list p)"

definition connections_get :: "pipeline \<Rightarrow> nat \<Rightarrow> connection option" where
  "connections_get p i = find (\<lambda>c. c_id c = i) (connection_list p)"

text \<open>
  The entries of the operation list a generator collects: \<^verbatim>\<open>('add', module)\<close>,
  \<^verbatim>\<open>('add', connection)\<close>, \<^verbatim>\<open>('delete', connection)\<close>, \<^verbatim>\<open>('delete', module)\<close>, and
  what \<^verbatim>\<open>controller.update_function_ops(module, portname, values)\<close> returns, kept as one
  entry.
\<close>

datatype operation =
    AddModule pmodule
  | AddConnection connection
  | DeleteModule pmodule
  | DeleteConnection connection
  | UpdateFunction nat string "string list"

text \<open>
  The VisTrails controller, as far as this code reads and writes it: the pipelines of the
  version tree, the tags of the versions, the selected version with its pipeline, the
  counters of the id scope, the descriptions of the versions, the subworkflow files an
  \<^verbatim>\<open>XMLFileLocator\<close> loads, and of the registry the subclass test and the descriptor a
  descriptor string names.
\<close>

record controller =
  versions :: "(nat \<times> pipeline) list"
  tags :: "(string \<times> nat) list"
  current_version :: nat
  current_pipeline :: pipeline
  next_module_id :: nat
  next_connection_id :: nat
  next_version :: nat
  descriptions :: "(nat \<times> string) list"
  files :: "(string \<times> pipeline) list"
  issubclass :: "descriptor \<Rightarrow> descriptor \<Rightarrow> bool"
  descriptor_by_name :: "string \<Rightarrow> descriptor option"

subsection \<open>delete\_linked\<close>

text \<open>
  \<^verbatim>\<open>module_connections\<close>, the dictionary from a module id to the set of the connections
  the module takes part in, built from the connection list of the current pipeline.
  \<^verbatim>\<open>module_connections.get(i, [])\<close> is the list of these connections.
\<close>

definition module_connections :: "pipeline \<Rightarrow> nat \<Rightarrow> connection list" where
  "module_connections p i =
     remdups (filter (\<lambda>c. source_moduleId c = i \<or> destination_moduleId c = i) (connection_list p))"

text \<open>
  The \<^verbatim>\<open>modules\<close> argument is one module or a list, tuple or set of modules.
\<close>

datatype modules_arg = OneModule pmodule | Modules "pmodule list"

fun as_open_list :: "modules_arg \<Rightarrow> pmodule list" where
  "as_open_list (Modules ms) = ms"
| "as_open_list (OneModule m) = [m]"

text \<open>
  The body of \<^verbatim>\<open>for connection in module_connections.get(module.id, [])\<close>. The state is
  \<open>(new_open_list, to_delete, visited_connections)\<close>. The \<^verbatim>\<open>continue\<close> of the source
  skips \<^verbatim>\<open>visited_connections.add(connection)\<close>.
\<close>

type_synonym walk = "pmodule list \<times> pmodule list \<times> connection list"

fun visit_connections ::
  "pipeline \<Rightarrow> (pmodule \<Rightarrow> bool) \<Rightarrow> (connection \<Rightarrow> bool) \<Rightarrow> pmodule \<Rightarrow> connection list \<Rightarrow>
   walk \<Rightarrow> error + walk" where
  "visit_connections p module_filter connection_filter module [] st = Inr st"
| "visit_connections p module_filter connection_filter module (connection # cs)
     (new_open_list, to_delete, visited) =
   (if connection \<notin> set visited \<and> connection_filter connection then
      (case modules_get p
              (if source_moduleId connection = m_id module then destination_moduleId connection
               else source_moduleId connection) of
         None \<Rightarrow> Inl KeyError
       | Some other_mod \<Rightarrow>
           if other_mod \<in> set to_delete then
             visit_connections p module_filter connection_filter module cs
               (new_open_list, to_delete, visited)
           else if module_filter other_mod then
             visit_connections p module_filter connection_filter module cs
               (new_open_list @ [other_mod], to_delete @ [other_mod],
                List.insert connection visited)
           else
             visit_connections p module_filter connection_filter module cs
               (new_open_list, to_delete, List.insert connection visited))
    else
      visit_connections p module_filter connection_filter module cs
        (new_open_list, to_delete, List.insert connection visited))"

text \<open>The body of \<^verbatim>\<open>for module in open_list\<close>.\<close>

fun visit_modules ::
  "pipeline \<Rightarrow> (pmodule \<Rightarrow> bool) \<Rightarrow> (connection \<Rightarrow> bool) \<Rightarrow> pmodule list \<Rightarrow> walk \<Rightarrow> error + walk"
  where
  "visit_modules p module_filter connection_filter [] st = Inr st"
| "visit_modules p module_filter connection_filter (module # ms) st =
   (case visit_connections p module_filter connection_filter module
           (module_connections p (m_id module)) st of
      Inl e \<Rightarrow> Inl e
    | Inr st' \<Rightarrow> visit_modules p module_filter connection_filter ms st')"

text \<open>
  \<^verbatim>\<open>while depth > 0 and open_list\<close>; \<open>depth\<close> is a Python integer. The result is
  \<open>to_delete\<close>.
\<close>

function delete_loop ::
  "pipeline \<Rightarrow> (pmodule \<Rightarrow> bool) \<Rightarrow> (connection \<Rightarrow> bool) \<Rightarrow> int \<Rightarrow> pmodule list \<Rightarrow>
   pmodule list \<Rightarrow> connection list \<Rightarrow> error + pmodule list" where
  "delete_loop p module_filter connection_filter depth open_list to_delete visited =
   (if depth > 0 \<and> open_list \<noteq> [] then
      (case visit_modules p module_filter connection_filter open_list ([], to_delete, visited) of
         Inl e \<Rightarrow> Inl e
       | Inr (new_open_list, to_delete', visited') \<Rightarrow>
           delete_loop p module_filter connection_filter (depth - 1) new_open_list
             to_delete' visited')
    else Inr to_delete)"
  by pat_completeness auto
termination
  by (relation "measure (\<lambda>(p, mf, cf, depth, ol, td, vis). nat depth)") auto

declare delete_loop.simps [simp del]

text \<open>\<^verbatim>\<open>sys.maxint\<close> of a 64-bit CPython 2, the default of \<open>depth\<close>.\<close>

definition sys_maxint :: int where
  "sys_maxint = 2 ^ 63 - 1"

text \<open>
  \<^verbatim>\<open>conn_to_delete\<close>: the union of the connection sets of the modules to delete.
\<close>

definition conn_to_delete :: "pipeline \<Rightarrow> pmodule list \<Rightarrow> connection list" where
  "conn_to_delete p to_delete = remdups (concat (map (\<lambda>m. module_connections p (m_id m)) to_delete))"

text \<open>
  \<^verbatim>\<open>delete_linked(controller, modules, operations, module_filter, connection_filter, depth)\<close>
  returns the set of the ids of the deleted modules and extends \<open>operations\<close>; the pair is
  the result and the operation list after the call. When the walk raises, the list is as
  it was.
\<close>

definition delete_linked ::
  "controller \<Rightarrow> modules_arg \<Rightarrow> operation list \<Rightarrow> (pmodule \<Rightarrow> bool) \<Rightarrow> (connection \<Rightarrow> bool) \<Rightarrow>
   int \<Rightarrow> (error + nat list) \<times> operation list" where
  "delete_linked controller modules operations module_filter connection_filter depth =
   (let p = current_pipeline controller;
        open_list = as_open_list modules
    in case delete_loop p module_filter connection_filter depth open_list (remdups open_list) [] of
         Inl e \<Rightarrow> (Inl e, operations)
       | Inr to_delete \<Rightarrow>
           (Inr (remdups (map m_id to_delete)),
            operations @ map DeleteConnection (conn_to_delete p to_delete)
                       @ map DeleteModule to_delete))"


subsection \<open>Committing an operation list\<close>

text \<open>
  \<^verbatim>\<open>create_action(operations)\<close>, \<^verbatim>\<open>controller.add_new_action\<close> and
  \<^verbatim>\<open>controller.perform_action\<close> belong to VisTrails. An operation list is committed as
  VisTrails does: each operation in turn, on the pipeline of the parent version. A delete
  names its object by id.
\<close>

definition set_function :: "string \<Rightarrow> string list \<Rightarrow> pmodule \<Rightarrow> pmodule" where
  "set_function portname values m =
     m\<lparr>module_functions :=
         (if portname \<in> fst ` set (module_functions m)
          then map (\<lambda>(n, vs). if n = portname then (n, values) else (n, vs)) (module_functions m)
          else module_functions m @ [(portname, values)])\<rparr>"

fun apply_operation :: "pipeline \<Rightarrow> operation \<Rightarrow> pipeline" where
  "apply_operation p (AddModule m) = p\<lparr>module_list := module_list p @ [m]\<rparr>"
| "apply_operation p (AddConnection c) = p\<lparr>connection_list := connection_list p @ [c]\<rparr>"
| "apply_operation p (DeleteModule m) =
     p\<lparr>module_list := filter (\<lambda>x. m_id x \<noteq> m_id m) (module_list p)\<rparr>"
| "apply_operation p (DeleteConnection c) =
     p\<lparr>connection_list := filter (\<lambda>x. c_id x \<noteq> c_id c) (connection_list p)\<rparr>"
| "apply_operation p (UpdateFunction i portname values) =
     p\<lparr>module_list :=
         map (\<lambda>m. if m_id m = i then set_function portname values m else m) (module_list p)\<rparr>"

definition apply_operations :: "pipeline \<Rightarrow> operation list \<Rightarrow> pipeline" where
  "apply_operations p ops = foldl apply_operation p ops"

subsection \<open>PipelineGenerator\<close>

record generator =
  operations :: "operation list"
  all_modules :: "pmodule list"
  all_connections :: "connection list"

text \<open>\<^verbatim>\<open>PipelineGenerator(controller)\<close>; the controller is passed beside the generator.\<close>

definition PipelineGenerator :: "controller \<Rightarrow> generator" where
  "PipelineGenerator controller =
     \<lparr>operations = [],
      all_modules = remdups (module_list (current_pipeline controller)),
      all_connections = remdups (connection_list (current_pipeline controller))\<rparr>"

text \<open>\<^verbatim>\<open>PipelineGenerator.delete_linked(modules, **kwargs)\<close>.\<close>

definition generator_delete_linked ::
  "controller \<Rightarrow> generator \<Rightarrow> modules_arg \<Rightarrow> (pmodule \<Rightarrow> bool) \<Rightarrow> (connection \<Rightarrow> bool) \<Rightarrow> int \<Rightarrow>
   (error + unit) \<times> generator" where
  "generator_delete_linked controller self modules module_filter connection_filter depth =
   (case delete_linked controller modules (operations self) module_filter connection_filter depth of
      (Inl e, ops) \<Rightarrow> (Inl e, self\<lparr>operations := ops\<rparr>)
    | (Inr deleted_ids, ops) \<Rightarrow>
        (Inr (),
         self\<lparr>operations := ops,
              all_modules := filter (\<lambda>m. m_id m \<notin> set deleted_ids) (all_modules self),
              all_connections :=
                filter (\<lambda>c. source_moduleId c \<notin> set deleted_ids \<and>
                             destination_moduleId c \<notin> set deleted_ids)
                  (all_connections self)\<rparr>))"


text \<open>
  The primitive operations of the generator. A copy of a module and a module created from
  a descriptor take the next module id of the id scope, a new connection the next
  connection id. (VisTrails also checks that the ports exist on the two modules; port
  specifications are not part of this development.)
\<close>

definition set_add :: "'a \<Rightarrow> 'a list \<Rightarrow> 'a list" where
  "set_add x xs = (if x \<in> set xs then xs else xs @ [x])"

definition copy_module ::
  "controller \<Rightarrow> generator \<Rightarrow> pmodule \<Rightarrow> pmodule \<times> controller \<times> generator" where
  "copy_module c g module =
     (let m = module\<lparr>m_id := next_module_id c\<rparr>
      in (m, c\<lparr>next_module_id := Suc (next_module_id c)\<rparr>,
          g\<lparr>operations := operations g @ [AddModule m], all_modules := set_add m (all_modules g)\<rparr>))"

definition create_module_from_descriptor :: "controller \<Rightarrow> descriptor \<Rightarrow> pmodule \<times> controller" where
  "create_module_from_descriptor c desc =
     (\<lparr>m_id = next_module_id c, module_descriptor = desc, module_functions = []\<rparr>,
      c\<lparr>next_module_id := Suc (next_module_id c)\<rparr>)"

definition add_module :: "generator \<Rightarrow> pmodule \<Rightarrow> generator" where
  "add_module g module =
     g\<lparr>operations := operations g @ [AddModule module], all_modules := set_add module (all_modules g)\<rparr>"

definition connect_modules ::
  "controller \<Rightarrow> generator \<Rightarrow> pmodule \<Rightarrow> string \<Rightarrow> pmodule \<Rightarrow> string \<Rightarrow>
   nat \<times> controller \<times> generator" where
  "connect_modules c g src_mod src_port dest_mod dest_port =
     (let new_conn = \<lparr>c_id = next_connection_id c,
                       source_moduleId = m_id src_mod, source_name = src_port,
                       destination_moduleId = m_id dest_mod, destination_name = dest_port\<rparr>
      in (c_id new_conn, c\<lparr>next_connection_id := Suc (next_connection_id c)\<rparr>,
          g\<lparr>operations := operations g @ [AddConnection new_conn],
            all_connections := set_add new_conn (all_connections g)\<rparr>))"

definition update_function :: "generator \<Rightarrow> pmodule \<Rightarrow> string \<Rightarrow> string list \<Rightarrow> generator" where
  "update_function g module portname values =
     g\<lparr>operations := operations g @ [UpdateFunction (m_id module) portname values]\<rparr>"

text \<open>\<^verbatim>\<open>PipelineGenerator.append_operations(operations)\<close>.\<close>

fun note_operation :: "generator \<Rightarrow> operation \<Rightarrow> generator" where
  "note_operation g (AddModule m) = g\<lparr>all_modules := set_add m (all_modules g)\<rparr>"
| "note_operation g (AddConnection c) = g\<lparr>all_connections := set_add c (all_connections g)\<rparr>"
| "note_operation g _ = g"

definition append_operations :: "generator \<Rightarrow> operation list \<Rightarrow> generator" where
  "append_operations g ops =
     (let g' = foldl note_operation g ops in g'\<lparr>operations := operations g' @ ops\<rparr>)"

text \<open>
  \<^verbatim>\<open>controller.change_selected_version(v)\<close> selects a version and loads its pipeline;
  version 0 is the empty root. \<^verbatim>\<open>vistrail.getPipeline(tag)\<close> reads the pipeline of a
  tagged version.
\<close>

definition empty_pipeline :: pipeline where
  "empty_pipeline = \<lparr>module_list = [], connection_list = []\<rparr>"

definition getPipeline :: "controller \<Rightarrow> nat \<Rightarrow> pipeline option" where
  "getPipeline c v = (if v = 0 then Some empty_pipeline else map_of (versions c) v)"

definition getPipeline_tag :: "controller \<Rightarrow> string \<Rightarrow> pipeline option" where
  "getPipeline_tag c t = (case map_of (tags c) t of None \<Rightarrow> None | Some v \<Rightarrow> getPipeline c v)"

definition change_selected_version :: "controller \<Rightarrow> nat \<Rightarrow> error + controller" where
  "change_selected_version c v =
     (case getPipeline c v of
        None \<Rightarrow> Inl KeyError
      | Some p \<Rightarrow> Inr (c\<lparr>current_version := v, current_pipeline := p\<rparr>))"

text \<open>
  \<^verbatim>\<open>create_action\<close>, \<^verbatim>\<open>add_new_action\<close> and \<^verbatim>\<open>perform_action\<close> of the controller: the
  operations become a new version, child of the selected one, which is then selected.
\<close>

definition controller_perform_action :: "controller \<Rightarrow> operation list \<Rightarrow> nat \<times> controller" where
  "controller_perform_action c ops =
     (let p = apply_operations (current_pipeline c) ops; v = next_version c
      in (v, c\<lparr>versions := (v, p) # versions c, next_version := Suc v,
               current_version := v, current_pipeline := p\<rparr>))"

definition change_description :: "controller \<Rightarrow> string \<Rightarrow> nat \<Rightarrow> controller" where
  "change_description c d v = c\<lparr>descriptions := (v, d) # descriptions c\<rparr>"

text \<open>
  \<^verbatim>\<open>PipelineGenerator.perform_action()\<close>. The layout stage computes floating-point
  positions with the VisTrails layout classes and only moves modules; it is left out,
  but for its two failures that do not depend on port specifications: the lookup of the
  modules of a connection among \<open>all_modules\<close>, and the division by
  \<^verbatim>\<open>float(len(self.all_modules))\<close>.
\<close>

definition perform_action :: "controller \<Rightarrow> generator \<Rightarrow> (error + nat) \<times> controller" where
  "perform_action c g =
     (if \<exists>conn \<in> set (all_connections g).
            source_moduleId conn \<notin> m_id ` set (all_modules g) \<or>
            destination_moduleId conn \<notin> m_id ` set (all_modules g)
      then (Inl KeyError, c)
      else if all_modules g = [] then (Inl ZeroDivisionError, c)
      else (let (v, c') = controller_perform_action c (operations g) in (Inr v, c')))"

subsection \<open>Recipes and pipeline information\<close>

text \<open>
  \<^verbatim>\<open>get_function(module, function_name)\<close>: the first parameter of the first function of
  that name that has parameters.
\<close>

fun get_function_list :: "(string \<times> string list) list \<Rightarrow> string \<Rightarrow> string option" where
  "get_function_list [] function_name = None"
| "get_function_list ((n, params) # fs) function_name =
     (if n = function_name \<and> length params > 0 then Some (hd params)
      else get_function_list fs function_name)"

definition get_function :: "pmodule \<Rightarrow> string \<Rightarrow> string option" where
  "get_function module function_name = get_function_list (module_functions module) function_name"

text \<open>\<^verbatim>\<open>find_modules_by_type(pipeline, moduletypes)\<close>.\<close>

definition find_modules_by_type :: "controller \<Rightarrow> pipeline \<Rightarrow> descriptor list \<Rightarrow> pmodule list" where
  "find_modules_by_type c p moduletypes =
     filter (\<lambda>module. \<exists>t \<in> set moduletypes. issubclass c (module_descriptor module) t)
       (module_list p)"

text \<open>\<^verbatim>\<open>Variable.VariableInformation\<close>: the name and the type of a materialized variable.\<close>

record variable_information =
  var_name :: string
  var_type :: descriptor

text \<open>
  Modelled from the spec: \<^verbatim>\<open>RecipeParameterValue\<close>, \<^verbatim>\<open>DATRecipe\<close> and
  \<^verbatim>\<open>PipelineInformation\<close> are declared in \<^verbatim>\<open>dat/__init__.py\<close>, which is not among the
  sources. A binding is tagged Variable (a reference to a variable) or Constant (a literal
  value), and two bindings are equal when they are the same variable reference or the same
  constant value; a recipe is a plot and a mapping from port names to ordered lists of
  bindings; the information of a pipeline is its version, its recipe, its connection map
  and its port map, the four arguments of the constructor calls in the source.
\<close>

datatype recipe_parameter_value = Variable variable_information | Constant string

datatype accepts = DATA | INPUT

record port =
  port_name :: string
  port_type :: descriptor
  optional :: bool
  port_accepts :: accepts

text \<open>
  A \<^verbatim>\<open>Plot\<close>. The class defines no equality, so \<^verbatim>\<open>old_recipe.plot != new_recipe.plot\<close>
  compares the identities of the two objects: \<open>plot_object\<close> is that identity.
\<close>

record plot =
  plot_object :: nat
  plot_name :: string
  subworkflow :: string
  ports :: "port list"

record recipe =
  plot :: plot
  parameters :: "(string \<times> recipe_parameter_value list) list"

text \<open>
  What a group of the connection map holds. \<^verbatim>\<open>add_variable_subworkflow\<close> returns a list
  of connection ids or the pair \<^verbatim>\<open>(module, port_name)\<close>, and \<^verbatim>\<open>update_pipeline\<close> makes a
  list of whatever the group holds.
\<close>

datatype conn_item = ConnId nat | ModuleItem pmodule | NameItem string

datatype conn_group = ConnList "conn_item list" | OutputPair pmodule string

fun py_list :: "conn_group \<Rightarrow> conn_item list" where
  "py_list (ConnList xs) = xs"
| "py_list (OutputPair m n) = [ModuleItem m, NameItem n]"

record pipeline_information =
  version :: nat
  pi_recipe :: recipe
  conn_map :: "(string \<times> conn_group list) list"
  port_map :: "(string option \<times> (nat \<times> string) list) list"

record cell_info =
  row :: int
  column :: int

text \<open>
  Dictionaries: assignment \<^verbatim>\<open>d[k] = v\<close>, and the items in iteration order. The iteration
  order of a Python 2 dictionary or set is not specified; here it is the order of insertion.
\<close>

definition dict_set :: "'k \<Rightarrow> 'v \<Rightarrow> ('k \<times> 'v) list \<Rightarrow> ('k \<times> 'v) list" where
  "dict_set k v d =
     (if k \<in> fst ` set d then map (\<lambda>(a, b). if a = k then (a, v) else (a, b)) d
      else d @ [(k, v)])"

definition dict_del :: "'k \<Rightarrow> ('k \<times> 'v) list \<Rightarrow> ('k \<times> 'v) list" where
  "dict_del k d = filter (\<lambda>(a, b). a \<noteq> k) d"

definition dict_keys :: "('k \<times> 'v) list \<Rightarrow> 'k list" where
  "dict_keys d = remdups (map fst d)"

definition dict_get :: "('k \<times> 'v list) list \<Rightarrow> 'k \<Rightarrow> 'v list" where
  "dict_get d k = (case map_of d k of None \<Rightarrow> [] | Some v \<Rightarrow> v)"

text \<open>\<^verbatim>\<open>{port.name: port for port in recipe.plot.ports}\<close>: a later port of the same name wins.\<close>

definition name_to_port :: "recipe \<Rightarrow> string \<Rightarrow> port option" where
  "name_to_port r = map_of (rev (map (\<lambda>p. (port_name p, p)) (ports (plot r))))"

subsection \<open>Variables under construction\<close>

text \<open>
  A \<^verbatim>\<open>Variable\<close> object as \<^verbatim>\<open>Variable.from_pipeline\<close> and the operations build it: with a
  generator given. (Without one the constructor inspects the call stack for the calling
  package, which only the packages do.) \<open>v_outputport_name\<close> is \<open>None\<close> while the
  attribute does not exist.
\<close>

record variable =
  v_generator :: generator
  v_output_module :: "pmodule option"
  v_outputport_name :: "string option"
  v_type :: descriptor
  v_root_version :: nat
  v_output_module_id :: nat

type_synonym typecast_fn =
  "controller \<Rightarrow> variable \<Rightarrow> descriptor \<Rightarrow> descriptor \<Rightarrow> (error + variable) \<times> controller"

text \<open>\<^verbatim>\<open>Variable._get_variables_root(controller)\<close>.\<close>

definition get_variables_root :: "controller \<Rightarrow> (error + nat \<times> nat) \<times> controller" where
  "get_variables_root c =
     (case (case map_of (tags c) ''dat-vars'' of
              Some root_version \<Rightarrow> (Inr root_version, c)
            | None \<Rightarrow>
                (case change_selected_version c 0 of
                   Inl e \<Rightarrow> (Inl e, c)
                 | Inr c0 \<Rightarrow>
                     (let (out_mod, c1) = create_module_from_descriptor c0 OutputPort;
                          ops = [AddModule out_mod,
                                 UpdateFunction (m_id out_mod) ''name'' [''value'']];
                          (root_version, c2) = controller_perform_action c1 ops
                      in (Inr root_version,
                          c2\<lparr>tags := (''dat-vars'', root_version) # tags c2\<rparr>)))) of
        (Inl e, c') \<Rightarrow> (Inl e, c')
      | (Inr root_version, c') \<Rightarrow>
          (case change_selected_version c' root_version of
             Inl e \<Rightarrow> (Inl e, c')
           | Inr c'' \<Rightarrow>
               (case map m_id (module_list (current_pipeline c'')) of
                  [outmod_id] \<Rightarrow> (Inr (root_version, outmod_id), c'')
                | _ \<Rightarrow> (Inl AssertionError, c''))))"

text \<open>
  \<^verbatim>\<open>Variable(type, controller, generator, output)\<close>. \<^verbatim>\<open>resolve_descriptor\<close> returns a
  descriptor as it is and raises TypeError on \<^verbatim>\<open>None\<close>.
\<close>

definition Variable_init ::
  "controller \<Rightarrow> descriptor option \<Rightarrow> generator \<Rightarrow> (pmodule \<times> string) option \<Rightarrow>
   (error + variable) \<times> controller" where
  "Variable_init c type g output =
     (case get_variables_root c of
        (Inl e, c') \<Rightarrow> (Inl e, c')
      | (Inr (root_version, outmod_id), c') \<Rightarrow>
          (case type of
             None \<Rightarrow> (Inl TypeError, c')
           | Some t \<Rightarrow>
               (Inr \<lparr>v_generator = g,
                     v_output_module = map_option fst output,
                     v_outputport_name = map_option snd output,
                     v_type = t,
                     v_root_version = root_version,
                     v_output_module_id = outmod_id\<rparr>, c')))"

text \<open>
  \<^verbatim>\<open>Variable.read_type(pipeline)\<close>. The registry resolves the descriptor string of the
  \<^verbatim>\<open>spec\<close> function.
\<close>

definition read_type :: "controller \<Rightarrow> pipeline \<Rightarrow> error + descriptor option" where
  "read_type c p =
     (case find_modules_by_type c p [OutputPort] of
        [output] \<Rightarrow>
          (if get_function output ''name'' = Some ''value'' then
             (case get_function output ''spec'' of
                None \<Rightarrow> Inl TypeError
              | Some spec \<Rightarrow>
                  (case descriptor_by_name c spec of
                     None \<Rightarrow> Inl MissingModule
                   | Some d \<Rightarrow> Inr (Some d)))
           else Inr None)
      | _ \<Rightarrow> Inr None)"

subsection \<open>add\_variable\_subworkflow\<close>

datatype variable_arg = VarPipeline pipeline | VarName string

text \<open>
  \<^verbatim>\<open>for module in var_pipeline.modules.itervalues()\<close>: every module but the OutputPort
  named \<^verbatim>\<open>value\<close> is copied; \<open>output_id\<close> is the id of the last such OutputPort met.
\<close>

fun copy_variable_modules ::
  "controller \<Rightarrow> generator \<Rightarrow> pmodule list \<Rightarrow> nat option \<Rightarrow> (nat \<times> pmodule) list \<Rightarrow>
   nat option \<times> (nat \<times> pmodule) list \<times> controller \<times> generator" where
  "copy_variable_modules c g [] output_id var_modules_map = (output_id, var_modules_map, c, g)"
| "copy_variable_modules c g (module # ms) output_id var_modules_map =
     (if module_descriptor module = OutputPort \<and> get_function module ''name'' = Some ''value''
      then copy_variable_modules c g ms (Some (m_id module)) var_modules_map
      else (let (m, c', g') = copy_module c g module
            in copy_variable_modules c' g' ms output_id
                 (dict_set (m_id module) m var_modules_map)))"

text \<open>The connections that do not end at the OutputPort are copied between the copies.\<close>

fun copy_variable_connections ::
  "controller \<Rightarrow> generator \<Rightarrow> nat \<Rightarrow> (nat \<times> pmodule) list \<Rightarrow> connection list \<Rightarrow>
   (error + unit) \<times> controller \<times> generator" where
  "copy_variable_connections c g output_id var_modules_map [] = (Inr (), c, g)"
| "copy_variable_connections c g output_id var_modules_map (connection # cs) =
     (if destination_moduleId connection \<noteq> output_id then
        (case map_of var_modules_map (source_moduleId connection) of
           None \<Rightarrow> (Inl KeyError, c, g)
         | Some src \<Rightarrow>
             (case map_of var_modules_map (destination_moduleId connection) of
                None \<Rightarrow> (Inl KeyError, c, g)
              | Some dest \<Rightarrow>
                  (let (i, c', g') =
                         connect_modules c g src (source_name connection)
                           dest (destination_name connection)
                   in copy_variable_connections c' g' output_id var_modules_map cs)))
      else copy_variable_connections c g output_id var_modules_map cs)"

text \<open>\<^verbatim>\<open>for output_mod, output_port in plot_ports\<close>: one connection to each plot port.\<close>

fun connect_plot_ports ::
  "controller \<Rightarrow> generator \<Rightarrow> pmodule \<Rightarrow> string \<Rightarrow> (pmodule \<times> string) list \<Rightarrow> nat list \<Rightarrow>
   nat list \<times> controller \<times> generator" where
  "connect_plot_ports c g src src_port [] connection_ids = (connection_ids, c, g)"
| "connect_plot_ports c g src src_port ((output_mod, output_port) # ps) connection_ids =
     (let (i, c', g') = connect_modules c g src src_port output_mod output_port
      in connect_plot_ports c' g' src src_port ps (connection_ids @ [i]))"

text \<open>The connections that end at the OutputPort are redirected to the plot ports.\<close>

fun connect_variable_output ::
  "controller \<Rightarrow> generator \<Rightarrow> nat \<Rightarrow> (nat \<times> pmodule) list \<Rightarrow> (pmodule \<times> string) list \<Rightarrow>
   connection list \<Rightarrow> nat list \<Rightarrow> (error + nat list) \<times> controller \<times> generator" where
  "connect_variable_output c g output_id var_modules_map plot_ports [] connection_ids =
     (Inr connection_ids, c, g)"
| "connect_variable_output c g output_id var_modules_map plot_ports (connection # cs)
     connection_ids =
     (if destination_moduleId connection = output_id then
        (case plot_ports of
           [] \<Rightarrow> connect_variable_output c g output_id var_modules_map plot_ports cs connection_ids
         | _ \<Rightarrow>
           (case map_of var_modules_map (source_moduleId connection) of
              None \<Rightarrow> (Inl KeyError, c, g)
            | Some src \<Rightarrow>
                (let (ids, c', g') =
                       connect_plot_ports c g src (source_name connection) plot_ports
                         connection_ids
                 in connect_variable_output c' g' output_id var_modules_map plot_ports cs ids)))
      else connect_variable_output c g output_id var_modules_map plot_ports cs connection_ids)"

text \<open>Without plot ports: the first connection that ends at the OutputPort gives the output.\<close>

fun find_variable_output ::
  "nat \<Rightarrow> (nat \<times> pmodule) list \<Rightarrow> connection list \<Rightarrow> error + conn_group" where
  "find_variable_output output_id var_modules_map [] = Inl AssertionError"
| "find_variable_output output_id var_modules_map (connection # cs) =
     (if destination_moduleId connection = output_id then
        (case map_of var_modules_map (source_moduleId connection) of
           None \<Rightarrow> Inl KeyError
         | Some src \<Rightarrow> Inr (OutputPair src (source_name connection)))
      else find_variable_output output_id var_modules_map cs)"

text \<open>
  \<^verbatim>\<open>add_variable_subworkflow(generator, variable, plot_ports=None)\<close>. The test
  \<^verbatim>\<open>if plot_ports:\<close> fails for \<^verbatim>\<open>None\<close> and for the empty list alike.
\<close>

definition add_variable_subworkflow ::
  "controller \<Rightarrow> generator \<Rightarrow> variable_arg \<Rightarrow> (pmodule \<times> string) list option \<Rightarrow>
   (error + conn_group) \<times> controller \<times> generator" where
  "add_variable_subworkflow c g variable plot_ports =
     (case (case variable of
              VarPipeline p \<Rightarrow> Some p
            | VarName n \<Rightarrow> getPipeline_tag c (''dat-var-'' @ n)) of
        None \<Rightarrow> (Inl KeyError, c, g)
      | Some var_pipeline \<Rightarrow>
          (let (output_id, var_modules_map, c1, g1) =
                 copy_variable_modules c g (module_list var_pipeline) None []
           in case output_id of
                None \<Rightarrow> (Inl ValueError, c1, g1)
              | Some output_id \<Rightarrow>
                  (case copy_variable_connections c1 g1 output_id var_modules_map
                          (connection_list var_pipeline) of
                     (Inl e, c2, g2) \<Rightarrow> (Inl e, c2, g2)
                   | (Inr u, c2, g2) \<Rightarrow>
                       (if plot_ports \<noteq> None \<and> plot_ports \<noteq> Some [] then
                          (case connect_variable_output c2 g2 output_id var_modules_map
                                  (the plot_ports) (connection_list var_pipeline) [] of
                             (Inl e, c3, g3) \<Rightarrow> (Inl e, c3, g3)
                           | (Inr connection_ids, c3, g3) \<Rightarrow>
                               (Inr (ConnList (map ConnId connection_ids)), c3, g3))
                        else
                          (case find_variable_output output_id var_modules_map
                                  (connection_list var_pipeline) of
                             Inl e \<Rightarrow> (Inl e, c2, g2)
                           | Inr r \<Rightarrow> (Inr r, c2, g2))))))"

text \<open>\<^verbatim>\<open>Variable.from_pipeline(controller, varname)\<close>, with no type given.\<close>

definition from_pipeline :: "controller \<Rightarrow> string \<Rightarrow> (error + variable) \<times> controller" where
  "from_pipeline c varname =
     (case getPipeline_tag c (''dat-var-'' @ varname) of
        None \<Rightarrow> (Inl KeyError, c)
      | Some p \<Rightarrow>
          (case read_type c p of
             Inl e \<Rightarrow> (Inl e, c)
           | Inr type \<Rightarrow>
               (case add_variable_subworkflow c (PipelineGenerator c) (VarPipeline p) None of
                  (Inl e, c', g') \<Rightarrow> (Inl e, c')
                | (Inr (ConnList ids), c', g') \<Rightarrow> (Inl ValueError, c')
                | (Inr (OutputPair m n), c', g') \<Rightarrow> Variable_init c' type g' (Some (m, n)))))"

text \<open>
  \<^verbatim>\<open>add_variable_subworkflow_typecast(generator, variable, plot_ports, expected_type, typecast)\<close>.
  Calling a \<^verbatim>\<open>typecast\<close> that is \<^verbatim>\<open>None\<close> raises TypeError.
\<close>

definition add_variable_subworkflow_typecast ::
  "controller \<Rightarrow> generator \<Rightarrow> variable_information \<Rightarrow> (pmodule \<times> string) list \<Rightarrow> descriptor \<Rightarrow>
   typecast_fn option \<Rightarrow> (error + conn_group) \<times> controller \<times> generator" where
  "add_variable_subworkflow_typecast c g variable plot_ports expected_type typecast =
     (if issubclass c (var_type variable) expected_type then
        add_variable_subworkflow c g (VarName (var_name variable)) (Some plot_ports)
      else
        (case from_pipeline c (var_name variable) of
           (Inl e, c1) \<Rightarrow> (Inl e, c1, g)
         | (Inr var_pipeline, c1) \<Rightarrow>
             (case typecast of
                None \<Rightarrow> (Inl TypeError, c1, g)
              | Some f \<Rightarrow>
                  (case f c1 var_pipeline (var_type variable) expected_type of
                     (Inl e, c2) \<Rightarrow> (Inl e, c2, g)
                   | (Inr var_pipeline', c2) \<Rightarrow>
                       (let g1 = append_operations g (operations (v_generator var_pipeline'))
                        in case (v_output_module var_pipeline', v_outputport_name var_pipeline') of
                             (Some output_module, Some outputport_name) \<Rightarrow>
                               (if plot_ports \<noteq> [] then
                                  (let (ids, c3, g3) =
                                         connect_plot_ports c2 g1 output_module outputport_name
                                           plot_ports []
                                   in (Inr (ConnList (map ConnId ids)), c3, g3))
                                else (Inr (OutputPair output_module outputport_name), c2, g1))
                           | _ \<Rightarrow> (Inl AttributeError, c2, g1))))))"

text \<open>\<^verbatim>\<open>add_constant_module(generator, descriptor, constant, plot_ports)\<close>.\<close>

definition add_constant_module ::
  "controller \<Rightarrow> generator \<Rightarrow> descriptor \<Rightarrow> string \<Rightarrow> (pmodule \<times> string) list \<Rightarrow>
   conn_group \<times> controller \<times> generator" where
  "add_constant_module c g descriptor constant plot_ports =
     (let (module, c1) = create_module_from_descriptor c descriptor;
          g1 = add_module g module;
          g2 = update_function g1 module ''value'' [constant];
          (connection_ids, c3, g3) = connect_plot_ports c1 g2 module ''value'' plot_ports []
      in (ConnList (map ConnId connection_ids), c3, g3))"

subsection \<open>create\_pipeline\<close>

text \<open>Python's \<^verbatim>\<open>str\<close> of an integer, for the \<^verbatim>\<open>Row\<close> and \<^verbatim>\<open>Column\<close> values.\<close>

fun str_nat :: "nat \<Rightarrow> string" where
  "str_nat n =
     (if n < 10 then [''0123456789'' ! n] else str_nat (n div 10) @ [''0123456789'' ! (n mod 10)])"

declare str_nat.simps [simp del]

definition str_int :: "int \<Rightarrow> string" where
  "str_int i = (if i < 0 then CHR ''-'' # str_nat (nat (- i)) else str_nat (nat i))"

text \<open>\<^verbatim>\<open>d.setdefault(k, []).append(v)\<close>.\<close>

definition dict_append :: "'k \<Rightarrow> 'v \<Rightarrow> ('k \<times> 'v list) list \<Rightarrow> ('k \<times> 'v list) list" where
  "dict_append k v d = dict_set k (dict_get d k @ [v]) d"

text \<open>Every module of the plot subworkflow but the InputPorts is copied.\<close>

fun copy_plot_modules ::
  "controller \<Rightarrow> generator \<Rightarrow> pmodule list \<Rightarrow> (nat \<times> pmodule) list \<Rightarrow>
   (nat \<times> pmodule) list \<times> controller \<times> generator" where
  "copy_plot_modules c g [] plot_modules_map = (plot_modules_map, c, g)"
| "copy_plot_modules c g (module # ms) plot_modules_map =
     (if module_descriptor module \<noteq> InputPort then
        (let (m, c', g') = copy_module c g module
         in copy_plot_modules c' g' ms (dict_set (m_id module) m plot_modules_map))
      else copy_plot_modules c g ms plot_modules_map)"

text \<open>\<^verbatim>\<open>_get_or_create_module(moduleType)\<close>; the warning has no effect on the result.\<close>

definition get_or_create_module ::
  "controller \<Rightarrow> generator \<Rightarrow> pipeline \<Rightarrow> (nat \<times> pmodule) list \<Rightarrow> descriptor \<Rightarrow>
   (error + pmodule \<times> bool) \<times> controller \<times> generator" where
  "get_or_create_module c g plot_pipeline plot_modules_map moduleType =
     (case find_modules_by_type c plot_pipeline [moduleType] of
        [] \<Rightarrow>
          (let (module, c') = create_module_from_descriptor c moduleType
           in (Inr (module, True), c', add_module g module))
      | m # ms \<Rightarrow>
          (case map_of plot_modules_map (m_id m) of
             None \<Rightarrow> (Inl KeyError, c, g)
           | Some module \<Rightarrow> (Inr (module, False), c, g)))"

text \<open>The CellLocation of the plot is found or created, connected and given its cell.\<close>

definition connect_cell_location ::
  "controller \<Rightarrow> generator \<Rightarrow> pipeline \<Rightarrow> (nat \<times> pmodule) list \<Rightarrow> cell_info \<Rightarrow>
   (error + unit) \<times> controller \<times> generator" where
  "connect_cell_location c g plot_pipeline plot_modules_map cell =
     (case find_modules_by_type c plot_pipeline [SpreadsheetCell] of
        [] \<Rightarrow> (Inr (), c, g)
      | cm # cms \<Rightarrow>
          (case get_or_create_module c g plot_pipeline plot_modules_map CellLocation of
             (Inl e, c1, g1) \<Rightarrow> (Inl e, c1, g1)
           | (Inr (location_module, new_location), c1, g1) \<Rightarrow>
               (case (if new_location then
                        (case map_of plot_modules_map (m_id cm) of
                           None \<Rightarrow> (Inl KeyError, c1, g1)
                         | Some cell_module \<Rightarrow>
                             (let (i, c2, g2) =
                                    connect_modules c1 g1 location_module ''self''
                                      cell_module ''Location''
                              in (Inr (), c2, g2)))
                      else (Inr (), c1, g1)) of
                  (Inl e, c2, g2) \<Rightarrow> (Inl e, c2, g2)
                | (Inr u, c2, g2) \<Rightarrow>
                    (let g3 = update_function g2 location_module ''Row'' [str_int (row cell + 1)];
                         g4 = update_function g3 location_module ''Column''
                                [str_int (column cell + 1)]
                     in (Inr (), c2, g4)))))"

text \<open>
  The connections of the plot subworkflow: one that leaves an InputPort is recorded under
  the parameter name of the port, the others are copied between the copies.
\<close>

type_synonym plot_params = "(string option \<times> (pmodule \<times> string) list) list"

fun copy_plot_connections ::
  "controller \<Rightarrow> generator \<Rightarrow> pipeline \<Rightarrow> (nat \<times> pmodule) list \<Rightarrow> connection list \<Rightarrow>
   plot_params \<Rightarrow> (error + plot_params) \<times> controller \<times> generator" where
  "copy_plot_connections c g plot_pipeline plot_modules_map [] plot_params =
     (Inr plot_params, c, g)"
| "copy_plot_connections c g plot_pipeline plot_modules_map (connection # cs) plot_params =
     (case modules_get plot_pipeline (source_moduleId connection) of
        None \<Rightarrow> (Inl KeyError, c, g)
      | Some src \<Rightarrow>
          (if module_descriptor src = InputPort then
             (case map_of plot_modules_map (destination_moduleId connection) of
                None \<Rightarrow> (Inl KeyError, c, g)
              | Some dest \<Rightarrow>
                  copy_plot_connections c g plot_pipeline plot_modules_map cs
                    (dict_append (get_function src ''name'')
                       (dest, destination_name connection) plot_params))
           else
             (case map_of plot_modules_map (source_moduleId connection) of
                None \<Rightarrow> (Inl KeyError, c, g)
              | Some s \<Rightarrow>
                  (case map_of plot_modules_map (destination_moduleId connection) of
                     None \<Rightarrow> (Inl KeyError, c, g)
                   | Some dest \<Rightarrow>
                       (let (i, c', g') =
                              connect_modules c g s (source_name connection)
                                dest (destination_name connection)
                        in copy_plot_connections c' g' plot_pipeline plot_modules_map cs
                             plot_params)))))"

text \<open>\<^verbatim>\<open>for parameter in parameters\<close>: one group of \<open>p_conns\<close> for each parameter.\<close>

fun create_parameters ::
  "controller \<Rightarrow> generator \<Rightarrow> recipe \<Rightarrow> typecast_fn option \<Rightarrow> (pmodule \<times> string) list \<Rightarrow> string \<Rightarrow>
   recipe_parameter_value list \<Rightarrow> conn_group list \<Rightarrow>
   (error + conn_group list) \<times> controller \<times> generator" where
  "create_parameters c g r typecast plot_ports pname [] p_conns = (Inr p_conns, c, g)"
| "create_parameters c g r typecast plot_ports pname (parameter # ps) p_conns =
     (case name_to_port r pname of
        None \<Rightarrow> (Inl KeyError, c, g)
      | Some prt \<Rightarrow>
          (case parameter of
             Variable v \<Rightarrow>
               (case add_variable_subworkflow_typecast c g v plot_ports (port_type prt) typecast of
                  (Inl e, c', g') \<Rightarrow> (Inl e, c', g')
                | (Inr grp, c', g') \<Rightarrow>
                    create_parameters c' g' r typecast plot_ports pname ps (p_conns @ [grp]))
           | Constant k \<Rightarrow>
               (let (grp, c', g') = add_constant_module c g (port_type prt) k plot_ports
                in create_parameters c' g' r typecast plot_ports pname ps (p_conns @ [grp]))))"

text \<open>\<^verbatim>\<open>for port_name, parameters in recipe.parameters.iteritems()\<close>.\<close>

fun create_ports ::
  "controller \<Rightarrow> generator \<Rightarrow> recipe \<Rightarrow> typecast_fn option \<Rightarrow> plot_params \<Rightarrow> string list \<Rightarrow>
   (string \<times> conn_group list) list \<Rightarrow>
   (error + (string \<times> conn_group list) list) \<times> controller \<times> generator" where
  "create_ports c g r typecast plot_params [] cmap = (Inr cmap, c, g)"
| "create_ports c g r typecast plot_params (pname # pnames) cmap =
     (case create_parameters c g r typecast (dict_get plot_params (Some pname)) pname
             (dict_get (parameters r) pname) [] of
        (Inl e, c', g') \<Rightarrow> (Inl e, c', g')
      | (Inr p_conns, c', g') \<Rightarrow>
          create_ports c' g' r typecast plot_params pnames (dict_set pname p_conns cmap))"

text \<open>
  \<^verbatim>\<open>create_pipeline(controller, recipe, cell_info, typecast=None)\<close>. The result is the
  pipeline information or the exception, and the controller after the call.
\<close>

definition create_pipeline ::
  "controller \<Rightarrow> recipe \<Rightarrow> cell_info \<Rightarrow> typecast_fn option \<Rightarrow>
   (error + pipeline_information) \<times> controller" where
  "create_pipeline controller r cell typecast =
   (case change_selected_version controller 0 of
      Inl e \<Rightarrow> (Inl e, controller)
    | Inr c0 \<Rightarrow>
    (case map_of (files c0) (subworkflow (plot r)) of
      None \<Rightarrow> (Inl IOError, c0)
    | Some plot_pipeline \<Rightarrow>
    (let (plot_modules_map, c1, g1) =
           copy_plot_modules c0 (PipelineGenerator c0) (module_list plot_pipeline) []
     in case connect_cell_location c1 g1 plot_pipeline plot_modules_map cell of
      (Inl e, c2, g2) \<Rightarrow> (Inl e, c2)
    | (Inr u, c2, g2) \<Rightarrow>
    (case copy_plot_connections c2 g2 plot_pipeline plot_modules_map
            (connection_list plot_pipeline) [] of
      (Inl e, c3, g3) \<Rightarrow> (Inl e, c3)
    | (Inr plot_params, c3, g3) \<Rightarrow>
    (case create_ports c3 g3 r typecast plot_params (dict_keys (parameters r)) [] of
      (Inl e, c4, g4) \<Rightarrow> (Inl e, c4)
    | (Inr cmap, c4, g4) \<Rightarrow>
    (case (if current_version c4 \<noteq> 0 then change_selected_version c4 0 else Inr c4) of
      Inl e \<Rightarrow> (Inl e, c4)
    | Inr c5 \<Rightarrow>
    (case perform_action c5 g4 of
      (Inl e, c6) \<Rightarrow> (Inl e, c6)
    | (Inr pipeline_version, c6) \<Rightarrow>
    (let c7 = change_description c6 (''Created DAT plot '' @ plot_name (plot r)) pipeline_version
     in case change_selected_version c7 pipeline_version of
      Inl e \<Rightarrow> (Inl e, c7)
    | Inr c8 \<Rightarrow>
        (Inr \<lparr>version = pipeline_version, pi_recipe = r, conn_map = cmap,
              port_map = map (\<lambda>param. (param, map (\<lambda>(module, prt). (m_id module, prt))
                                                  (dict_get plot_params param)))
                           (dict_keys plot_params)\<rparr>, c8)))))))))"

subsection \<open>update\_pipeline\<close>

text \<open>
  \<^verbatim>\<open>old_params\<close>, the dictionary from a binding of the old recipe to the list of the
  connection groups of its occurrences on the port, in order.
\<close>

type_synonym old_params = "(recipe_parameter_value \<times> conn_item list list) list"

fun build_old_params ::
  "(string \<times> conn_group list) list \<Rightarrow> string \<Rightarrow> recipe_parameter_value list \<Rightarrow> nat \<Rightarrow>
   old_params \<Rightarrow> error + old_params" where
  "build_old_params cmap pname [] i old_params = Inr old_params"
| "build_old_params cmap pname (param # ps) i old_params =
     (case map_of cmap pname of
        None \<Rightarrow> Inl KeyError
      | Some groups \<Rightarrow>
          (if i < length groups then
             build_old_params cmap pname ps (Suc i)
               (dict_append param (py_list (groups ! i)) old_params)
           else Inl IndexError))"

text \<open>
  \<^verbatim>\<open>for param in new_params\<close>. A binding found in \<open>old_params\<close> takes the first group
  left for it (\<^verbatim>\<open>old.pop(0)\<close>); any other binding is added to the pipeline.
\<close>

fun update_new_params ::
  "controller \<Rightarrow> generator \<Rightarrow> pipeline \<Rightarrow> pipeline_information \<Rightarrow> recipe \<Rightarrow> typecast_fn option \<Rightarrow>
   string \<Rightarrow> recipe_parameter_value list \<Rightarrow> old_params \<Rightarrow> conn_group list \<Rightarrow> string list \<Rightarrow>
   (error + old_params \<times> conn_group list \<times> string list) \<times> controller \<times> generator" where
  "update_new_params c g pipeline info new_recipe typecast pname [] old_params conn_lists
     added_params = (Inr (old_params, conn_lists, added_params), c, g)"
| "update_new_params c g pipeline info new_recipe typecast pname (param # ps) old_params
     conn_lists added_params =
     (case map_of old_params param of
        Some (old_conns # old) \<Rightarrow>
          update_new_params c g pipeline info new_recipe typecast pname ps
            (if old = [] then dict_del param old_params else dict_set param old old_params)
            (conn_lists @ [ConnList old_conns]) added_params
      | _ \<Rightarrow>
          (case map_of (port_map info) (Some pname) of
             None \<Rightarrow> (Inl KeyError, c, g)
           | Some pm \<Rightarrow>
               (case those (map (\<lambda>(mod_id, prt).
                                   map_option (\<lambda>m. (m, prt)) (modules_get pipeline mod_id)) pm) of
                  None \<Rightarrow> (Inl KeyError, c, g)
                | Some plot_ports \<Rightarrow>
                    (case name_to_port new_recipe pname of
                       None \<Rightarrow> (Inl KeyError, c, g)
                     | Some prt \<Rightarrow>
                         (case param of
                            Variable v \<Rightarrow>
                              (case add_variable_subworkflow_typecast c g v plot_ports
                                      (port_type prt) typecast of
                                 (Inl e, c', g') \<Rightarrow> (Inl e, c', g')
                               | (Inr grp, c', g') \<Rightarrow>
                                   update_new_params c' g' pipeline info new_recipe typecast
                                     pname ps old_params (conn_lists @ [grp])
                                     (added_params @ [pname]))
                          | Constant k \<Rightarrow>
                              (let (grp, c', g') =
                                     add_constant_module c g (port_type prt) k plot_ports
                               in update_new_params c' g' pipeline info new_recipe typecast
                                    pname ps old_params (conn_lists @ [grp])
                                    (added_params @ [pname])))))))"

text \<open>\<^verbatim>\<open>pipeline.connections[c]\<close> for an item of a group: only a connection id is a key.\<close>

fun connection_of_item :: "pipeline \<Rightarrow> conn_item \<Rightarrow> connection option" where
  "connection_of_item p (ConnId i) = connections_get p i"
| "connection_of_item p _ = None"

text \<open>\<^verbatim>\<open>lambda c: c not in connections\<close>, the connection filter of a removal.\<close>

definition not_in_connections :: "connection list \<Rightarrow> connection \<Rightarrow> bool" where
  "not_in_connections connections c = (c \<notin> set connections)"

text \<open>
  \<^verbatim>\<open>for connections in conn_lists\<close>: the subworkflow of a binding that is left in
  \<open>old_params\<close> is removed, from the modules its connections come from.
\<close>

fun delete_old_connections ::
  "controller \<Rightarrow> generator \<Rightarrow> pipeline \<Rightarrow> string \<Rightarrow> conn_item list list \<Rightarrow> string list \<Rightarrow>
   (error + string list) \<times> generator" where
  "delete_old_connections c g pipeline pname [] removed_params = (Inr removed_params, g)"
| "delete_old_connections c g pipeline pname (items # rest) removed_params =
     (case those (map (connection_of_item pipeline) items) of
        None \<Rightarrow> (Inl KeyError, g)
      | Some cs \<Rightarrow>
          (let connections = remdups cs
           in case those (map (\<lambda>c. modules_get pipeline (source_moduleId c)) connections) of
                None \<Rightarrow> (Inl KeyError, g)
              | Some ms \<Rightarrow>
                  (case generator_delete_linked c g (Modules (remdups ms)) (\<lambda>m. True)
                          (not_in_connections connections) sys_maxint of
                     (Inl e, g') \<Rightarrow> (Inl e, g')
                   | (Inr u, g') \<Rightarrow>
                       delete_old_connections c g' pipeline pname rest
                         (removed_params @ [pname]))))"

text \<open>\<^verbatim>\<open>for conn_lists in old_params.itervalues()\<close>.\<close>

fun delete_old_params ::
  "controller \<Rightarrow> generator \<Rightarrow> pipeline \<Rightarrow> string \<Rightarrow> conn_item list list list \<Rightarrow> string list \<Rightarrow>
   (error + string list) \<times> generator" where
  "delete_old_params c g pipeline pname [] removed_params = (Inr removed_params, g)"
| "delete_old_params c g pipeline pname (conn_lists # rest) removed_params =
     (case delete_old_connections c g pipeline pname conn_lists removed_params of
        (Inl e, g') \<Rightarrow> (Inl e, g')
      | (Inr removed_params', g') \<Rightarrow>
          delete_old_params c g' pipeline pname rest removed_params')"

text \<open>
  The loop over the port names of both recipes. The state is the new connection map and
  the two lists \<open>added_params\<close> and \<open>removed_params\<close>.
\<close>

fun update_ports ::
  "controller \<Rightarrow> generator \<Rightarrow> pipeline \<Rightarrow> pipeline_information \<Rightarrow> recipe \<Rightarrow> typecast_fn option \<Rightarrow>
   string list \<Rightarrow> (string \<times> conn_group list) list \<Rightarrow> string list \<Rightarrow> string list \<Rightarrow>
   (error + (string \<times> conn_group list) list \<times> string list \<times> string list) \<times>
   controller \<times> generator" where
  "update_ports c g pipeline info new_recipe typecast [] cmap added_params removed_params =
     (Inr (cmap, added_params, removed_params), c, g)"
| "update_ports c g pipeline info new_recipe typecast (pname # pnames) cmap added_params
     removed_params =
     (case build_old_params (conn_map info) pname
             (dict_get (parameters (pi_recipe info)) pname) 0 [] of
        Inl e \<Rightarrow> (Inl e, c, g)
      | Inr old_params \<Rightarrow>
          (case update_new_params c g pipeline info new_recipe typecast pname
                  (dict_get (parameters new_recipe) pname) old_params (dict_get cmap pname)
                  added_params of
             (Inl e, c', g') \<Rightarrow> (Inl e, c', g')
           | (Inr (old_params', conn_lists, added_params'), c', g') \<Rightarrow>
               (case delete_old_params c' g' pipeline pname (map snd old_params')
                       removed_params of
                  (Inl e, g'') \<Rightarrow> (Inl e, c', g'')
                | (Inr removed_params', g'') \<Rightarrow>
                    update_ports c' g'' pipeline info new_recipe typecast pnames
                      (dict_set pname conn_lists cmap) added_params' removed_params')))"

text \<open>\<^verbatim>\<open>describe_dat_update(added_params, removed_params)\<close>.\<close>

definition describe_dat_update :: "string list \<Rightarrow> string list \<Rightarrow> error + string" where
  "describe_dat_update added_params removed_params =
     (if added_params \<noteq> [] \<and> removed_params = [] then
        (if length added_params = 1 then Inr (''Added DAT parameter to '' @ hd added_params)
         else if list_all (\<lambda>param. param = hd added_params) (tl added_params)
         then Inr (''Added DAT parameters to '' @ hd added_params)
         else Inr ''Added DAT parameters'')
      else if removed_params \<noteq> [] \<and> added_params = [] then
        (if length removed_params = 1
         then Inr (''Removed DAT parameter from '' @ hd removed_params)
         else if list_all (\<lambda>param. param = hd removed_params) (tl removed_params)
         then Inr (''Removed DAT parameters from '' @ hd removed_params)
         else Inr ''Removed DAT parameters'')
      else if length added_params = 1 \<and> length removed_params = 1
              \<and> hd added_params = hd removed_params
      then Inr (''Changed DAT parameter on '' @ hd added_params)
      else if added_params = [] \<and> removed_params = [] then Inl IndexError
      else (let prt = (if added_params \<noteq> [] then hd added_params else hd removed_params)
            in if list_all (\<lambda>param. param = prt) (added_params @ removed_params)
               then Inr (''Changed DAT parameters on '' @ prt)
               else Inr ''Changed DAT parameters''))"

text \<open>
  \<^verbatim>\<open>set(old_recipe.parameters.iterkeys()) | set(new_recipe.parameters.iterkeys())\<close>: the
  port names of the old recipe, then those only the new recipe has.
\<close>

definition port_names :: "pipeline_information \<Rightarrow> recipe \<Rightarrow> string list" where
  "port_names info new_recipe =
     dict_keys (parameters (pi_recipe info))
     @ filter (\<lambda>k. k \<notin> set (dict_keys (parameters (pi_recipe info))))
         (dict_keys (parameters new_recipe))"

text \<open>
  \<^verbatim>\<open>update_pipeline(controller, pipelineInfo, new_recipe, typecast=None)\<close>. The result is
  the pipeline information or the exception, and the controller after the call.
\<close>

definition update_pipeline ::
  "controller \<Rightarrow> pipeline_information \<Rightarrow> recipe \<Rightarrow> typecast_fn option \<Rightarrow>
   (error + pipeline_information) \<times> controller" where
  "update_pipeline controller pipelineInfo new_recipe typecast =
   (case change_selected_version controller (version pipelineInfo) of
      Inl e \<Rightarrow> (Inl e, controller)
    | Inr c0 \<Rightarrow>
    (if plot_object (plot (pi_recipe pipelineInfo)) \<noteq> plot_object (plot new_recipe)
     then (Inl UpdateError, c0)
     else
    (case update_ports c0 (PipelineGenerator c0) (current_pipeline c0) pipelineInfo new_recipe
            typecast (port_names pipelineInfo new_recipe) [] [] [] of
      (Inl e, c1, g1) \<Rightarrow> (Inl e, c1)
    | (Inr (cmap, added_params, removed_params), c1, g1) \<Rightarrow>
    (if added_params = [] \<and> removed_params = [] then (Inr pipelineInfo, c1)
     else
    (case (if current_version c1 \<noteq> version pipelineInfo
           then change_selected_version c1 (version pipelineInfo) else Inr c1) of
      Inl e \<Rightarrow> (Inl e, c1)
    | Inr c2 \<Rightarrow>
    (case perform_action c2 g1 of
      (Inl e, c3) \<Rightarrow> (Inl e, c3)
    | (Inr pipeline_version, c3) \<Rightarrow>
    (case describe_dat_update added_params removed_params of
      Inl e \<Rightarrow> (Inl e, c3)
    | Inr d \<Rightarrow>
    (let c4 = change_description c3 d pipeline_version
     in case change_selected_version c4 pipeline_version of
      Inl e \<Rightarrow> (Inl e, c4)
    | Inr c5 \<Rightarrow>
        (Inr \<lparr>version = pipeline_version, pi_recipe = new_recipe, conn_map = cmap,
              port_map = port_map pipelineInfo\<rparr>, c5)))))))))"

subsection \<open>apply\_operation\_subworkflow\<close>

record operation_argument =
  arg_name :: string
  arg_types :: "descriptor list"






subsection \<open>A small vistrail\<close>

text \<open>
  The running example: a vistrail with the variables root (version 1), a variable
  \<open>VarA\<close> (version 2: a reader, a filter and the OutputPort) and a variable \<open>VarB\<close>
  (version 3: a reader and the OutputPort), and the subworkflow file of the plot
  \<open>Line\<close> with the two input ports \<open>data\<close> and \<open>color\<close>, a plotting module and a
  spreadsheet cell.
\<close>

definition ex_output_port :: pmodule where
  "ex_output_port =
     \<lparr>m_id = 0, module_descriptor = OutputPort,
      module_functions = [(''name'', [''value'']), (''spec'', [''Table''])]\<rparr>"

definition ex_root_pipeline :: pipeline where
  "ex_root_pipeline = \<lparr>module_list = [ex_output_port], connection_list = []\<rparr>"

definition ex_varA_pipeline :: pipeline where
  "ex_varA_pipeline =
     \<lparr>module_list =
        [ex_output_port,
         \<lparr>m_id = 1, module_descriptor = Other ''Reader'',
          module_functions = [(''file'', [''a.csv''])]\<rparr>,
         \<lparr>m_id = 2, module_descriptor = Other ''Filter'', module_functions = []\<rparr>],
      connection_list =
        [\<lparr>c_id = 0, source_moduleId = 1, source_name = ''out'',
          destination_moduleId = 2, destination_name = ''in''\<rparr>,
         \<lparr>c_id = 1, source_moduleId = 2, source_name = ''out'',
          destination_moduleId = 0, destination_name = ''InternalPipe''\<rparr>]\<rparr>"

definition ex_varB_pipeline :: pipeline where
  "ex_varB_pipeline =
     \<lparr>module_list =
        [ex_output_port,
         \<lparr>m_id = 3, module_descriptor = Other ''Reader'',
          module_functions = [(''file'', [''b.csv''])]\<rparr>],
      connection_list =
        [\<lparr>c_id = 2, source_moduleId = 3, source_name = ''out'',
          destination_moduleId = 0, destination_name = ''InternalPipe''\<rparr>]\<rparr>"

definition ex_line_pipeline :: pipeline where
  "ex_line_pipeline =
     \<lparr>module_list =
        [\<lparr>m_id = 1, module_descriptor = InputPort,
          module_functions = [(''name'', [''data''])]\<rparr>,
         \<lparr>m_id = 2, module_descriptor = InputPort,
          module_functions = [(''name'', [''color''])]\<rparr>,
         \<lparr>m_id = 3, module_descriptor = Other ''LinePlot'', module_functions = []\<rparr>,
         \<lparr>m_id = 4, module_descriptor = SpreadsheetCell, module_functions = []\<rparr>],
      connection_list =
        [\<lparr>c_id = 1, source_moduleId = 1, source_name = ''InternalPipe'',
          destination_moduleId = 3, destination_name = ''data''\<rparr>,
         \<lparr>c_id = 2, source_moduleId = 2, source_name = ''InternalPipe'',
          destination_moduleId = 3, destination_name = ''color''\<rparr>,
         \<lparr>c_id = 3, source_moduleId = 3, source_name = ''out'',
          destination_moduleId = 4, destination_name = ''in''\<rparr>]\<rparr>"

text \<open>A second plot subworkflow: its input port \<open>data\<close> is connected to nothing.\<close>

definition ex_bare_pipeline :: pipeline where
  "ex_bare_pipeline =
     \<lparr>module_list =
        [\<lparr>m_id = 1, module_descriptor = InputPort,
          module_functions = [(''name'', [''data''])]\<rparr>,
         \<lparr>m_id = 3, module_descriptor = Other ''LinePlot'', module_functions = []\<rparr>],
      connection_list = []\<rparr>"

definition ex_controller :: controller where
  "ex_controller =
     \<lparr>versions = [(1, ex_root_pipeline), (2, ex_varA_pipeline), (3, ex_varB_pipeline)],
      tags = [(''dat-vars'', 1), (''dat-var-VarA'', 2), (''dat-var-VarB'', 3)],
      current_version = 0,
      current_pipeline = empty_pipeline,
      next_module_id = 4,
      next_connection_id = 3,
      next_version = 4,
      descriptions = [],
      files = [(''line.xml'', ex_line_pipeline), (''bare.xml'', ex_bare_pipeline)],
      issubclass = (\<lambda>a b. a = b),
      descriptor_by_name = (\<lambda>s. Some (Other s))\<rparr>"

definition ex_line :: plot where
  "ex_line =
     \<lparr>plot_object = 1, plot_name = ''Line'', subworkflow = ''line.xml'',
      ports = [\<lparr>port_name = ''data'', port_type = Other ''Table'', optional = False,
                port_accepts = DATA\<rparr>,
               \<lparr>port_name = ''color'', port_type = Other ''String'', optional = True,
                port_accepts = INPUT\<rparr>]\<rparr>"

definition ex_varA :: variable_information where
  "ex_varA = \<lparr>var_name = ''VarA'', var_type = Other ''Table''\<rparr>"

definition ex_varB :: variable_information where
  "ex_varB = \<lparr>var_name = ''VarB'', var_type = Other ''Table''\<rparr>"

definition ex_cell :: cell_info where
  "ex_cell = \<lparr>row = 0, column = 0\<rparr>"

text \<open>The recipe \<open>{data: [VarA]}\<close> and the recipe \<open>{data: [VarA], color: [red]}\<close>.\<close>

definition ex_recipe1 :: recipe where
  "ex_recipe1 = \<lparr>plot = ex_line, parameters = [(''data'', [Variable ex_varA])]\<rparr>"

definition ex_recipe2 :: recipe where
  "ex_recipe2 =
     \<lparr>plot = ex_line,
      parameters = [(''data'', [Variable ex_varA]), (''color'', [Constant ''red''])]\<rparr>"

text \<open>
  What \<^verbatim>\<open>create_pipeline\<close> makes of the recipe \<open>{data: [VarA]}\<close> in this vistrail:
  version 4, with the copies of the plot modules (4 and 5), a new CellLocation (6) and
  the copies of the modules of \<open>VarA\<close> (7 and 8).
\<close>

definition ex_pipeline1 :: pipeline where
  "ex_pipeline1 =
     \<lparr>module_list =
        [\<lparr>m_id = 4, module_descriptor = Other ''LinePlot'', module_functions = []\<rparr>,
         \<lparr>m_id = 5, module_descriptor = SpreadsheetCell, module_functions = []\<rparr>,
         \<lparr>m_id = 6, module_descriptor = CellLocation,
          module_functions = [(''Row'', [''1'']), (''Column'', [''1''])]\<rparr>,
         \<lparr>m_id = 7, module_descriptor = Other ''Reader'',
          module_functions = [(''file'', [''a.csv''])]\<rparr>,
         \<lparr>m_id = 8, module_descriptor = Other ''Filter'', module_functions = []\<rparr>],
      connection_list =
        [\<lparr>c_id = 3, source_moduleId = 6, source_name = ''self'',
          destination_moduleId = 5, destination_name = ''Location''\<rparr>,
         \<lparr>c_id = 4, source_moduleId = 4, source_name = ''out'',
          destination_moduleId = 5, destination_name = ''in''\<rparr>,
         \<lparr>c_id = 5, source_moduleId = 7, source_name = ''out'',
          destination_moduleId = 8, destination_name = ''in''\<rparr>,
         \<lparr>c_id = 6, source_moduleId = 8, source_name = ''out'',
          destination_moduleId = 4, destination_name = ''data''\<rparr>]\<rparr>"

definition ex_info1 :: pipeline_information where
  "ex_info1 =
     \<lparr>version = 4, pi_recipe = ex_recipe1,
      conn_map = [(''data'', [ConnList [ConnId 6]])],
      port_map = [(Some ''data'', [(4, ''data'')]), (Some ''color'', [(4, ''color'')])]\<rparr>"

definition ex_controller1 :: controller where
  "ex_controller1 =
     ex_controller
       \<lparr>versions := (4, ex_pipeline1) # versions ex_controller,
        current_version := 4,
        current_pipeline := ex_pipeline1,
        next_module_id := 9,
        next_connection_id := 7,
        next_version := 5,
        descriptions := [(4, ''Created DAT plot Line'')]\<rparr>"

subsection \<open>Reconciliation of two binding lists, as the specification words it\<close>

text \<open>
  The old bindings of a port that are not consumed yet, each with its group, in order.
  \<open>consume_first\<close> takes the first of them that equals a new binding; \<open>reconcile\<close>
  gives, for each new binding in turn, the group it takes over (\<open>None\<close> when no old
  binding of that value is left), and the old bindings left over at the end.
\<close>

fun consume_first :: "'a \<Rightarrow> ('a \<times> 'b) list \<Rightarrow> ('b \<times> ('a \<times> 'b) list) option" where
  "consume_first x [] = None"
| "consume_first x ((y, g) # rest) =
     (if x = y then Some (g, rest)
      else (case consume_first x rest of
              None \<Rightarrow> None
            | Some (g', rest') \<Rightarrow> Some (g', (y, g) # rest')))"

fun reconcile :: "'a list \<Rightarrow> ('a \<times> 'b) list \<Rightarrow> 'b option list \<times> ('a \<times> 'b) list" where
  "reconcile [] olds = ([], olds)"
| "reconcile (n # ns) olds =
     (case consume_first n olds of
        None \<Rightarrow> (case reconcile ns olds of (ms, l) \<Rightarrow> (None # ms, l))
      | Some (g, olds') \<Rightarrow> (case reconcile ns olds' of (ms, l) \<Rightarrow> (Some g # ms, l)))"

text \<open>The old bindings of a port with the groups the prior connection map holds for them.\<close>

definition old_bindings ::
  "pipeline_information \<Rightarrow> string \<Rightarrow> (recipe_parameter_value \<times> conn_item list) list" where
  "old_bindings info pname =
     zip (dict_get (parameters (pi_recipe info)) pname)
         (map py_list (dict_get (conn_map info) pname))"


text \<open>
  How the dictionary \<open>old_params\<close> stands for the list of the old bindings not consumed
  yet: under each binding, the groups of its occurrences in order; no binding with an
  empty list.
\<close>

definition old_params_of :: "('a \<times> 'b list) list \<Rightarrow> ('a \<times> 'b) list \<Rightarrow> bool" where
  "old_params_of d L \<longleftrightarrow>
     distinct (map fst d) \<and> (\<forall>gs \<in> snd ` set d. gs \<noteq> []) \<and>
     (\<forall>k. dict_get d k = map snd (filter (\<lambda>(a, g). a = k) L))"

text \<open>
  The update of that pipeline to \<open>{data: [VarA], color: [red]}\<close> adds a constant module
  (9) and its connection (7), as version 5.
\<close>

definition ex_pipeline2 :: pipeline where
  "ex_pipeline2 =
     \<lparr>module_list =
        module_list ex_pipeline1
        @ [\<lparr>m_id = 9, module_descriptor = Other ''String'',
            module_functions = [(''value'', [''red''])]\<rparr>],
      connection_list =
        connection_list ex_pipeline1
        @ [\<lparr>c_id = 7, source_moduleId = 9, source_name = ''value'',
            destination_moduleId = 4, destination_name = ''color''\<rparr>]\<rparr>"

definition ex_info2 :: pipeline_information where
  "ex_info2 =
     \<lparr>version = 5, pi_recipe = ex_recipe2,
      conn_map = [(''data'', [ConnList [ConnId 6]]), (''color'', [ConnList [ConnId 7]])],
      port_map = port_map ex_info1\<rparr>"

definition ex_controller2 :: controller where
  "ex_controller2 =
     ex_controller1
       \<lparr>versions := (5, ex_pipeline2) # versions ex_controller1,
        current_version := 5,
        current_pipeline := ex_pipeline2,
        next_module_id := 10,
        next_connection_id := 8,
        next_version := 6,
        descriptions := (5, ''Added DAT parameter to color'') # descriptions ex_controller1\<rparr>"

text \<open>
  The update back to \<open>{data: [VarA]}\<close> deletes the constant module and its connection, as
  version 6; the port \<open>color\<close> stays in the connection map.
\<close>

definition ex_info3 :: pipeline_information where
  "ex_info3 =
     \<lparr>version = 6, pi_recipe = ex_recipe1,
      conn_map = [(''data'', [ConnList [ConnId 6]]), (''color'', [])],
      port_map = port_map ex_info1\<rparr>"

definition ex_controller3 :: controller where
  "ex_controller3 =
     ex_controller2
       \<lparr>versions := (6, ex_pipeline1) # versions ex_controller2,
        current_version := 6,
        current_pipeline := ex_pipeline1,
        next_version := 7,
        descriptions := (6, ''Removed DAT parameter from color'') # descriptions ex_controller2\<rparr>"

text \<open>A recipe of another plot.\<close>

definition ex_recipe_bar :: recipe where
  "ex_recipe_bar =
     \<lparr>plot = \<lparr>plot_object = 2, plot_name = ''Bar'', subworkflow = ''bar.xml'', ports = []\<rparr>,
      parameters = [(''data'', [Variable ex_varA])]\<rparr>"

subsection \<open>The invariant of the connection map\<close>

text \<open>
  The counting part: the connection map holds as many groups for a port as the recipe
  holds bindings for it.
\<close>

definition conn_map_counts :: "pipeline_information \<Rightarrow> bool" where
  "conn_map_counts info \<longleftrightarrow>
     list_all (\<lambda>pname. length (dict_get (conn_map info) pname)
                        = length (dict_get (parameters (pi_recipe info)) pname))
       (dict_keys (conn_map info) @ dict_keys (parameters (pi_recipe info)))"

text \<open>
  The plot of that second subworkflow, and the recipes that bind \<open>VarA\<close>, a constant, and
  nothing to its port.
\<close>

definition ex_bare :: plot where
  "ex_bare =
     \<lparr>plot_object = 3, plot_name = ''Bare'', subworkflow = ''bare.xml'',
      ports = [\<lparr>port_name = ''data'', port_type = Other ''Table'', optional = False,
                port_accepts = DATA\<rparr>]\<rparr>"

definition ex_recipe_bare :: recipe where
  "ex_recipe_bare = \<lparr>plot = ex_bare, parameters = [(''data'', [Variable ex_varA])]\<rparr>"

definition ex_recipe_bare_constant :: recipe where
  "ex_recipe_bare_constant = \<lparr>plot = ex_bare, parameters = [(''data'', [Constant ''1''])]\<rparr>"

definition ex_recipe_bare_empty :: recipe where
  "ex_recipe_bare_empty = \<lparr>plot = ex_bare, parameters = [(''data'', [])]\<rparr>"

subsection \<open>What a splice should produce\<close>



fun copies_from :: "nat \<Rightarrow> pmodule list \<Rightarrow> pmodule list" where
  "copies_from n [] = []"
| "copies_from n (m # ms) = m\<lparr>m_id := n\<rparr> # copies_from (Suc n) ms"


text \<open>A variable subworkflow with two OutputPort modules named \<open>value\<close>.\<close>

definition ex_two_outputs_pipeline :: pipeline where
  "ex_two_outputs_pipeline =
     \<lparr>module_list =
        [ex_output_port,
         \<lparr>m_id = 1, module_descriptor = Other ''Reader'',
          module_functions = [(''file'', [''a.csv''])]\<rparr>,
         \<lparr>m_id = 5, module_descriptor = OutputPort,
          module_functions = [(''name'', [''value''])]\<rparr>],
      connection_list =
        [\<lparr>c_id = 0, source_moduleId = 1, source_name = ''out'',
          destination_moduleId = 5, destination_name = ''InternalPipe''\<rparr>]\<rparr>"

text \<open>An operation subworkflow with an InputPort and no OutputPort.\<close>

definition ex_no_output_pipeline :: pipeline where
  "ex_no_output_pipeline =
     \<lparr>module_list =
        [\<lparr>m_id = 1, module_descriptor = InputPort,
          module_functions = [(''name'', [''x''])]\<rparr>,
         \<lparr>m_id = 2, module_descriptor = Other ''Filter'', module_functions = []\<rparr>],
      connection_list =
        [\<lparr>c_id = 0, source_moduleId = 1, source_name = ''InternalPipe'',
          destination_moduleId = 2, destination_name = ''in''\<rparr>]\<rparr>"

subsection \<open>What a removal should delete\<close>

text \<open>
  The modules linked to a set of seeds: the seeds, and every module of the pipeline at the
  other end of a connection that passes the connection filter and has a linked module at
  one end. The other end is computed as \<^verbatim>\<open>delete_linked\<close> computes it.
\<close>

definition other_end :: "pmodule \<Rightarrow> connection \<Rightarrow> nat" where
  "other_end m conn =
     (if source_moduleId conn = m_id m then destination_moduleId conn else source_moduleId conn)"

inductive_set linked :: "pipeline \<Rightarrow> (connection \<Rightarrow> bool) \<Rightarrow> pmodule set \<Rightarrow> pmodule set"
  for p :: pipeline and cf :: "connection \<Rightarrow> bool" and seeds :: "pmodule set" where
  seed: "m \<in> seeds \<Longrightarrow> m \<in> linked p cf seeds"
| step: "m \<in> linked p cf seeds \<Longrightarrow> conn \<in> set (module_connections p (m_id m)) \<Longrightarrow> cf conn \<Longrightarrow>
         modules_get p (other_end m conn) = Some m' \<Longrightarrow> m' \<in> linked p cf seeds"


text \<open>
  The recipe \<open>{data: [VarA, VarB]}\<close> compiled in the example vistrail (version 4: the
  pipeline of \<open>{data: [VarA]}\<close> with the copy of the reader of \<open>VarB\<close>, module 9, and
  its connection 7), and its update to \<open>{data: [VarB]}\<close> (version 5).
\<close>

definition ex_recipe_ab :: recipe where
  "ex_recipe_ab =
     \<lparr>plot = ex_line, parameters = [(''data'', [Variable ex_varA, Variable ex_varB])]\<rparr>"

definition ex_recipe_b :: recipe where
  "ex_recipe_b = \<lparr>plot = ex_line, parameters = [(''data'', [Variable ex_varB])]\<rparr>"

definition ex_conn6 :: connection where
  "ex_conn6 = \<lparr>c_id = 6, source_moduleId = 8, source_name = ''out'',
               destination_moduleId = 4, destination_name = ''data''\<rparr>"

definition ex_conn7 :: connection where
  "ex_conn7 = \<lparr>c_id = 7, source_moduleId = 9, source_name = ''out'',
               destination_moduleId = 4, destination_name = ''data''\<rparr>"

definition ex_filter_module :: pmodule where
  "ex_filter_module = \<lparr>m_id = 8, module_descriptor = Other ''Filter'', module_functions = []\<rparr>"

definition ex_pipeline_ab :: pipeline where
  "ex_pipeline_ab =
     \<lparr>module_list =
        module_list ex_pipeline1
        @ [\<lparr>m_id = 9, module_descriptor = Other ''Reader'',
            module_functions = [(''file'', [''b.csv''])]\<rparr>],
      connection_list = connection_list ex_pipeline1 @ [ex_conn7]\<rparr>"

definition ex_info_ab :: pipeline_information where
  "ex_info_ab =
     \<lparr>version = 4, pi_recipe = ex_recipe_ab,
      conn_map = [(''data'', [ConnList [ConnId 6], ConnList [ConnId 7]])],
      port_map = port_map ex_info1\<rparr>"

definition ex_controller_ab :: controller where
  "ex_controller_ab =
     ex_controller
       \<lparr>versions := (4, ex_pipeline_ab) # versions ex_controller,
        current_version := 4,
        current_pipeline := ex_pipeline_ab,
        next_module_id := 10,
        next_connection_id := 8,
        next_version := 5,
        descriptions := [(4, ''Created DAT plot Line'')]\<rparr>"

definition ex_pipeline_b :: pipeline where
  "ex_pipeline_b =
     \<lparr>module_list =
        [\<lparr>m_id = 4, module_descriptor = Other ''LinePlot'', module_functions = []\<rparr>,
         \<lparr>m_id = 5, module_descriptor = SpreadsheetCell, module_functions = []\<rparr>,
         \<lparr>m_id = 6, module_descriptor = CellLocation,
          module_functions = [(''Row'', [''1'']), (''Column'', [''1''])]\<rparr>,
         \<lparr>m_id = 9, module_descriptor = Other ''Reader'',
          module_functions = [(''file'', [''b.csv''])]\<rparr>],
      connection_list =
        [\<lparr>c_id = 3, source_moduleId = 6, source_name = ''self'',
          destination_moduleId = 5, destination_name = ''Location''\<rparr>,
         \<lparr>c_id = 4, source_moduleId = 4, source_name = ''out'',
          destination_moduleId = 5, destination_name = ''in''\<rparr>,
         ex_conn7]\<rparr>"

definition ex_info_b :: pipeline_information where
  "ex_info_b =
     \<lparr>version = 5, pi_recipe = ex_recipe_b,
      conn_map = [(''data'', [ConnList [ConnId 7]])],
      port_map = port_map ex_info1\<rparr>"

definition ex_controller_b :: controller where
  "ex_controller_b =
     ex_controller_ab
       \<lparr>versions := (5, ex_pipeline_b) # versions ex_controller_ab,
        current_version := 5,
        current_pipeline := ex_pipeline_b,
        next_version := 6,
        descriptions := (5, ''Removed DAT parameter from data'') # descriptions ex_controller_ab\<rparr>"



subsection \<open>Adding one constant binding, as the specification words it\<close>

text \<open>
  The groups a connection map holds for the bindings of one value on a port, in the order
  of the bindings.
\<close>

definition groups_of_value ::
  "recipe_parameter_value list \<Rightarrow> conn_group list \<Rightarrow> recipe_parameter_value \<Rightarrow>
   conn_item list list" where
  "groups_of_value params groups w =
     map snd (filter (\<lambda>(a, g). a = w) (zip params (map py_list groups)))"

text \<open>
  The operations that add one constant: a new module of the given descriptor with the next
  module id, its \<open>value\<close> function, and one connection from its \<open>value\<close> port to
  each plot port, with the next connection ids.
\<close>

definition constant_operations ::
  "controller \<Rightarrow> descriptor \<Rightarrow> string \<Rightarrow> (pmodule \<times> string) list \<Rightarrow> operation list" where
  "constant_operations c desc k plot_ports =
     [AddModule \<lparr>m_id = next_module_id c, module_descriptor = desc, module_functions = []\<rparr>,
      UpdateFunction (next_module_id c) ''value'' [k]]
     @ map (\<lambda>(i, (m, prt)).
              AddConnection \<lparr>c_id = i, source_moduleId = next_module_id c, source_name = ''value'',
                             destination_moduleId = m_id m, destination_name = prt\<rparr>)
           (enumerate (next_connection_id c) plot_ports)"

text \<open>
  An update with no additions and no removals: on every port of the two recipes, every new
  binding is matched with an old binding and no old binding is left over.
\<close>

definition no_additions_no_removals :: "pipeline_information \<Rightarrow> recipe \<Rightarrow> bool" where
  "no_additions_no_removals info new_recipe \<longleftrightarrow>
     list_all (\<lambda>pname.
                 None \<notin> set (fst (reconcile (dict_get (parameters new_recipe) pname)
                                     (old_bindings info pname)))
                 \<and> snd (reconcile (dict_get (parameters new_recipe) pname)
                          (old_bindings info pname)) = [])
       (port_names info new_recipe)"

text \<open>
  The recipe \<open>{data: [VarA, VarA]}\<close> compiled in the example vistrail (version 4: the
  pipeline of \<open>{data: [VarA]}\<close> with a second copy of the subworkflow of \<open>VarA\<close>, modules 9
  and 10, connections 7 and 8), and its update to \<open>{data: [VarA]}\<close> (version 5). The recipe
  \<open>{data: [VarB, VarA]}\<close> holds the bindings of \<open>{data: [VarA, VarB]}\<close> in the other
  order.
\<close>

definition ex_recipe_aa :: recipe where
  "ex_recipe_aa =
     \<lparr>plot = ex_line, parameters = [(''data'', [Variable ex_varA, Variable ex_varA])]\<rparr>"

definition ex_recipe_ba :: recipe where
  "ex_recipe_ba =
     \<lparr>plot = ex_line, parameters = [(''data'', [Variable ex_varB, Variable ex_varA])]\<rparr>"

definition ex_pipeline_aa :: pipeline where
  "ex_pipeline_aa =
     \<lparr>module_list =
        module_list ex_pipeline1
        @ [\<lparr>m_id = 9, module_descriptor = Other ''Reader'',
            module_functions = [(''file'', [''a.csv''])]\<rparr>,
           \<lparr>m_id = 10, module_descriptor = Other ''Filter'', module_functions = []\<rparr>],
      connection_list =
        connection_list ex_pipeline1
        @ [\<lparr>c_id = 7, source_moduleId = 9, source_name = ''out'',
            destination_moduleId = 10, destination_name = ''in''\<rparr>,
           \<lparr>c_id = 8, source_moduleId = 10, source_name = ''out'',
            destination_moduleId = 4, destination_name = ''data''\<rparr>]\<rparr>"

definition ex_info_aa :: pipeline_information where
  "ex_info_aa =
     \<lparr>version = 4, pi_recipe = ex_recipe_aa,
      conn_map = [(''data'', [ConnList [ConnId 6], ConnList [ConnId 8]])],
      port_map = port_map ex_info1\<rparr>"

definition ex_controller_aa :: controller where
  "ex_controller_aa =
     ex_controller
       \<lparr>versions := (4, ex_pipeline_aa) # versions ex_controller,
        current_version := 4,
        current_pipeline := ex_pipeline_aa,
        next_module_id := 11,
        next_connection_id := 9,
        next_version := 5,
        descriptions := [(4, ''Created DAT plot Line'')]\<rparr>"

definition ex_info_a :: pipeline_information where
  "ex_info_a =
     \<lparr>version = 5, pi_recipe = ex_recipe1,
      conn_map = [(''data'', [ConnList [ConnId 6]])],
      port_map = port_map ex_info1\<rparr>"

definition ex_controller_a :: controller where
  "ex_controller_a =
     ex_controller_aa
       \<lparr>versions := (5, ex_pipeline1) # versions ex_controller_aa,
        current_version := 5,
        current_pipeline := ex_pipeline1,
        next_version := 6,
        descriptions := (5, ''Removed DAT parameter from data'') # descriptions ex_controller_aa\<rparr>"

subsection \<open>What an update removes, as the specification words it\<close>

text \<open>
  The bindings an update leaves over are those \<open>reconcile\<close> leaves on each port; each has
  its group of the prior connection map. The connections of a group are those its
  connection ids name in the pipeline, its sources the modules these connections come
  from. The subgraph of a binding is what is linked to the sources through connections
  other than those of the group: the copy of the variable subworkflow, which the
  connections of the group tie to the plot.
\<close>

definition leftover_groups :: "pipeline_information \<Rightarrow> recipe \<Rightarrow> conn_item list list" where
  "leftover_groups info new_recipe =
     concat (map (\<lambda>pname. map snd (snd (reconcile (dict_get (parameters new_recipe) pname)
                                             (old_bindings info pname))))
               (port_names info new_recipe))"

definition group_connections :: "pipeline \<Rightarrow> conn_item list \<Rightarrow> connection list" where
  "group_connections p items = remdups (List.map_filter (connection_of_item p) items)"

definition group_sources :: "pipeline \<Rightarrow> conn_item list \<Rightarrow> pmodule list" where
  "group_sources p items =
     List.map_filter (\<lambda>conn. modules_get p (source_moduleId conn)) (group_connections p items)"

definition binding_subgraph :: "pipeline \<Rightarrow> conn_item list \<Rightarrow> pmodule set" where
  "binding_subgraph p items =
     linked p (not_in_connections (group_connections p items)) (set (group_sources p items))"

text \<open>
  The operations that delete, and the steps of an update that only stage additions: they
  leave the selected version, its pipeline and the versions of the vistrail as they are,
  and record no deletion.
\<close>

fun is_delete :: "operation \<Rightarrow> bool" where
  "is_delete (DeleteModule m) = True"
| "is_delete (DeleteConnection c) = True"
| "is_delete _ = False"

definition only_adds :: "controller \<Rightarrow> generator \<Rightarrow> controller \<Rightarrow> generator \<Rightarrow> bool" where
  "only_adds c g c' g' \<longleftrightarrow>
     current_pipeline c' = current_pipeline c \<and> current_version c' = current_version c
     \<and> versions c' = versions c \<and> tags c' = tags c
     \<and> filter is_delete (operations g') = filter is_delete (operations g)"

section \<open>Properties\<close>

subsection \<open>Facts about delete\_linked\<close>



lemma in_module_connections:
  "x \<in> set (module_connections p i) \<longleftrightarrow>
     x \<in> set (connection_list p) \<and> (source_moduleId x = i \<or> destination_moduleId x = i)"
  by (auto simp: module_connections_def)

lemma in_conn_to_delete:
  "x \<in> set (conn_to_delete p td) \<longleftrightarrow>
     x \<in> set (connection_list p) \<and>
     (source_moduleId x \<in> m_id ` set td \<or> destination_moduleId x \<in> m_id ` set td)"
  by (auto simp: conn_to_delete_def in_module_connections)

lemma connection_list_foldl_delete:
  "connection_list (foldl apply_operation p (map DeleteConnection cs)) =
     filter (\<lambda>x. c_id x \<notin> c_id ` set cs) (connection_list p)"
  by (induction cs arbitrary: p) (auto intro: filter_cong)

lemma connection_list_foldl_delete_module:
  "connection_list (foldl apply_operation p (map DeleteModule ms)) = connection_list p"
  by (induction ms arbitrary: p) auto

lemma module_list_foldl_delete_module:
  "module_list (foldl apply_operation p (map DeleteModule ms)) =
     filter (\<lambda>x. m_id x \<notin> m_id ` set ms) (module_list p)"
  by (induction ms arbitrary: p) (auto intro: filter_cong)

lemma module_list_foldl_delete_conn:
  "module_list (foldl apply_operation p (map DeleteConnection cs)) = module_list p"
  by (induction cs arbitrary: p) auto


subsection \<open>Dictionaries\<close>

lemma map_of_dict_set: "map_of (dict_set k v d) = (map_of d)(k \<mapsto> v)"
proof (cases "k \<in> fst ` set d")
  case False
  then have "map_of d k = None" by (simp add: map_of_eq_None_iff)
  with False show ?thesis
    by (auto simp: dict_set_def fun_eq_iff map_add_def split: option.splits)
next
  case True
  have "map_of (map (\<lambda>(a, b). if a = k then (a, v) else (a, b)) d) x = ((map_of d)(k \<mapsto> v)) x"
    if "k \<in> fst ` set d" for x using that
  proof (induction d)
    case Nil then show ?case by simp
  next
    case (Cons a d)
    obtain a1 a2 where a: "a = (a1, a2)" by (cases a)
    show ?case
    proof (cases "k \<in> fst ` set d")
      case True
      with Cons.IH a show ?thesis by auto
    next
      case False
      then have e: "map (\<lambda>(a, b). if a = k then (a, v) else (a, b)) d = d"
        by (induction d) auto
      from False Cons.prems a have "a1 = k" by auto
      with a e show ?thesis by auto
    qed
  qed
  with True show ?thesis by (auto simp: dict_set_def fun_eq_iff)
qed

lemma fst_dict_set: "fst ` set (dict_set k v d) = insert k (fst ` set d)"
proof (cases "k \<in> fst ` set d")
  case True
  have "map fst (map (\<lambda>(a, b). if a = k then (a, v) else (a, b)) d) = map fst d"
    by (induction d) auto
  then have "fst ` set (map (\<lambda>(a, b). if a = k then (a, v) else (a, b)) d) = fst ` set d"
    by (metis set_map)
  with True show ?thesis by (auto simp: dict_set_def)
next
  case False
  then show ?thesis by (simp add: dict_set_def)
qed

lemma map_fst_dict_set_in:
  "k \<in> fst ` set d \<Longrightarrow> map fst (dict_set k v d) = map fst d"
proof -
  assume a: "k \<in> fst ` set d"
  have "map fst (map (\<lambda>(a, b). if a = k then (a, v) else (a, b)) d) = map fst d"
    by (induction d) auto
  with a show ?thesis by (simp add: dict_set_def)
qed

lemma distinct_dict_set: "distinct (map fst d) \<Longrightarrow> distinct (map fst (dict_set k v d))"
proof (cases "k \<in> fst ` set d")
  case True
  assume "distinct (map fst d)"
  with True show ?thesis by (simp add: map_fst_dict_set_in)
next
  case False
  assume "distinct (map fst d)"
  with False show ?thesis by (simp add: dict_set_def)
qed

lemma dict_get_dict_set: "dict_get (dict_set k v d) k' = (if k' = k then v else dict_get d k')"
  by (simp add: dict_get_def map_of_dict_set)

lemma dict_get_dict_append:
  "dict_get (dict_append k v d) k' = (if k' = k then dict_get d k @ [v] else dict_get d k')"
  by (simp add: dict_append_def dict_get_dict_set)

lemma map_of_dict_del: "map_of (dict_del k d) = (map_of d)(k := None)"
  by (induction d) (auto simp: dict_del_def fun_eq_iff)

lemma dict_get_dict_del: "dict_get (dict_del k d) k' = (if k' = k then [] else dict_get d k')"
  by (simp add: dict_get_def map_of_dict_del)

lemma distinct_dict_del: "distinct (map fst d) \<Longrightarrow> distinct (map fst (dict_del k d))"
  by (induction d) (auto simp: dict_del_def)

lemma set_dict_del: "set (dict_del k d) \<subseteq> set d"
  by (auto simp: dict_del_def)

lemma snd_set_dict_set:
  "snd ` set (dict_set k v d) \<subseteq> insert v (snd ` set d)"
proof
  fix x assume "x \<in> snd ` set (dict_set k v d)"
  then obtain a where ax: "(a, x) \<in> set (dict_set k v d)" by force
  then have "map_of (dict_set k v d) a \<noteq> None \<and> True" by (force simp: map_of_eq_None_iff)
  show "x \<in> insert v (snd ` set d)"
  proof (cases "k \<in> fst ` set d")
    case True
    with ax obtain a0 b0 where "(a0, b0) \<in> set d" "(a, x) = (if a0 = k then (a0, v) else (a0, b0))"
      by (auto simp: dict_set_def)
    then show ?thesis by (force split: if_splits)
  next
    case False
    with ax show ?thesis by (force simp: dict_set_def)
  qed
qed

lemma old_params_of_Nil: "old_params_of [] []"
  by (simp add: old_params_of_def dict_get_def)

lemma old_params_of_append:
  assumes "old_params_of d L"
  shows "old_params_of (dict_append k g d) (L @ [(k, g)])"
proof -
  have ne: "\<forall>gs \<in> snd ` set d. gs \<noteq> []" using assms by (simp add: old_params_of_def)
  have "\<forall>gs \<in> snd ` set (dict_append k g d). gs \<noteq> []"
  proof
    fix gs assume "gs \<in> snd ` set (dict_append k g d)"
    then have "gs \<in> insert (dict_get d k @ [g]) (snd ` set d)"
      using snd_set_dict_set[of k "dict_get d k @ [g]" d] by (auto simp: dict_append_def)
    then show "gs \<noteq> []" using ne by auto
  qed
  moreover have "distinct (map fst (dict_append k g d))"
    using assms by (simp add: old_params_of_def dict_append_def distinct_dict_set)
  moreover have "\<forall>k'. dict_get (dict_append k g d) k' = map snd (filter (\<lambda>(a, g). a = k') (L @ [(k, g)]))"
    using assms by (simp add: old_params_of_def dict_get_dict_append)
  ultimately show ?thesis by (simp add: old_params_of_def)
qed

lemma consume_first_None: "consume_first k L = None \<longleftrightarrow> k \<notin> fst ` set L"
proof (induction L)
  case Nil then show ?case by simp
next
  case (Cons a L)
  obtain y h where a: "a = (y, h)" by (cases a)
  show ?case using Cons a by (auto split: option.splits)
qed

lemma consume_first_Some:
  "consume_first k L = Some (g, L') \<Longrightarrow>
   \<exists>L1 L2. L = L1 @ (k, g) # L2 \<and> L' = L1 @ L2 \<and> k \<notin> fst ` set L1"
proof (induction L arbitrary: L')
  case Nil
  then show ?case by simp
next
  case (Cons a L)
  obtain y h where a: "a = (y, h)" by (cases a)
  show ?case
  proof (cases "k = y")
    case True
    with Cons.prems a have "a # L = [] @ (k, g) # L \<and> L' = [] @ L \<and> k \<notin> fst ` set []" by auto
    then show ?thesis by blast
  next
    case False
    with Cons.prems a obtain r where cf: "consume_first k L = Some (g, r)" and L': "L' = (y, h) # r"
      by (auto split: option.splits)
    from Cons.IH[OF cf] obtain L1 L2 where "L = L1 @ (k, g) # L2" "r = L1 @ L2" "k \<notin> fst ` set L1"
      by blast
    with False a L' have "a # L = ((y, h) # L1) @ (k, g) # L2 \<and> L' = ((y, h) # L1) @ L2 \<and> k \<notin> fst ` set ((y, h) # L1)"
      by auto
    then show ?thesis by blast
  qed
qed

lemma filter_key_empty: "k \<notin> fst ` set L \<Longrightarrow> filter (\<lambda>(a, g). a = k) L = []"
  by (induction L) auto

lemma old_params_of_lookup_None:
  assumes "old_params_of d L" "k \<notin> fst ` set L"
  shows "map_of d k = None"
proof (rule ccontr)
  assume "map_of d k \<noteq> None"
  then obtain gs where m: "map_of d k = Some gs" by auto
  then have "(k, gs) \<in> set d" by (rule map_of_SomeD)
  then have "gs \<noteq> []" using assms(1) by (force simp: old_params_of_def)
  moreover have "dict_get d k = gs" using m by (simp add: dict_get_def)
  ultimately show False using assms(1) filter_key_empty[OF assms(2)] by (simp add: old_params_of_def)
qed

lemma old_params_of_consume:
  assumes "old_params_of d L" "consume_first k L = Some (g, L')"
  shows "\<exists>rest. map_of d k = Some (g # rest) \<and>
           old_params_of (if rest = [] then dict_del k d else dict_set k rest d) L'"
proof -
  from consume_first_Some[OF assms(2)] obtain L1 L2 where
    L: "L = L1 @ (k, g) # L2" and L': "L' = L1 @ L2" and k: "k \<notin> fst ` set L1" by blast
  have f1: "filter (\<lambda>(a, g). a = k) L1 = []" using k by (rule filter_key_empty)
  let ?rest = "map snd (filter (\<lambda>(a, g). a = k) L2)"
  have dg: "dict_get d k = g # ?rest"
    using assms(1) by (simp add: old_params_of_def L f1)
  then have m: "map_of d k = Some (g # ?rest)"
    by (auto simp: dict_get_def split: option.splits)
  have all: "\<forall>k'. dict_get d k' = map snd (filter (\<lambda>(a, g). a = k') L)"
    using assms(1) by (simp add: old_params_of_def)
  have other: "\<And>k'. k' \<noteq> k \<Longrightarrow> dict_get d k' = map snd (filter (\<lambda>(a, g). a = k') L')"
    using all by (simp add: L L')
  have same: "map snd (filter (\<lambda>(a, g). a = k) L') = ?rest"
    by (simp add: L' f1)
  have dist: "distinct (map fst d)" and ne: "\<forall>gs \<in> snd ` set d. gs \<noteq> []"
    using assms(1) by (simp_all add: old_params_of_def)
  show ?thesis
  proof (cases "?rest = []")
    case True
    have "old_params_of (dict_del k d) L'"
      unfolding old_params_of_def
    proof (intro conjI allI)
      show "distinct (map fst (dict_del k d))" using dist by (rule distinct_dict_del)
      show "\<forall>gs \<in> snd ` set (dict_del k d). gs \<noteq> []"
        using ne set_dict_del[of k d] by blast
      fix k' show "dict_get (dict_del k d) k' = map snd (filter (\<lambda>(a, g). a = k') L')"
        using other[of k'] same True by (simp add: dict_get_dict_del)
    qed
    with m True show ?thesis by auto
  next
    case False
    have "old_params_of (dict_set k ?rest d) L'"
      unfolding old_params_of_def
    proof (intro conjI allI)
      show "distinct (map fst (dict_set k ?rest d))" using dist by (rule distinct_dict_set)
      show "\<forall>gs \<in> snd ` set (dict_set k ?rest d). gs \<noteq> []"
        using ne snd_set_dict_set[of k ?rest d] False by blast
      fix k' show "dict_get (dict_set k ?rest d) k' = map snd (filter (\<lambda>(a, g). a = k') L')"
        using other[of k'] same by (simp add: dict_get_dict_set)
    qed
    with m False show ?thesis by auto
  qed
qed

lemma old_params_of_empty:
  assumes "old_params_of d []" shows "d = []"
proof (cases d)
  case Nil then show ?thesis .
next
  case (Cons a d')
  obtain k gs where a: "a = (k, gs)" by (cases a)
  have "gs \<noteq> []" using assms Cons a by (simp add: old_params_of_def)
  moreover have "dict_get d k = gs" using Cons a by (simp add: dict_get_def)
  ultimately show ?thesis using assms by (simp add: old_params_of_def)
qed

subsection \<open>Reconciliation\<close>

lemma length_reconcile: "length (fst (reconcile news L)) = length news"
proof (induction news arbitrary: L)
  case Nil
  then show ?case by simp
next
  case (Cons n news)
  show ?case
  proof (cases "consume_first n L")
    case None
    then show ?thesis using Cons[of L] by (cases "reconcile news L") simp
  next
    case (Some a)
    obtain g L' where "a = (g, L')" by (cases a)
    with Some show ?thesis using Cons[of L'] by (cases "reconcile news L'") simp
  qed
qed

lemma reconcile_prefix:
  "length gs = length xs \<Longrightarrow>
   reconcile (xs @ news) (zip xs gs @ L) =
     (map Some gs @ fst (reconcile news L), snd (reconcile news L))"
proof (induction xs arbitrary: gs)
  case Nil
  then show ?case by simp
next
  case (Cons x xs)
  then obtain g gs' where gs: "gs = g # gs'" by (cases gs) auto
  with Cons show ?case by (simp split: prod.splits)
qed

lemma zip_take_length: "zip xs gs = zip xs (take (length xs) gs)"
proof -
  have "zip xs gs = take (length xs) (zip xs gs)" by simp
  also have "\<dots> = zip (take (length xs) xs) (take (length xs) gs)" by (rule take_zip)
  finally show ?thesis by simp
qed

lemma reconcile_same:
  assumes "length xs \<le> length gs"
  shows "reconcile xs (zip xs gs) = (map Some (take (length xs) gs), [])"
proof -
  have "reconcile (xs @ []) (zip xs (take (length xs) gs) @ []) =
        (map Some (take (length xs) gs) @ fst (reconcile [] ([]::('a \<times> 'b) list)),
         snd (reconcile [] ([]::('a \<times> 'b) list)))"
    by (rule reconcile_prefix) (simp add: assms)
  then show ?thesis using zip_take_length[of xs gs] by simp
qed

subsection \<open>The loops of update\_pipeline on one port\<close>

lemma build_old_params_ok:
  assumes "build_old_params cmap pname ps i d = Inr d'" "old_params_of d L"
  shows "old_params_of d' (L @ zip ps (map py_list (drop i (dict_get cmap pname))))
         \<and> (ps \<noteq> [] \<longrightarrow> i + length ps \<le> length (dict_get cmap pname))"
  using assms
proof (induction ps arbitrary: i d L)
  case Nil
  then show ?case by simp
next
  case (Cons p ps)
  from Cons.prems(1) obtain groups where
    g: "map_of cmap pname = Some groups" and i: "i < length groups" and
    rec: "build_old_params cmap pname ps (Suc i) (dict_append p (py_list (groups ! i)) d) = Inr d'"
    by (auto split: option.splits if_splits)
  have dg: "dict_get cmap pname = groups" using g by (simp add: dict_get_def)
  from Cons.IH[OF rec old_params_of_append[OF Cons.prems(2)]]
  have ih: "old_params_of d' ((L @ [(p, py_list (groups ! i))]) @ zip ps (map py_list (drop (Suc i) groups)))"
    and len: "ps \<noteq> [] \<longrightarrow> Suc i + length ps \<le> length groups"
    by (simp_all add: dg)
  have "drop i groups = groups ! i # drop (Suc i) groups"
    using i by (simp add: Cons_nth_drop_Suc)
  then show ?case using ih len i by (auto simp: dg)
qed

lemma build_old_params_succeeds:
  "ps = [] \<or> i + length ps \<le> length (dict_get cmap pname) \<Longrightarrow>
   \<exists>d'. build_old_params cmap pname ps i d = Inr d'"
proof (induction ps arbitrary: i d)
  case Nil
  then show ?case by simp
next
  case (Cons p ps)
  then have len: "i + length (p # ps) \<le> length (dict_get cmap pname)" by simp
  then obtain groups where g: "map_of cmap pname = Some groups"
    by (cases "map_of cmap pname") (auto simp: dict_get_def)
  then have dg: "dict_get cmap pname = groups" by (simp add: dict_get_def)
  have "ps = [] \<or> Suc i + length ps \<le> length (dict_get cmap pname)" using len by auto
  from Cons.IH[OF this] show ?case using g len dg by auto
qed

lemma update_new_params_refines:
  assumes "update_new_params c g p info r tc pname news d cl added = (Inr (d', cl', added'), c', g')"
      and "old_params_of d L"
  shows "\<exists>gs'. cl' = cl @ gs' \<and> length gs' = length news
           \<and> old_params_of d' (snd (reconcile news L))
           \<and> (\<forall>j grp. j < length news \<longrightarrow> fst (reconcile news L) ! j = Some grp \<longrightarrow>
                       gs' ! j = ConnList grp)
           \<and> (\<exists>k. added' = added @ replicate k pname)
           \<and> (None \<notin> set (fst (reconcile news L)) \<longrightarrow> c' = c \<and> g' = g \<and> added' = added)"
  using assms
proof (induction news arbitrary: c g d cl added L)
  case Nil
  then show ?case by simp
next
  case (Cons n news)
  show ?case
  proof (cases "consume_first n L")
    case (Some a)
    obtain grp L1 where a: "a = (grp, L1)" by (cases a)
    from old_params_of_consume[OF Cons.prems(2) Some[unfolded a]] obtain rest where
      m: "map_of d n = Some (grp # rest)" and
      o: "old_params_of (if rest = [] then dict_del n d else dict_set n rest d) L1" by blast
    from Cons.prems(1) m have
      rec: "update_new_params c g p info r tc pname news
              (if rest = [] then dict_del n d else dict_set n rest d)
              (cl @ [ConnList grp]) added = (Inr (d', cl', added'), c', g')"
      by simp
    from Cons.IH[OF rec o] obtain gs' where
      f1: "cl' = (cl @ [ConnList grp]) @ gs'" and f2: "length gs' = length news" and
      f3: "old_params_of d' (snd (reconcile news L1))" and
      f4: "\<forall>j grp. j < length news \<longrightarrow> fst (reconcile news L1) ! j = Some grp \<longrightarrow> gs' ! j = ConnList grp" and
      f5: "\<exists>k. added' = added @ replicate k pname" and
      f6: "None \<notin> set (fst (reconcile news L1)) \<longrightarrow> c' = c \<and> g' = g \<and> added' = added"
      by blast
    have rc: "reconcile (n # news) L = (Some grp # fst (reconcile news L1), snd (reconcile news L1))"
      using Some a by (simp split: prod.splits)
    have f4': "\<forall>j grp'. j < length (n # news) \<longrightarrow> fst (reconcile (n # news) L) ! j = Some grp' \<longrightarrow>
                 (ConnList grp # gs') ! j = ConnList grp'"
    proof (intro allI impI)
      fix j grp' assume "j < length (n # news)" "fst (reconcile (n # news) L) ! j = Some grp'"
      then show "(ConnList grp # gs') ! j = ConnList grp'"
        using f4 rc by (cases j) auto
    qed
    have "cl' = cl @ (ConnList grp # gs')" using f1 by simp
    moreover have "length (ConnList grp # gs') = length (n # news)" using f2 by simp
    ultimately show ?thesis using f3 f4' f5 f6 rc by (intro exI[of _ "ConnList grp # gs'"]) simp
  next
    case None
    then have "n \<notin> fst ` set L" by (simp add: consume_first_None)
    from old_params_of_lookup_None[OF Cons.prems(2) this] have m: "map_of d n = None" .
    have rc: "reconcile (n # news) L = (None # fst (reconcile news L), snd (reconcile news L))"
      using None by (simp split: prod.splits)
    from Cons.prems(1) m obtain grp c1 g1 where
      rec: "update_new_params c1 g1 p info r tc pname news d (cl @ [grp]) (added @ [pname]) =
              (Inr (d', cl', added'), c', g')"
      by (auto split: option.splits recipe_parameter_value.splits sum.splits prod.splits)
    from Cons.IH[OF rec Cons.prems(2)] obtain gs' where
      f1: "cl' = (cl @ [grp]) @ gs'" and f2: "length gs' = length news" and
      f3: "old_params_of d' (snd (reconcile news L))" and
      f4: "\<forall>j grp. j < length news \<longrightarrow> fst (reconcile news L) ! j = Some grp \<longrightarrow> gs' ! j = ConnList grp" and
      f5: "\<exists>k. added' = (added @ [pname]) @ replicate k pname"
      by blast
    from f5 obtain k where "added' = added @ replicate (Suc k) pname" by auto
    then have f5': "\<exists>k. added' = added @ replicate k pname" by blast
    have f4': "\<forall>j grp'. j < length (n # news) \<longrightarrow> fst (reconcile (n # news) L) ! j = Some grp' \<longrightarrow>
                 (grp # gs') ! j = ConnList grp'"
    proof (intro allI impI)
      fix j grp' assume "j < length (n # news)" "fst (reconcile (n # news) L) ! j = Some grp'"
      then show "(grp # gs') ! j = ConnList grp'"
        using f4 rc by (cases j) auto
    qed
    have "cl' = cl @ (grp # gs')" using f1 by simp
    moreover have "length (grp # gs') = length (n # news)" using f2 by simp
    ultimately show ?thesis using f3 f4' f5' rc by (intro exI[of _ "grp # gs'"]) simp
  qed
qed

lemma update_new_params_all_matched:
  assumes "old_params_of d L" "None \<notin> set (fst (reconcile news L))"
  shows "\<exists>d'. update_new_params c g p info r tc pname news d cl added =
                (Inr (d', cl @ map (\<lambda>m. ConnList (the m)) (fst (reconcile news L)), added), c, g)
              \<and> old_params_of d' (snd (reconcile news L))"
  using assms
proof (induction news arbitrary: d cl L)
  case Nil
  then show ?case by simp
next
  case (Cons n news)
  show ?case
  proof (cases "consume_first n L")
    case None
    then have "fst (reconcile (n # news) L) = None # fst (reconcile news L)"
      by (simp split: prod.splits)
    with Cons.prems(2) show ?thesis by simp
  next
    case (Some a)
    obtain grp L1 where a: "a = (grp, L1)" by (cases a)
    from old_params_of_consume[OF Cons.prems(1) Some[unfolded a]] obtain rest where
      m: "map_of d n = Some (grp # rest)" and
      o: "old_params_of (if rest = [] then dict_del n d else dict_set n rest d) L1" by blast
    have rc: "reconcile (n # news) L = (Some grp # fst (reconcile news L1), snd (reconcile news L1))"
      using Some a by (simp split: prod.splits)
    then have nn: "None \<notin> set (fst (reconcile news L1))" using Cons.prems(2) by simp
    from Cons.IH[OF o nn, of "cl @ [ConnList grp]"] obtain d' where
      "update_new_params c g p info r tc pname news
          (if rest = [] then dict_del n d else dict_set n rest d) (cl @ [ConnList grp]) added =
        (Inr (d', (cl @ [ConnList grp]) @ map (\<lambda>m. ConnList (the m)) (fst (reconcile news L1)), added), c, g)"
      "old_params_of d' (snd (reconcile news L1))" by blast
    then show ?thesis using m rc by simp
  qed
qed

lemma update_ports_same_bindings:
  assumes same: "dict_get (parameters r) pname = dict_get (parameters (pi_recipe info)) pname"
      and len: "length (dict_get (parameters (pi_recipe info)) pname)
                  \<le> length (dict_get (conn_map info) pname)"
  shows "update_ports c g p info r tc (pname # pnames) cmap added removed =
         update_ports c g p info r tc pnames
           (dict_set pname
              (dict_get cmap pname
               @ map (\<lambda>grp. ConnList (py_list grp))
                   (take (length (dict_get (parameters (pi_recipe info)) pname))
                      (dict_get (conn_map info) pname))) cmap)
           added removed"
proof -
  let ?olds = "dict_get (parameters (pi_recipe info)) pname"
  let ?groups = "dict_get (conn_map info) pname"
  let ?L = "zip ?olds (map py_list ?groups)"
  have "?olds = [] \<or> 0 + length ?olds \<le> length ?groups" using len by simp
  from build_old_params_succeeds[OF this] obtain d where
    b: "build_old_params (conn_map info) pname ?olds 0 [] = Inr d" by blast
  from build_old_params_ok[OF b old_params_of_Nil] have o: "old_params_of d ?L" by simp
  have rc: "reconcile ?olds ?L = (map Some (take (length ?olds) (map py_list ?groups)), [])"
    by (rule reconcile_same) (simp add: len)
  then have nn: "None \<notin> set (fst (reconcile ?olds ?L))" by auto
  from update_new_params_all_matched[OF o nn, of c g p info r tc pname "dict_get cmap pname" added]
  obtain d' where
    u: "update_new_params c g p info r tc pname ?olds d (dict_get cmap pname) added =
          (Inr (d', dict_get cmap pname @ map (\<lambda>m. ConnList (the m)) (fst (reconcile ?olds ?L)), added), c, g)"
    and o': "old_params_of d' (snd (reconcile ?olds ?L))" by blast
  from o' rc have "d' = []" by (simp add: old_params_of_empty)
  moreover have "map (\<lambda>m. ConnList (the m)) (fst (reconcile ?olds ?L)) =
                 map (\<lambda>grp. ConnList (py_list grp)) (take (length ?olds) ?groups)"
    using rc by (simp add: take_map o_def)
  ultimately show ?thesis using b u same by simp
qed

lemma update_ports_keys:
  "update_ports c g p info r tc pnames cmap added removed = (Inr (cmap', added', removed'), c', g')
   \<Longrightarrow> fst ` set cmap' = fst ` set cmap \<union> set pnames"
proof (induction pnames arbitrary: c g cmap added removed)
  case Nil
  then show ?case by simp
next
  case (Cons pname pnames)
  from Cons.prems obtain c1 g1 cl a1 r1 where
    "update_ports c1 g1 p info r tc pnames (dict_set pname cl cmap) a1 r1 =
       (Inr (cmap', added', removed'), c', g')"
    by (auto split: sum.splits prod.splits)
  from Cons.IH[OF this] show ?case by (simp add: fst_dict_set)
qed

lemma update_ports_groups:
  assumes "update_ports c g p info r tc pnames cmap added removed =
             (Inr (cmap', added', removed'), c', g')"
      and "distinct pnames"
  shows "(\<forall>pname. pname \<notin> set pnames \<longrightarrow> map_of cmap' pname = map_of cmap pname) \<and>
         (\<forall>pname \<in> set pnames. \<exists>gs'.
             map_of cmap' pname = Some (dict_get cmap pname @ gs') \<and>
             length gs' = length (dict_get (parameters r) pname) \<and>
             (\<forall>j grp. j < length gs' \<longrightarrow>
                 fst (reconcile (dict_get (parameters r) pname) (old_bindings info pname)) ! j
                   = Some grp \<longrightarrow> gs' ! j = ConnList grp))"
  using assms
proof (induction pnames arbitrary: c g cmap added removed)
  case Nil
  then show ?case by simp
next
  case (Cons pname pnames)
  from Cons.prems(1) obtain d d1 cl a1 c1 g1 r1 g2 where
    b: "build_old_params (conn_map info) pname (dict_get (parameters (pi_recipe info)) pname) 0 [] = Inr d"
    and u: "update_new_params c g p info r tc pname (dict_get (parameters r) pname) d
              (dict_get cmap pname) added = (Inr (d1, cl, a1), c1, g1)"
    and rec: "update_ports c1 g2 p info r tc pnames (dict_set pname cl cmap) a1 r1 =
       (Inr (cmap', added', removed'), c', g')"
    by (auto split: sum.splits prod.splits)
  from build_old_params_ok[OF b old_params_of_Nil]
  have o: "old_params_of d (old_bindings info pname)" by (simp add: old_bindings_def)
  from update_new_params_refines[OF u o] obtain gs' where
    cl: "cl = dict_get cmap pname @ gs'" and lg: "length gs' = length (dict_get (parameters r) pname)"
    and m: "\<forall>j grp. j < length (dict_get (parameters r) pname) \<longrightarrow>
              fst (reconcile (dict_get (parameters r) pname) (old_bindings info pname)) ! j = Some grp
              \<longrightarrow> gs' ! j = ConnList grp"
    by blast
  from Cons.prems(2) have dist: "distinct pnames" and notin: "pname \<notin> set pnames" by auto
  from Cons.IH[OF rec dist] have
    ih1: "\<forall>q. q \<notin> set pnames \<longrightarrow> map_of cmap' q = map_of (dict_set pname cl cmap) q" and
    ih2: "\<forall>q \<in> set pnames. \<exists>gs'.
             map_of cmap' q = Some (dict_get (dict_set pname cl cmap) q @ gs') \<and>
             length gs' = length (dict_get (parameters r) q) \<and>
             (\<forall>j grp. j < length gs' \<longrightarrow>
                 fst (reconcile (dict_get (parameters r) q) (old_bindings info q)) ! j
                   = Some grp \<longrightarrow> gs' ! j = ConnList grp)"
    by blast+
  have A: "\<forall>q. q \<notin> set (pname # pnames) \<longrightarrow> map_of cmap' q = map_of cmap q"
    using ih1 by (simp add: map_of_dict_set)
  have B: "\<exists>gs'. map_of cmap' q = Some (dict_get cmap q @ gs') \<and>
             length gs' = length (dict_get (parameters r) q) \<and>
             (\<forall>j grp. j < length gs' \<longrightarrow>
                 fst (reconcile (dict_get (parameters r) q) (old_bindings info q)) ! j
                   = Some grp \<longrightarrow> gs' ! j = ConnList grp)" if q: "q \<in> set (pname # pnames)" for q
  proof (cases "q = pname")
    case True
    have "map_of cmap' pname = Some cl" using ih1 notin by (simp add: map_of_dict_set)
    with True cl lg m show ?thesis by auto
  next
    case False
    with q have qq: "q \<in> set pnames" by simp
    have "dict_get (dict_set pname cl cmap) q = dict_get cmap q"
      using False by (simp add: dict_get_dict_set)
    with ih2 qq show ?thesis by metis
  qed
  from A B show ?case by blast
qed

subsection \<open>The running example, evaluated\<close>

lemmas ex_defs =
  ex_controller_def ex_recipe1_def ex_recipe2_def ex_cell_def ex_line_def ex_varA_def ex_varB_def
  ex_line_pipeline_def ex_varA_pipeline_def ex_varB_pipeline_def ex_root_pipeline_def
  ex_output_port_def ex_pipeline1_def ex_info1_def ex_controller1_def
  ex_pipeline2_def ex_info2_def ex_controller2_def ex_info3_def ex_controller3_def
  ex_recipe_bar_def ex_bare_pipeline_def ex_bare_def ex_recipe_bare_def
  ex_recipe_bare_constant_def ex_recipe_bare_empty_def ex_recipe_ab_def ex_recipe_b_def
  ex_conn6_def ex_conn7_def ex_filter_module_def ex_pipeline_ab_def ex_info_ab_def
  ex_controller_ab_def ex_pipeline_b_def ex_info_b_def ex_controller_b_def
  ex_two_outputs_pipeline_def ex_no_output_pipeline_def

lemmas model_defs =
  change_selected_version_def getPipeline_def getPipeline_tag_def
  empty_pipeline_def PipelineGenerator_def copy_module_def connect_cell_location_def
  find_modules_by_type_def get_or_create_module_def create_module_from_descriptor_def
  add_module_def connect_modules_def update_function_def set_add_def
  dict_set_def dict_get_def dict_keys_def dict_append_def dict_del_def
  modules_get_def connections_get_def get_function_def
  add_variable_subworkflow_typecast_def add_variable_subworkflow_def name_to_port_def
  perform_action_def controller_perform_action_def apply_operations_def
  change_description_def set_function_def str_int_def str_nat.simps add_constant_module_def
  generator_delete_linked_def delete_linked_def delete_loop.simps module_connections_def
  conn_to_delete_def not_in_connections_def sys_maxint_def describe_dat_update_def
  port_names_def

lemma ex_create1:
  "create_pipeline ex_controller ex_recipe1 ex_cell None = (Inr ex_info1, ex_controller1)"
  by (simp add: create_pipeline_def ex_defs model_defs Let_def)

lemma ex_update12:
  "update_pipeline ex_controller1 ex_info1 ex_recipe2 None = (Inr ex_info2, ex_controller2)"
  by (simp add: update_pipeline_def ex_defs model_defs Let_def)

lemma ex_update21:
  "update_pipeline ex_controller2 ex_info2 ex_recipe1 None = (Inr ex_info3, ex_controller3)"
  by (simp add: update_pipeline_def ex_defs model_defs Let_def)

subsection \<open>The claims about update\_pipeline\<close>

lemma distinct_port_names: "distinct (port_names info r)"
  by (auto simp: port_names_def dict_keys_def)

lemma set_port_names:
  "set (port_names info r) = fst ` set (parameters (pi_recipe info)) \<union> fst ` set (parameters r)"
  by (auto simp: port_names_def dict_keys_def)

lemma update_pipeline_cases:
  assumes "update_pipeline controller info new_recipe typecast = (Inr info', controller')"
  shows "info' = info \<or>
         (\<exists>c0 c1 g1 added removed v.
            update_ports c0 (PipelineGenerator c0) (current_pipeline c0) info new_recipe typecast
              (port_names info new_recipe) [] [] [] = (Inr (conn_map info', added, removed), c1, g1)
            \<and> info' = \<lparr>version = v, pi_recipe = new_recipe, conn_map = conn_map info',
                       port_map = port_map info\<rparr>)"
  using assms unfolding update_pipeline_def
  by (auto split: sum.splits if_splits prod.splits simp: Let_def) blast+

text \<open>
  C8. When the plot of the new recipe is not the plot of the prior record (and the prior
  version is in the vistrail), \<^verbatim>\<open>update_pipeline\<close> raises UpdateError. All it has done
  by then is select the prior version: no generator exists yet, and the versions, the
  descriptions and the id scope of the controller are as before.
\<close>

theorem update_pipeline_plot_mismatch:
  assumes "getPipeline controller (version pipelineInfo) = Some p"
      and "plot_object (plot (pi_recipe pipelineInfo)) \<noteq> plot_object (plot new_recipe)"
  shows "update_pipeline controller pipelineInfo new_recipe typecast =
           (Inl UpdateError,
            controller\<lparr>current_version := version pipelineInfo, current_pipeline := p\<rparr>)
         \<and> versions (snd (update_pipeline controller pipelineInfo new_recipe typecast))
             = versions controller
         \<and> next_version (snd (update_pipeline controller pipelineInfo new_recipe typecast))
             = next_version controller
         \<and> next_module_id (snd (update_pipeline controller pipelineInfo new_recipe typecast))
             = next_module_id controller
         \<and> next_connection_id (snd (update_pipeline controller pipelineInfo new_recipe typecast))
             = next_connection_id controller"
  using assms by (simp add: update_pipeline_def change_selected_version_def)

theorem update_pipeline_plot_mismatch_witness:
  "update_pipeline ex_controller1 ex_info1 ex_recipe_bar None
     = (Inl UpdateError, ex_controller1)
   \<and> versions (snd (update_pipeline ex_controller1 ex_info1 ex_recipe_bar None))
       = versions ex_controller1"
proof -
  have h1: "getPipeline ex_controller1 (version ex_info1) = Some ex_pipeline1"
    by (simp add: getPipeline_def ex_controller1_def ex_info1_def ex_controller_def)
  have h2: "plot_object (plot (pi_recipe ex_info1)) \<noteq> plot_object (plot ex_recipe_bar)"
    by (simp add: ex_info1_def ex_recipe1_def ex_line_def ex_recipe_bar_def)
  have e: "ex_controller1\<lparr>current_version := version ex_info1, current_pipeline := ex_pipeline1\<rparr>
             = ex_controller1"
    by (simp add: ex_controller1_def ex_info1_def)
  from update_pipeline_plot_mismatch[OF h1 h2, of None] e show ?thesis by simp
qed

lemma update_ports_no_change:
  assumes "\<forall>pname \<in> set pnames.
             dict_get (parameters r) pname = dict_get (parameters (pi_recipe info)) pname \<and>
             length (dict_get (parameters (pi_recipe info)) pname)
               \<le> length (dict_get (conn_map info) pname)"
  shows "\<exists>cmap'. update_ports c g p info r tc pnames cmap added removed =
                    (Inr (cmap', added, removed), c, g)"
  using assms
proof (induction pnames arbitrary: cmap)
  case Nil
  then show ?case by simp
next
  case (Cons pname pnames)
  then have s: "dict_get (parameters r) pname = dict_get (parameters (pi_recipe info)) pname"
    and l: "length (dict_get (parameters (pi_recipe info)) pname)
               \<le> length (dict_get (conn_map info) pname)"
    and rest: "\<forall>pname \<in> set pnames.
             dict_get (parameters r) pname = dict_get (parameters (pi_recipe info)) pname \<and>
             length (dict_get (parameters (pi_recipe info)) pname)
               \<le> length (dict_get (conn_map info) pname)"
    by simp_all
  show ?case
    unfolding update_ports_same_bindings[OF s l] using Cons.IH[OF rest] by blast
qed

lemma conn_map_counts_length:
  assumes "conn_map_counts info" "pname \<in> fst ` set (parameters (pi_recipe info))"
  shows "length (dict_get (conn_map info) pname)
           = length (dict_get (parameters (pi_recipe info)) pname)"
  using assms by (auto simp: conn_map_counts_def list_all_iff dict_keys_def)

text \<open>
  C3. Updating a record to its own recipe changes nothing: when the connection map of
  the record holds a group for each binding of its recipe, as the map of a compiled record
  does, and its version is in the vistrail, \<^verbatim>\<open>update_pipeline\<close> returns the record itself
  and the controller with that version selected; no version is added and no id is taken.
\<close>

theorem update_pipeline_same_recipe:
  assumes "getPipeline controller (version info) = Some p"
      and "conn_map_counts info"
  shows "update_pipeline controller info (pi_recipe info) typecast =
           (Inr info, controller\<lparr>current_version := version info, current_pipeline := p\<rparr>)"
proof -
  let ?c0 = "controller\<lparr>current_version := version info, current_pipeline := p\<rparr>"
  have "\<forall>pname \<in> set (port_names info (pi_recipe info)).
             dict_get (parameters (pi_recipe info)) pname
               = dict_get (parameters (pi_recipe info)) pname \<and>
             length (dict_get (parameters (pi_recipe info)) pname)
               \<le> length (dict_get (conn_map info) pname)"
    using conn_map_counts_length[OF assms(2)] by (simp add: set_port_names)
  from update_ports_no_change[OF this, of ?c0 "PipelineGenerator ?c0" p typecast "[]" "[]" "[]"]
  obtain cmap' where
    "update_ports ?c0 (PipelineGenerator ?c0) p info (pi_recipe info) typecast
       (port_names info (pi_recipe info)) [] [] [] = (Inr (cmap', [], []), ?c0, PipelineGenerator ?c0)"
    by blast
  then show ?thesis
    using assms(1) by (simp add: update_pipeline_def change_selected_version_def)
qed

theorem update_pipeline_same_recipe_witness:
  "update_pipeline ex_controller1 ex_info1 ex_recipe1 None = (Inr ex_info1, ex_controller1)
   \<and> fst (create_pipeline ex_controller ex_recipe1 ex_cell None) = Inr ex_info1"
proof -
  have h1: "getPipeline ex_controller1 (version ex_info1) = Some ex_pipeline1"
    by (simp add: getPipeline_def ex_controller1_def ex_info1_def ex_controller_def)
  have h2: "conn_map_counts ex_info1"
    by (simp add: conn_map_counts_def ex_info1_def ex_recipe1_def dict_keys_def dict_get_def)
  have e: "ex_controller1\<lparr>current_version := version ex_info1, current_pipeline := ex_pipeline1\<rparr>
             = ex_controller1"
    by (simp add: ex_controller1_def ex_info1_def)
  have r: "pi_recipe ex_info1 = ex_recipe1" by (simp add: ex_info1_def)
  from update_pipeline_same_recipe[OF h1 h2, of None] e r ex_create1 show ?thesis by simp
qed

text \<open>
  C6 (amended). Whatever the filters and the depth, when \<^verbatim>\<open>delete_linked\<close> returns, the
  operations it has appended delete every connection of the current pipeline of the
  controller that has a deleted module at one of its ends, whether the connection filter
  accepted it or not; applied to that current pipeline, they leave no connection with an
  end at a deleted module, and no deleted module. Connections that are not in the current
  pipeline of the controller are outside this statement.
\<close>

theorem delete_linked_no_dangling_connection:
  assumes "delete_linked controller modules ops module_filter connection_filter depth
             = (Inr ids, ops')"
  shows "\<exists>new. ops' = ops @ new \<and>
          (\<forall>c \<in> set (connection_list (current_pipeline controller)).
              source_moduleId c \<in> set ids \<or> destination_moduleId c \<in> set ids \<longrightarrow>
              DeleteConnection c \<in> set new) \<and>
          (\<forall>c \<in> set (connection_list (apply_operations (current_pipeline controller) new)).
              source_moduleId c \<notin> set ids \<and> destination_moduleId c \<notin> set ids) \<and>
          (\<forall>m \<in> set (module_list (apply_operations (current_pipeline controller) new)).
              m_id m \<notin> set ids)"
proof -
  let ?p = "current_pipeline controller"
  from assms obtain td where
    ids: "ids = remdups (map m_id td)" and
    ops': "ops' = ops @ map DeleteConnection (conn_to_delete ?p td) @ map DeleteModule td"
    by (auto simp: delete_linked_def Let_def split: sum.splits)
  let ?new = "map DeleteConnection (conn_to_delete ?p td) @ map DeleteModule td"
  have a: "\<forall>c \<in> set (connection_list ?p).
              source_moduleId c \<in> set ids \<or> destination_moduleId c \<in> set ids \<longrightarrow>
              DeleteConnection c \<in> set ?new"
    by (auto simp: ids in_conn_to_delete)
  have cl: "connection_list (apply_operations ?p ?new) =
      filter (\<lambda>x. c_id x \<notin> c_id ` set (conn_to_delete ?p td)) (connection_list ?p)"
    by (simp add: apply_operations_def connection_list_foldl_delete
        connection_list_foldl_delete_module)
  have b: "\<forall>c \<in> set (connection_list (apply_operations ?p ?new)).
              source_moduleId c \<notin> set ids \<and> destination_moduleId c \<notin> set ids"
    unfolding cl by (auto simp: ids in_conn_to_delete)
  have ml: "module_list (apply_operations ?p ?new) =
      filter (\<lambda>x. m_id x \<notin> m_id ` set td) (module_list ?p)"
    by (simp add: apply_operations_def module_list_foldl_delete_module
        module_list_foldl_delete_conn)
  have c: "\<forall>m \<in> set (module_list (apply_operations ?p ?new)). m_id m \<notin> set ids"
    unfolding ml by (auto simp: ids)
  from ops' a b c show ?thesis by blast
qed

theorem delete_linked_no_dangling_connection_witness:
  "fst (delete_linked ex_controller1
          (OneModule \<lparr>m_id = 8, module_descriptor = Other ''Filter'', module_functions = []\<rparr>)
          [] (\<lambda>m. True) (\<lambda>c. False) sys_maxint) = Inr [8]
   \<and> DeleteConnection \<lparr>c_id = 5, source_moduleId = 7, source_name = ''out'',
                       destination_moduleId = 8, destination_name = ''in''\<rparr>
       \<in> set (snd (delete_linked ex_controller1
          (OneModule \<lparr>m_id = 8, module_descriptor = Other ''Filter'', module_functions = []\<rparr>)
          [] (\<lambda>m. True) (\<lambda>c. False) sys_maxint))"
proof -
  let ?m = "\<lparr>m_id = 8, module_descriptor = Other ''Filter'', module_functions = []\<rparr>"
  let ?c = "\<lparr>c_id = 5, source_moduleId = 7, source_name = ''out'',
             destination_moduleId = 8, destination_name = ''in''\<rparr>"
  obtain r ops' where d: "delete_linked ex_controller1 (OneModule ?m) [] (\<lambda>m. True) (\<lambda>c. False)
                       sys_maxint = (r, ops')"
    by (cases "delete_linked ex_controller1 (OneModule ?m) [] (\<lambda>m. True) (\<lambda>c. False) sys_maxint")
  have r: "r = Inr [8]"
    using d by (simp add: delete_linked_def delete_loop.simps sys_maxint_def module_connections_def
        ex_controller1_def ex_pipeline1_def Let_def)
  have i: "?c \<in> set (connection_list (current_pipeline ex_controller1))"
    by (simp add: ex_controller1_def ex_pipeline1_def)
  from delete_linked_no_dangling_connection[OF d[unfolded r]] obtain new where
    "ops' = [] @ new"
    "\<forall>c \<in> set (connection_list (current_pipeline ex_controller1)).
        source_moduleId c \<in> set [8] \<or> destination_moduleId c \<in> set [8] \<longrightarrow>
        DeleteConnection c \<in> set new"
    by blast
  with i have "DeleteConnection ?c \<in> set ops'" by auto
  with d r show ?thesis by simp
qed

subsection \<open>The counting invariant of the connection map\<close>

lemma create_parameters_length:
  "create_parameters c g r tc plot_ports pname ps p_conns = (Inr gs, c', g')
   \<Longrightarrow> length gs = length p_conns + length ps"
proof (induction ps arbitrary: c g p_conns)
  case Nil
  then show ?case by simp
next
  case (Cons a ps)
  from Cons.prems obtain c1 g1 grp where
    "create_parameters c1 g1 r tc plot_ports pname ps (p_conns @ [grp]) = (Inr gs, c', g')"
    by (auto split: option.splits recipe_parameter_value.splits sum.splits prod.splits)
  from Cons.IH[OF this] show ?case by simp
qed

lemma create_ports_groups:
  assumes "create_ports c g r tc plot_params pnames cmap = (Inr cmap', c', g')"
      and "distinct pnames"
  shows "fst ` set cmap' = fst ` set cmap \<union> set pnames \<and>
         (\<forall>q. q \<notin> set pnames \<longrightarrow> map_of cmap' q = map_of cmap q) \<and>
         (\<forall>q \<in> set pnames. \<exists>gs. map_of cmap' q = Some gs \<and>
              length gs = length (dict_get (parameters r) q))"
  using assms
proof (induction pnames arbitrary: c g cmap)
  case Nil
  then show ?case by simp
next
  case (Cons pname pnames)
  from Cons.prems(1) obtain p_conns c1 g1 where
    cp: "create_parameters c g r tc (dict_get plot_params (Some pname)) pname
           (dict_get (parameters r) pname) [] = (Inr p_conns, c1, g1)" and
    rec: "create_ports c1 g1 r tc plot_params pnames (dict_set pname p_conns cmap)
           = (Inr cmap', c', g')"
    by (auto split: sum.splits prod.splits)
  from create_parameters_length[OF cp]
  have len: "length p_conns = length (dict_get (parameters r) pname)" by simp
  from Cons.prems(2) have dist: "distinct pnames" and notin: "pname \<notin> set pnames" by auto
  from Cons.IH[OF rec dist] have
    k: "fst ` set cmap' = fst ` set (dict_set pname p_conns cmap) \<union> set pnames" and
    o: "\<forall>q. q \<notin> set pnames \<longrightarrow> map_of cmap' q = map_of (dict_set pname p_conns cmap) q" and
    i: "\<forall>q \<in> set pnames. \<exists>gs. map_of cmap' q = Some gs \<and>
              length gs = length (dict_get (parameters r) q)"
    by blast+
  have "map_of cmap' pname = Some p_conns" using o notin by (simp add: map_of_dict_set)
  with len i have "\<forall>q \<in> set (pname # pnames). \<exists>gs. map_of cmap' q = Some gs \<and>
              length gs = length (dict_get (parameters r) q)" by auto
  moreover have "\<forall>q. q \<notin> set (pname # pnames) \<longrightarrow> map_of cmap' q = map_of cmap q"
    using o by (simp add: map_of_dict_set)
  moreover have "fst ` set cmap' = fst ` set cmap \<union> set (pname # pnames)"
    using k by (simp add: fst_dict_set)
  ultimately show ?case by blast
qed

lemma conn_map_countsI:
  assumes "\<And>q. length (dict_get cm q) = length (dict_get (parameters r) q)"
  shows "conn_map_counts \<lparr>version = v, pi_recipe = r, conn_map = cm, port_map = pm\<rparr>"
  using assms by (simp add: conn_map_counts_def list_all_iff)

lemma dict_get_not_key: "q \<notin> fst ` set d \<Longrightarrow> dict_get d q = []"
proof -
  assume "q \<notin> fst ` set d"
  then have "map_of d q = None" by (simp add: map_of_eq_None_iff)
  then show ?thesis by (simp add: dict_get_def)
qed

lemma create_pipeline_counts:
  assumes "create_pipeline controller r cell typecast = (Inr info, controller')"
  shows "conn_map_counts info \<and> pi_recipe info = r
         \<and> fst ` set (conn_map info) = fst ` set (parameters r)"
proof -
  from assms obtain c3 g3 plot_params cmap c4 g4 v pm where
    cp: "create_ports c3 g3 r typecast plot_params (dict_keys (parameters r)) [] = (Inr cmap, c4, g4)"
    and info: "info = \<lparr>version = v, pi_recipe = r, conn_map = cmap, port_map = pm\<rparr>"
    unfolding create_pipeline_def
    by (auto split: sum.splits option.splits prod.splits if_splits simp: Let_def)
  have d: "distinct (dict_keys (parameters r))" by (simp add: dict_keys_def)
  from create_ports_groups[OF cp d] have
    k: "fst ` set cmap = set (dict_keys (parameters r))" and
    i: "\<forall>q \<in> set (dict_keys (parameters r)). \<exists>gs. map_of cmap q = Some gs \<and>
              length gs = length (dict_get (parameters r) q)"
    by auto
  have "length (dict_get cmap q) = length (dict_get (parameters r) q)" for q
  proof (cases "q \<in> set (dict_keys (parameters r))")
    case True
    with i show ?thesis by (auto simp: dict_get_def)
  next
    case False
    then have "q \<notin> fst ` set cmap" "q \<notin> fst ` set (parameters r)"
      using k by (auto simp: dict_keys_def)
    then show ?thesis by (simp add: dict_get_not_key)
  qed
  then have "conn_map_counts info" unfolding info by (rule conn_map_countsI)
  with k info show ?thesis by (simp add: dict_keys_def)
qed

lemma update_pipeline_counts:
  assumes "update_pipeline controller info r typecast = (Inr info', controller')"
      and "conn_map_counts info"
  shows "conn_map_counts info'"
proof (cases "info' = info")
  case True
  with assms(2) show ?thesis by simp
next
  case False
  with update_pipeline_cases[OF assms(1)] obtain c0 c1 g1 added removed v where
    u: "update_ports c0 (PipelineGenerator c0) (current_pipeline c0) info r typecast
          (port_names info r) [] [] [] = (Inr (conn_map info', added, removed), c1, g1)"
    and info': "info' = \<lparr>version = v, pi_recipe = r, conn_map = conn_map info',
                       port_map = port_map info\<rparr>"
    by blast
  from update_ports_keys[OF u] have
    k: "fst ` set (conn_map info') = set (port_names info r)" by simp
  from update_ports_groups[OF u distinct_port_names] have
    g: "\<forall>pname \<in> set (port_names info r). \<exists>gs'.
          map_of (conn_map info') pname = Some (dict_get [] pname @ gs') \<and>
          length gs' = length (dict_get (parameters r) pname)"
    by blast
  have "length (dict_get (conn_map info') q) = length (dict_get (parameters r) q)" for q
  proof (cases "q \<in> set (port_names info r)")
    case True
    with g show ?thesis by (auto simp: dict_get_def)
  next
    case False
    then have "q \<notin> fst ` set (conn_map info')" "q \<notin> fst ` set (parameters r)"
      using k by (auto simp: set_port_names)
    then show ?thesis by (simp add: dict_get_not_key)
  qed
  then have "conn_map_counts \<lparr>version = v, pi_recipe = r, conn_map = conn_map info',
                       port_map = port_map info\<rparr>" by (rule conn_map_countsI)
  with info' show ?thesis by simp
qed

text \<open>
  C4. The counting part of the invariant holds for every record of \<^verbatim>\<open>create_pipeline\<close>
  and is kept by \<^verbatim>\<open>update_pipeline\<close> (the two lemmas above). The other part does not:
  for a variable bound to a port that the plot subworkflow connects to nothing,
  \<^verbatim>\<open>plot_ports\<close> is the empty list, \<^verbatim>\<open>if plot_ports:\<close> takes it for \<^verbatim>\<open>None\<close>, and the
  group of the binding is the pair (module, port name) of the variable's output, where
  the documentation of \<^verbatim>\<open>add_variable_subworkflow\<close> promises the ids of the connections
  and \<^verbatim>\<open>add_constant_module\<close> returns the empty list. A later update that removes the
  binding looks the module up among the connections and raises KeyError.
\<close>

theorem create_pipeline_unconnected_port_group:
  "fst (create_pipeline ex_controller ex_recipe_bare ex_cell None)
     = Inr \<lparr>version = 4, pi_recipe = ex_recipe_bare,
            conn_map = [(''data'',
              [OutputPair \<lparr>m_id = 6, module_descriptor = Other ''Filter'',
                           module_functions = []\<rparr> ''out''])],
            port_map = []\<rparr>
   \<and> fst (create_pipeline ex_controller ex_recipe_bare_constant ex_cell None)
     = Inr \<lparr>version = 4, pi_recipe = ex_recipe_bare_constant,
            conn_map = [(''data'', [ConnList []])], port_map = []\<rparr>
   \<and> fst (update_pipeline (snd (create_pipeline ex_controller ex_recipe_bare ex_cell None))
            \<lparr>version = 4, pi_recipe = ex_recipe_bare,
             conn_map = [(''data'',
               [OutputPair \<lparr>m_id = 6, module_descriptor = Other ''Filter'',
                            module_functions = []\<rparr> ''out''])],
             port_map = []\<rparr>
            ex_recipe_bare_empty None)
     = Inl KeyError"
proof -
  let ?c = "ex_controller
       \<lparr>versions := (4, \<lparr>module_list =
           [\<lparr>m_id = 4, module_descriptor = Other ''LinePlot'', module_functions = []\<rparr>,
            \<lparr>m_id = 5, module_descriptor = Other ''Reader'',
             module_functions = [(''file'', [''a.csv''])]\<rparr>,
            \<lparr>m_id = 6, module_descriptor = Other ''Filter'', module_functions = []\<rparr>],
          connection_list =
           [\<lparr>c_id = 3, source_moduleId = 5, source_name = ''out'',
             destination_moduleId = 6, destination_name = ''in''\<rparr>]\<rparr>) # versions ex_controller,
        current_version := 4,
        current_pipeline := \<lparr>module_list =
           [\<lparr>m_id = 4, module_descriptor = Other ''LinePlot'', module_functions = []\<rparr>,
            \<lparr>m_id = 5, module_descriptor = Other ''Reader'',
             module_functions = [(''file'', [''a.csv''])]\<rparr>,
            \<lparr>m_id = 6, module_descriptor = Other ''Filter'', module_functions = []\<rparr>],
          connection_list =
           [\<lparr>c_id = 3, source_moduleId = 5, source_name = ''out'',
             destination_moduleId = 6, destination_name = ''in''\<rparr>]\<rparr>,
        next_module_id := 7,
        next_connection_id := 4,
        next_version := 5,
        descriptions := [(4, ''Created DAT plot Bare'')]\<rparr>"
  let ?i = "\<lparr>version = 4, pi_recipe = ex_recipe_bare,
            conn_map = [(''data'',
              [OutputPair \<lparr>m_id = 6, module_descriptor = Other ''Filter'',
                           module_functions = []\<rparr> ''out''])],
            port_map = []\<rparr>"
  have a: "create_pipeline ex_controller ex_recipe_bare ex_cell None = (Inr ?i, ?c)"
    by (simp add: create_pipeline_def ex_defs model_defs Let_def)
  have b: "fst (create_pipeline ex_controller ex_recipe_bare_constant ex_cell None)
     = Inr \<lparr>version = 4, pi_recipe = ex_recipe_bare_constant,
            conn_map = [(''data'', [ConnList []])], port_map = []\<rparr>"
    by (simp add: create_pipeline_def ex_defs model_defs Let_def)
  have c: "fst (update_pipeline ?c ?i ex_recipe_bare_empty None) = Inl KeyError"
    by (simp add: update_pipeline_def ex_defs model_defs Let_def)
  from a b c show ?thesis by simp
qed

subsection \<open>Splicing a variable subworkflow\<close>




lemma m_id_copies_from: "map m_id (copies_from n ms) = map fst (enumerate n ms)"
  by (induction ms arbitrary: n) auto



lemma connect_plot_ports_operations:
  "connect_plot_ports c g src sp pps ids = (ids', c', g') \<Longrightarrow>
   c' = c\<lparr>next_connection_id := next_connection_id c + length pps\<rparr>
   \<and> ids' = ids @ map fst (enumerate (next_connection_id c) pps)
   \<and> operations g' = operations g @ map AddConnection
         (map (\<lambda>(i, (m, prt)).
                \<lparr>c_id = i, source_moduleId = m_id src, source_name = sp,
                 destination_moduleId = m_id m, destination_name = prt\<rparr>)
              (enumerate (next_connection_id c) pps))"
proof (induction pps arbitrary: c g ids)
  case Nil
  then show ?case by simp
next
  case (Cons a pps)
  obtain m prt where a: "a = (m, prt)" by (cases a)
  let ?conn = "\<lparr>c_id = next_connection_id c, source_moduleId = m_id src, source_name = sp,
                 destination_moduleId = m_id m, destination_name = prt\<rparr>"
  from Cons.prems a have rec:
    "connect_plot_ports (c\<lparr>next_connection_id := Suc (next_connection_id c)\<rparr>)
        (g\<lparr>operations := operations g @ [AddConnection ?conn],
           all_connections := set_add ?conn (all_connections g)\<rparr>)
        src sp pps (ids @ [next_connection_id c]) = (ids', c', g')"
    by (simp add: connect_modules_def Let_def)
  from Cons.IH[OF rec] show ?case unfolding a by simp
qed


lemma ex_controller_fields:
  "versions ex_controller = [(1, ex_root_pipeline), (2, ex_varA_pipeline), (3, ex_varB_pipeline)]"
  "tags ex_controller = [(''dat-vars'', 1), (''dat-var-VarA'', 2), (''dat-var-VarB'', 3)]"
  "current_version ex_controller = 0"
  "current_pipeline ex_controller = empty_pipeline"
  "next_module_id ex_controller = 4"
  "next_connection_id ex_controller = 3"
  "next_version ex_controller = 4"
  "descriptions ex_controller = []"
  "files ex_controller = [(''line.xml'', ex_line_pipeline), (''bare.xml'', ex_bare_pipeline)]"
  "issubclass ex_controller = (\<lambda>a b. a = b)"
  "descriptor_by_name ex_controller = (\<lambda>s. Some (Other s))"
  by (simp_all add: ex_controller_def)










subsection \<open>The walk of delete\_linked\<close>










subsection \<open>The removal of a leftover binding\<close>




lemma ex_update_ab_b:
  "update_pipeline ex_controller_ab ex_info_ab ex_recipe_b None = (Inr ex_info_b, ex_controller_b)"
  by (simp add: update_pipeline_def ex_recipe1_def ex_recipe2_def ex_cell_def ex_line_def
        ex_varA_def ex_varB_def ex_line_pipeline_def ex_varA_pipeline_def ex_varB_pipeline_def
        ex_root_pipeline_def ex_output_port_def ex_pipeline1_def ex_info1_def
        ex_recipe_ab_def ex_recipe_b_def ex_conn6_def ex_conn7_def ex_filter_module_def
        ex_pipeline_ab_def ex_info_ab_def ex_controller_ab_def ex_pipeline_b_def ex_info_b_def
        ex_controller_b_def ex_controller_fields model_defs Let_def)




subsection \<open>Adding one constant binding\<close>

lemma dict_get_consumed:
  "dict_get (if rest = [] then dict_del n d else dict_set n rest d) w
     = (if w = n then rest else dict_get d w)"
  by (simp add: dict_get_dict_del dict_get_dict_set)

lemma dict_get_Cons_map_of:
  "dict_get d n = x # rest \<Longrightarrow> map_of d n = Some (x # rest)"
  by (cases "map_of d n") (simp_all add: dict_get_def)

lemma dict_get_Nil_map_of:
  "dict_get d n = [] \<Longrightarrow> map_of d n = None \<or> map_of d n = Some []"
  by (cases "map_of d n") (simp_all add: dict_get_def)

lemma update_new_params_matched:
  "map_of d n = Some (x # rest) \<Longrightarrow>
   update_new_params c g p info r tc pname (n # news) d cl added =
   update_new_params c g p info r tc pname news
     (if rest = [] then dict_del n d else dict_set n rest d) (cl @ [ConnList x]) added"
  by simp

lemma update_new_params_by_count:
  assumes "\<forall>w \<in> set news. count_list news w \<le> length (dict_get d w)"
  shows "\<exists>d' gs'. update_new_params c g p info r tc pname news d cl added
                     = (Inr (d', cl @ gs', added), c, g)
           \<and> length gs' = length news
           \<and> (\<forall>w. groups_of_value news gs' w = take (count_list news w) (dict_get d w))
           \<and> (\<forall>w. dict_get d' w = drop (count_list news w) (dict_get d w))"
  using assms
proof (induction news arbitrary: d cl)
  case Nil
  have "update_new_params c g p info r tc pname [] d cl added = (Inr (d, cl @ [], added), c, g)"
    by simp
  then show ?case by (intro exI[of _ d] exI[of _ "[]"]) (simp add: groups_of_value_def)
next
  case (Cons n news)
  from Cons.prems have "Suc (count_list news n) \<le> length (dict_get d n)" by simp
  then obtain x rest where xr: "dict_get d n = x # rest" and cr: "count_list news n \<le> length rest"
    by (cases "dict_get d n") auto
  let ?d1 = "if rest = [] then dict_del n d else dict_set n rest d"
  have g1: "dict_get ?d1 w = (if w = n then rest else dict_get d w)" for w
    by (rule dict_get_consumed)
  have pre: "\<forall>w \<in> set news. count_list news w \<le> length (dict_get ?d1 w)"
  proof
    fix w assume w: "w \<in> set news"
    show "count_list news w \<le> length (dict_get ?d1 w)"
    proof (cases "w = n")
      case True
      then show ?thesis using cr g1[of w] by simp
    next
      case False
      from Cons.prems w have "count_list (n # news) w \<le> length (dict_get d w)" by simp
      then show ?thesis using False g1[of w] by simp
    qed
  qed
  from Cons.IH[OF pre, of "cl @ [ConnList x]"] obtain d' gs' where
    run: "update_new_params c g p info r tc pname news ?d1 (cl @ [ConnList x]) added
            = (Inr (d', (cl @ [ConnList x]) @ gs', added), c, g)" and
    len: "length gs' = length news" and
    grp: "\<forall>w. groups_of_value news gs' w = take (count_list news w) (dict_get ?d1 w)" and
    lft: "\<forall>w. dict_get d' w = drop (count_list news w) (dict_get ?d1 w)"
    by blast
  have r: "update_new_params c g p info r tc pname (n # news) d cl added
             = (Inr (d', cl @ (ConnList x # gs'), added), c, g)"
    using update_new_params_matched[OF dict_get_Cons_map_of[OF xr]] run by simp
  have a: "groups_of_value (n # news) (ConnList x # gs') w
             = take (count_list (n # news) w) (dict_get d w)" for w
  proof (cases "w = n")
    case True
    have "groups_of_value (n # news) (ConnList x # gs') n = x # groups_of_value news gs' n"
      by (simp add: groups_of_value_def)
    also have "\<dots> = x # take (count_list news n) rest" using grp g1[of n] by simp
    finally show ?thesis using True xr by simp
  next
    case False
    have "groups_of_value (n # news) (ConnList x # gs') w = groups_of_value news gs' w"
      using False by (simp add: groups_of_value_def)
    then show ?thesis using grp g1[of w] False by simp
  qed
  have b: "dict_get d' w = drop (count_list (n # news) w) (dict_get d w)" for w
  proof (cases "w = n")
    case True
    then show ?thesis using lft g1[of n] xr by simp
  next
    case False
    then show ?thesis using lft g1[of w] by simp
  qed
  from r len a b show ?case
    by (intro exI[of _ d'] exI[of _ "ConnList x # gs'"]) simp
qed

lemma update_new_params_add_constant:
  assumes "update_new_params c g p info r tc pname (Constant k # news) d cl added
             = (Inr res, c', g')"
      and "dict_get d (Constant k) = []"
  shows "\<exists>pm plot_ports prt grp c1 g1.
           map_of (port_map info) (Some pname) = Some pm
         \<and> those (map (\<lambda>(mod_id, prt). map_option (\<lambda>m. (m, prt)) (modules_get p mod_id)) pm)
             = Some plot_ports
         \<and> name_to_port r pname = Some prt
         \<and> add_constant_module c g (port_type prt) k plot_ports = (grp, c1, g1)
         \<and> update_new_params c1 g1 p info r tc pname news d (cl @ [grp]) (added @ [pname])
             = (Inr res, c', g')"
proof -
  from dict_get_Nil_map_of[OF assms(2)]
  have m: "map_of d (Constant k) = None \<or> map_of d (Constant k) = Some []" .
  obtain res1 res2 res3 where res: "res = (res1, res2, res3)" by (cases res)
  from m show ?thesis
  proof
    assume "map_of d (Constant k) = None"
    with assms(1) show ?thesis
      by (auto split: option.splits prod.splits simp: Let_def)
  next
    assume "map_of d (Constant k) = Some []"
    with assms(1) show ?thesis
      by (auto split: option.splits prod.splits simp: Let_def)
  qed
qed

lemma groups_of_value_Cons:
  "groups_of_value (n # news) (grp # gs) w
     = (if n = w then py_list grp # groups_of_value news gs w else groups_of_value news gs w)"
  by (simp add: groups_of_value_def)

lemma update_new_params_one_constant:
  assumes "update_new_params c g p info r tc pname news d cl added
             = (Inr (d', cl', added'), c', g')"
      and "count_list news (Constant k) = Suc (length (dict_get d (Constant k)))"
      and "\<forall>w \<in> set news. w \<noteq> Constant k \<longrightarrow> count_list news w \<le> length (dict_get d w)"
  shows "\<exists>pm plot_ports prt grp gs'.
           map_of (port_map info) (Some pname) = Some pm
         \<and> those (map (\<lambda>(mod_id, prt). map_option (\<lambda>m. (m, prt)) (modules_get p mod_id)) pm)
             = Some plot_ports
         \<and> name_to_port r pname = Some prt
         \<and> add_constant_module c g (port_type prt) k plot_ports = (grp, c', g')
         \<and> cl' = cl @ gs' \<and> length gs' = length news \<and> added' = added @ [pname]
         \<and> (\<forall>w. groups_of_value news gs' w
                  = take (count_list news w) (dict_get d w)
                    @ (if w = Constant k then [py_list grp] else []))
         \<and> (\<forall>w. dict_get d' w = drop (count_list news w) (dict_get d w))"
  using assms
proof (induction news arbitrary: d cl)
  case Nil
  then show ?case by simp
next
  case (Cons n news)
  let ?v = "Constant k"
  show ?case
  proof (cases "dict_get d n")
    case Nil
    have nv: "n = ?v"
    proof (rule ccontr)
      assume "n \<noteq> ?v"
      with Cons.prems(3) have "count_list (n # news) n \<le> length (dict_get d n)" by simp
      with Nil show False by simp
    qed
    from Cons.prems(2) nv Nil have c0: "count_list news ?v = 0" by simp
    then have notin: "?v \<notin> set news" by (simp add: count_list_0_iff)
    from update_new_params_add_constant[OF Cons.prems(1)[unfolded nv] Nil[unfolded nv]]
    obtain pm plot_ports prt grp c1 g1 where
      l1: "map_of (port_map info) (Some pname) = Some pm" and
      l2: "those (map (\<lambda>(mod_id, prt). map_option (\<lambda>m. (m, prt)) (modules_get p mod_id)) pm)
             = Some plot_ports" and
      l3: "name_to_port r pname = Some prt" and
      ac: "add_constant_module c g (port_type prt) k plot_ports = (grp, c1, g1)" and
      run: "update_new_params c1 g1 p info r tc pname news d (cl @ [grp]) (added @ [pname])
             = (Inr (d', cl', added'), c', g')"
      by blast
    have pre: "\<forall>w \<in> set news. count_list news w \<le> length (dict_get d w)"
    proof
      fix w assume w: "w \<in> set news"
      with notin have ne: "w \<noteq> ?v" by blast
      with Cons.prems(3) w have "count_list (n # news) w \<le> length (dict_get d w)" by simp
      then show "count_list news w \<le> length (dict_get d w)" using ne nv by simp
    qed
    from update_new_params_by_count[OF pre, of c1 g1 p info r tc pname "cl @ [grp]"
        "added @ [pname]"]
    obtain d2 gs1 where
      run2: "update_new_params c1 g1 p info r tc pname news d (cl @ [grp]) (added @ [pname])
               = (Inr (d2, (cl @ [grp]) @ gs1, added @ [pname]), c1, g1)" and
      len: "length gs1 = length news" and
      grp: "\<forall>w. groups_of_value news gs1 w = take (count_list news w) (dict_get d w)" and
      lft: "\<forall>w. dict_get d2 w = drop (count_list news w) (dict_get d w)"
      by blast
    from run run2 have e: "d' = d2" "cl' = cl @ (grp # gs1)" "added' = added @ [pname]"
      "c' = c1" "g' = g1" by simp_all
    have a: "groups_of_value (n # news) (grp # gs1) w
               = take (count_list (n # news) w) (dict_get d w)
                 @ (if w = ?v then [py_list grp] else [])" for w
    proof (cases "w = ?v")
      case True
      then show ?thesis using grp c0 nv Nil by (simp add: groups_of_value_Cons)
    next
      case False
      then show ?thesis using grp nv by (simp add: groups_of_value_Cons)
    qed
    have b: "dict_get d' w = drop (count_list (n # news) w) (dict_get d w)" for w
    proof (cases "w = ?v")
      case True
      then show ?thesis using lft e(1) nv Nil by simp
    next
      case False
      then show ?thesis using lft e(1) nv by simp
    qed
    from l1 l2 l3 ac e len a b show ?thesis
      by (intro exI[of _ pm] exI[of _ plot_ports] exI[of _ prt] exI[of _ grp]
            exI[of _ "grp # gs1"]) simp
  next
    case (Cons x rest)
    let ?d1 = "if rest = [] then dict_del n d else dict_set n rest d"
    have g1: "dict_get ?d1 w = (if w = n then rest else dict_get d w)" for w
      by (rule dict_get_consumed)
    have run: "update_new_params c g p info r tc pname news ?d1 (cl @ [ConnList x]) added
                 = (Inr (d', cl', added'), c', g')"
      using update_new_params_matched[OF dict_get_Cons_map_of[OF Cons]] Cons.prems(1) by simp
    have cnt: "count_list news ?v = Suc (length (dict_get ?d1 ?v))"
    proof (cases "n = ?v")
      case True
      then show ?thesis using Cons.prems(2) Cons g1[of ?v] by simp
    next
      case False
      then show ?thesis using Cons.prems(2) g1[of ?v] by simp
    qed
    have oth: "\<forall>w \<in> set news. w \<noteq> ?v \<longrightarrow> count_list news w \<le> length (dict_get ?d1 w)"
    proof (intro ballI impI)
      fix w assume w: "w \<in> set news" and ne: "w \<noteq> ?v"
      with Cons.prems(3) have le: "count_list (n # news) w \<le> length (dict_get d w)" by simp
      show "count_list news w \<le> length (dict_get ?d1 w)"
      proof (cases "w = n")
        case True
        then show ?thesis using le Cons g1[of w] by simp
      next
        case False
        then show ?thesis using le g1[of w] by simp
      qed
    qed
    from Cons.IH[OF run cnt oth] obtain pm plot_ports prt grp gs1 where
      l1: "map_of (port_map info) (Some pname) = Some pm" and
      l2: "those (map (\<lambda>(mod_id, prt). map_option (\<lambda>m. (m, prt)) (modules_get p mod_id)) pm)
             = Some plot_ports" and
      l3: "name_to_port r pname = Some prt" and
      ac: "add_constant_module c g (port_type prt) k plot_ports = (grp, c', g')" and
      e: "cl' = (cl @ [ConnList x]) @ gs1" "length gs1 = length news" "added' = added @ [pname]" and
      grp: "\<forall>w. groups_of_value news gs1 w
                  = take (count_list news w) (dict_get ?d1 w)
                    @ (if w = ?v then [py_list grp] else [])" and
      lft: "\<forall>w. dict_get d' w = drop (count_list news w) (dict_get ?d1 w)"
      by blast
    have a: "groups_of_value (n # news) (ConnList x # gs1) w
               = take (count_list (n # news) w) (dict_get d w)
                 @ (if w = ?v then [py_list grp] else [])" for w
    proof (cases "w = n")
      case True
      have "groups_of_value (n # news) (ConnList x # gs1) n = x # groups_of_value news gs1 n"
        by (simp add: groups_of_value_Cons)
      also have "\<dots> = x # take (count_list news n) rest @ (if n = ?v then [py_list grp] else [])"
        using grp g1[of n] by simp
      finally show ?thesis using True Cons by simp
    next
      case False
      have "groups_of_value (n # news) (ConnList x # gs1) w = groups_of_value news gs1 w"
        using False by (simp add: groups_of_value_Cons)
      then show ?thesis using grp g1[of w] False by simp
    qed
    have b: "dict_get d' w = drop (count_list (n # news) w) (dict_get d w)" for w
    proof (cases "w = n")
      case True
      then show ?thesis using lft g1[of n] Cons by simp
    next
      case False
      then show ?thesis using lft g1[of w] by simp
    qed
    from l1 l2 l3 ac e a b show ?thesis
      by (intro exI[of _ pm] exI[of _ plot_ports] exI[of _ prt] exI[of _ grp]
            exI[of _ "ConnList x # gs1"]) simp
  qed
qed

lemma map_fst_enumerate_upt: "map fst (enumerate n xs) = [n ..< n + length xs]"
  by (simp add: enumerate_eq_zip)

lemma add_constant_module_result:
  assumes "add_constant_module c g desc k plot_ports = (grp, c', g')"
  shows "grp = ConnList (map ConnId [next_connection_id c ..< next_connection_id c + length plot_ports])
         \<and> c' = c\<lparr>next_module_id := Suc (next_module_id c),
                   next_connection_id := next_connection_id c + length plot_ports\<rparr>
         \<and> operations g' = operations g @ constant_operations c desc k plot_ports"
proof -
  let ?m = "\<lparr>m_id = next_module_id c, module_descriptor = desc, module_functions = []\<rparr>"
  let ?c1 = "c\<lparr>next_module_id := Suc (next_module_id c)\<rparr>"
  let ?g2 = "update_function (add_module g ?m) ?m ''value'' [k]"
  obtain ids c3 g3 where cp: "connect_plot_ports ?c1 ?g2 ?m ''value'' plot_ports [] = (ids, c3, g3)"
    by (cases "connect_plot_ports ?c1 ?g2 ?m ''value'' plot_ports []") auto
  from assms cp have e: "grp = ConnList (map ConnId ids)" "c' = c3" "g' = g3"
    by (simp_all add: add_constant_module_def create_module_from_descriptor_def Let_def)
  from connect_plot_ports_operations[OF cp] have
    c3: "c3 = ?c1\<lparr>next_connection_id := next_connection_id ?c1 + length plot_ports\<rparr>" and
    ids: "ids = [] @ map fst (enumerate (next_connection_id ?c1) plot_ports)" and
    ops: "operations g3 = operations ?g2 @ map AddConnection
         (map (\<lambda>(i, (m, prt)).
                \<lparr>c_id = i, source_moduleId = m_id ?m, source_name = ''value'',
                 destination_moduleId = m_id m, destination_name = prt\<rparr>)
              (enumerate (next_connection_id ?c1) plot_ports))"
    by blast+
  have "grp = ConnList (map ConnId [next_connection_id c ..< next_connection_id c + length plot_ports])"
    using e(1) ids by (simp add: map_fst_enumerate_upt)
  moreover have "c' = c\<lparr>next_module_id := Suc (next_module_id c),
                   next_connection_id := next_connection_id c + length plot_ports\<rparr>"
    using e(2) c3 by simp
  moreover have "operations g' = operations g @ constant_operations c desc k plot_ports"
    using e(3) ops
    by (simp add: constant_operations_def update_function_def add_module_def split_def o_def)
  ultimately show ?thesis by blast
qed

lemma old_params_of_all_empty:
  assumes "old_params_of d L" "\<forall>w. dict_get d w = []"
  shows "d = []"
proof (cases d)
  case Nil then show ?thesis .
next
  case (Cons a d')
  obtain k gs where a: "a = (k, gs)" by (cases a)
  have "gs \<noteq> []" using assms(1) Cons a by (simp add: old_params_of_def)
  moreover have "dict_get d k = gs" using Cons a by (simp add: dict_get_def)
  ultimately show ?thesis using assms(2) by simp
qed

lemma length_filter_zip_count:
  "length xs = length gs \<Longrightarrow>
   length (filter (\<lambda>(a, g). a = w) (zip xs gs)) = count_list xs w"
  by (induction xs gs rule: list_induct2) auto

text \<open>
  C6, as claimed for any call, fails for a connection that is not in the current pipeline
  of the controller. \<^verbatim>\<open>delete_linked\<close> looks for connections in
  \<^verbatim>\<open>controller.current_pipeline\<close> only: a connection that an earlier operation of the
  list adds (here connection 99, from module 8 to module 4) is not examined. Deleting
  module 8 of the example pipeline appends no deletion of connection 99, and the pipeline
  the operation list gives has connection 99 with its source at the deleted module 8.
\<close>

theorem delete_linked_staged_connection_counterexample:
  "delete_linked ex_controller1
     (OneModule \<lparr>m_id = 8, module_descriptor = Other ''Filter'', module_functions = []\<rparr>)
     [AddConnection \<lparr>c_id = 99, source_moduleId = 8, source_name = ''out'',
                     destination_moduleId = 4, destination_name = ''color''\<rparr>]
     (\<lambda>m. True) (\<lambda>c. False) sys_maxint
   = (Inr [8],
      [AddConnection \<lparr>c_id = 99, source_moduleId = 8, source_name = ''out'',
                      destination_moduleId = 4, destination_name = ''color''\<rparr>,
       DeleteConnection \<lparr>c_id = 5, source_moduleId = 7, source_name = ''out'',
                         destination_moduleId = 8, destination_name = ''in''\<rparr>,
       DeleteConnection \<lparr>c_id = 6, source_moduleId = 8, source_name = ''out'',
                         destination_moduleId = 4, destination_name = ''data''\<rparr>,
       DeleteModule \<lparr>m_id = 8, module_descriptor = Other ''Filter'', module_functions = []\<rparr>])
   \<and> \<lparr>c_id = 99, source_moduleId = 8, source_name = ''out'',
       destination_moduleId = 4, destination_name = ''color''\<rparr>
       \<in> set (connection_list (apply_operations (current_pipeline ex_controller1)
             (snd (delete_linked ex_controller1
                (OneModule \<lparr>m_id = 8, module_descriptor = Other ''Filter'', module_functions = []\<rparr>)
                [AddConnection \<lparr>c_id = 99, source_moduleId = 8, source_name = ''out'',
                                destination_moduleId = 4, destination_name = ''color''\<rparr>]
                (\<lambda>m. True) (\<lambda>c. False) sys_maxint))))
   \<and> 8 \<notin> m_id ` set (module_list (apply_operations (current_pipeline ex_controller1)
             (snd (delete_linked ex_controller1
                (OneModule \<lparr>m_id = 8, module_descriptor = Other ''Filter'', module_functions = []\<rparr>)
                [AddConnection \<lparr>c_id = 99, source_moduleId = 8, source_name = ''out'',
                                destination_moduleId = 4, destination_name = ''color''\<rparr>]
                (\<lambda>m. True) (\<lambda>c. False) sys_maxint))))"
proof -
  let ?m = "\<lparr>m_id = 8, module_descriptor = Other ''Filter'', module_functions = []\<rparr>"
  let ?a = "\<lparr>c_id = 99, source_moduleId = 8, source_name = ''out'',
             destination_moduleId = 4, destination_name = ''color''\<rparr>"
  have d: "delete_linked ex_controller1 (OneModule ?m) [AddConnection ?a]
             (\<lambda>m. True) (\<lambda>c. False) sys_maxint
           = (Inr [8],
              [AddConnection ?a,
               DeleteConnection \<lparr>c_id = 5, source_moduleId = 7, source_name = ''out'',
                                 destination_moduleId = 8, destination_name = ''in''\<rparr>,
               DeleteConnection \<lparr>c_id = 6, source_moduleId = 8, source_name = ''out'',
                                 destination_moduleId = 4, destination_name = ''data''\<rparr>,
               DeleteModule ?m])"
    by (simp add: delete_linked_def delete_loop.simps sys_maxint_def module_connections_def
        conn_to_delete_def ex_controller1_def ex_pipeline1_def Let_def)
  show ?thesis
    unfolding d by (simp add: apply_operations_def ex_controller1_def ex_pipeline1_def)
qed

subsection \<open>Additions and removals of an update\<close>

lemma update_new_params_add_step:
  assumes "update_new_params c g p info r tc pname (n # news) d cl added = (Inr res, c', g')"
      and "dict_get d n = []"
  shows "\<exists>pm plot_ports prt grp c1 g1.
           map_of (port_map info) (Some pname) = Some pm
         \<and> those (map (\<lambda>(mod_id, prt). map_option (\<lambda>m. (m, prt)) (modules_get p mod_id)) pm)
             = Some plot_ports
         \<and> name_to_port r pname = Some prt
         \<and> (case n of
               Variable v \<Rightarrow>
                 add_variable_subworkflow_typecast c g v plot_ports (port_type prt) tc
                   = (Inr grp, c1, g1)
             | Constant k \<Rightarrow>
                 add_constant_module c g (port_type prt) k plot_ports = (grp, c1, g1))
         \<and> update_new_params c1 g1 p info r tc pname news d (cl @ [grp]) (added @ [pname])
             = (Inr res, c', g')"
proof -
  from dict_get_Nil_map_of[OF assms(2)]
  have m: "map_of d n = None \<or> map_of d n = Some []" .
  from m show ?thesis
  proof
    assume "map_of d n = None"
    with assms(1) show ?thesis
      by (auto split: option.splits prod.splits sum.splits recipe_parameter_value.splits
            simp: Let_def)
  next
    assume "map_of d n = Some []"
    with assms(1) show ?thesis
      by (auto split: option.splits prod.splits sum.splits recipe_parameter_value.splits
            simp: Let_def)
  qed
qed

lemma update_new_params_added:
  assumes "update_new_params c g p info r tc pname news d cl added = (Inr (d', cl', added'), c', g')"
      and "old_params_of d L"
  shows "added' = added @ replicate (count_list (fst (reconcile news L)) None) pname"
  using assms
proof (induction news arbitrary: c g d cl added L)
  case Nil
  then show ?case by simp
next
  case (Cons n news)
  show ?case
  proof (cases "consume_first n L")
    case (Some a)
    obtain grp L1 where a: "a = (grp, L1)" by (cases a)
    from old_params_of_consume[OF Cons.prems(2) Some[unfolded a]] obtain rest where
      m: "map_of d n = Some (grp # rest)" and
      o: "old_params_of (if rest = [] then dict_del n d else dict_set n rest d) L1" by blast
    from Cons.prems(1) have
      rec: "update_new_params c g p info r tc pname news
              (if rest = [] then dict_del n d else dict_set n rest d)
              (cl @ [ConnList grp]) added = (Inr (d', cl', added'), c', g')"
      unfolding update_new_params_matched[OF m] .
    have rc: "fst (reconcile (n # news) L) = Some grp # fst (reconcile news L1)"
      using Some a by (simp split: prod.splits)
    from Cons.IH[OF rec o] show ?thesis unfolding rc by simp
  next
    case None
    then have "n \<notin> fst ` set L" by (simp add: consume_first_None)
    from old_params_of_lookup_None[OF Cons.prems(2) this] have "map_of d n = None" .
    then have dn: "dict_get d n = []" by (simp add: dict_get_def)
    have rc: "fst (reconcile (n # news) L) = None # fst (reconcile news L)"
      using None by (simp split: prod.splits)
    from update_new_params_add_step[OF Cons.prems(1) dn] obtain grp c1 g1 where
      rec: "update_new_params c1 g1 p info r tc pname news d (cl @ [grp]) (added @ [pname]) =
              (Inr (d', cl', added'), c', g')"
      by blast
    from Cons.IH[OF rec Cons.prems(2)] show ?thesis unfolding rc
      by (simp add: replicate_app_Cons_same)
  qed
qed

lemma old_params_of_length:
  "old_params_of d L \<Longrightarrow> length (concat (map snd d)) = length L"
proof (induction d arbitrary: L)
  case Nil
  then have "old_params_of [] L" .
  have "L = []"
  proof (cases L)
    case Nil then show ?thesis .
  next
    case (Cons a L')
    obtain k g where a: "a = (k, g)" by (cases a)
    from \<open>old_params_of [] L\<close> have "dict_get [] k = map snd (filter (\<lambda>(a, g). a = k) L)"
      unfolding old_params_of_def by blast
    then show ?thesis using Cons a by (simp add: dict_get_def)
  qed
  then show ?case by simp
next
  case (Cons e d)
  obtain k gs where e: "e = (k, gs)" by (cases e)
  let ?L1 = "filter (\<lambda>(a, g). a \<noteq> k) L"
  from Cons.prems e have
    dist: "distinct (map fst d)" and kn: "k \<notin> fst ` set d" and
    ne: "\<forall>gs \<in> snd ` set d. gs \<noteq> []" and
    all: "\<forall>k'. dict_get ((k, gs) # d) k' = map snd (filter (\<lambda>(a, g). a = k') L)"
    by (auto simp: old_params_of_def)
  have gk: "gs = map snd (filter (\<lambda>(a, g). a = k) L)"
    using all[rule_format, of k] by (simp add: dict_get_def)
  have "dict_get d k' = map snd (filter (\<lambda>(a, g). a = k') ?L1)" for k'
  proof (cases "k' = k")
    case True
    have "filter (\<lambda>(a, g). a = k) ?L1 = []" by (induction L) auto
    then show ?thesis using True dict_get_not_key[OF kn] by simp
  next
    case False
    have "filter (\<lambda>(a, g). a = k') ?L1 = filter (\<lambda>(a, g). a = k') L"
      using False by (induction L) auto
    moreover have "dict_get d k' = dict_get ((k, gs) # d) k'"
      using False by (simp add: dict_get_def)
    ultimately show ?thesis using all by simp
  qed
  with dist ne have "old_params_of d ?L1" by (simp add: old_params_of_def)
  from Cons.IH[OF this] have ih: "length (concat (map snd d)) = length ?L1" .
  have "length (filter (\<lambda>(a, g). a = k) L) + length ?L1 = length L"
    by (induction L) auto
  then show ?case using ih gk e by simp
qed

lemma delete_old_connections_removed:
  "delete_old_connections c g p pname groups removed = (Inr removed', g') \<Longrightarrow>
   removed' = removed @ replicate (length groups) pname"
proof (induction groups arbitrary: g removed)
  case Nil
  then show ?case by simp
next
  case (Cons items rest)
  from Cons.prems obtain g1 where
    "delete_old_connections c g1 p pname rest (removed @ [pname]) = (Inr removed', g')"
    by (auto split: option.splits sum.splits prod.splits simp: Let_def)
  from Cons.IH[OF this] show ?case by (simp add: replicate_app_Cons_same)
qed

lemma delete_old_params_removed:
  "delete_old_params c g p pname gss removed = (Inr removed', g') \<Longrightarrow>
   removed' = removed @ replicate (length (concat gss)) pname"
proof (induction gss arbitrary: g removed)
  case Nil
  then show ?case by simp
next
  case (Cons groups rest)
  from Cons.prems obtain r1 g1 where
    a: "delete_old_connections c g p pname groups removed = (Inr r1, g1)" and
    b: "delete_old_params c g1 p pname rest r1 = (Inr removed', g')"
    by (auto split: sum.splits prod.splits)
  from delete_old_connections_removed[OF a] Cons.IH[OF b] show ?case
    by (simp add: replicate_add)
qed

lemma update_ports_Cons_Inr:
  assumes "update_ports c g p info r tc (pname # pnames) cmap added removed = (Inr res, c', g')"
  shows "\<exists>d d' conn_lists added1 c1 g1 removed1 g2.
           build_old_params (conn_map info) pname
             (dict_get (parameters (pi_recipe info)) pname) 0 [] = Inr d
         \<and> update_new_params c g p info r tc pname (dict_get (parameters r) pname) d
             (dict_get cmap pname) added = (Inr (d', conn_lists, added1), c1, g1)
         \<and> delete_old_params c1 g1 p pname (map snd d') removed = (Inr removed1, g2)
         \<and> update_ports c1 g2 p info r tc pnames (dict_set pname conn_lists cmap) added1 removed1
             = (Inr res, c', g')"
  using assms by (auto split: sum.splits prod.splits)

lemma build_old_params_old_bindings:
  assumes "build_old_params (conn_map info) pname
             (dict_get (parameters (pi_recipe info)) pname) 0 [] = Inr d"
  shows "old_params_of d (old_bindings info pname)"
  using build_old_params_ok[OF assms old_params_of_Nil] by (simp add: old_bindings_def)

lemma update_ports_added_removed:
  assumes "update_ports c g p info r tc pnames cmap added removed
             = (Inr (cmap', added', removed'), c', g')"
  shows "added' = added @ concat (map (\<lambda>q. replicate
                     (count_list (fst (reconcile (dict_get (parameters r) q)
                                         (old_bindings info q))) None) q) pnames)
       \<and> removed' = removed @ concat (map (\<lambda>q. replicate
                     (length (snd (reconcile (dict_get (parameters r) q)
                                     (old_bindings info q)))) q) pnames)"
  using assms
proof (induction pnames arbitrary: c g cmap added removed)
  case Nil
  then show ?case by simp
next
  case (Cons pname pnames)
  from update_ports_Cons_Inr[OF Cons.prems] obtain d d' conn_lists added1 c1 g1 removed1 g2
    where
      b: "build_old_params (conn_map info) pname
            (dict_get (parameters (pi_recipe info)) pname) 0 [] = Inr d" and
      u: "update_new_params c g p info r tc pname (dict_get (parameters r) pname) d
            (dict_get cmap pname) added = (Inr (d', conn_lists, added1), c1, g1)" and
      del: "delete_old_params c1 g1 p pname (map snd d') removed = (Inr removed1, g2)" and
      rest: "update_ports c1 g2 p info r tc pnames (dict_set pname conn_lists cmap) added1
               removed1 = (Inr (cmap', added', removed'), c', g')"
    by blast
  let ?rc = "reconcile (dict_get (parameters r) pname) (old_bindings info pname)"
  have o: "old_params_of d (old_bindings info pname)" by (rule build_old_params_old_bindings[OF b])
  have a1: "added1 = added @ replicate (count_list (fst ?rc) None) pname"
    by (rule update_new_params_added[OF u o])
  from update_new_params_refines[OF u o] have o': "old_params_of d' (snd ?rc)" by blast
  have r1: "removed1 = removed @ replicate (length (snd ?rc)) pname"
    using delete_old_params_removed[OF del] old_params_of_length[OF o'] by simp
  from Cons.IH[OF rest] show ?case unfolding a1 r1 by simp
qed

lemma update_ports_no_op_iff:
  assumes "update_ports c g p info r tc (port_names info r) cmap [] []
             = (Inr (cmap', added', removed'), c', g')"
  shows "added' = [] \<and> removed' = [] \<longleftrightarrow> no_additions_no_removals info r"
proof -
  have z: "count_list xs None = 0 \<longleftrightarrow> None \<notin> set xs" for xs :: "'z option list"
    by (simp add: count_list_0_iff)
  from update_ports_added_removed[OF assms] show ?thesis
    by (auto simp: no_additions_no_removals_def list_all_iff z)
qed

lemma update_pipeline_unfold:
  assumes "update_pipeline controller info r tc = (Inr info', c')"
  shows "\<exists>c0 cmap added removed c1 g1.
           change_selected_version controller (version info) = Inr c0
         \<and> plot_object (plot (pi_recipe info)) = plot_object (plot r)
         \<and> update_ports c0 (PipelineGenerator c0) (current_pipeline c0) info r tc
              (port_names info r) [] [] [] = (Inr (cmap, added, removed), c1, g1)
         \<and> (if added = [] \<and> removed = [] then info' = info \<and> c' = c1
             else (\<exists>c2 c3 v.
                     (if current_version c1 \<noteq> version info
                      then change_selected_version c1 (version info) else Inr c1) = Inr c2
                   \<and> perform_action c2 g1 = (Inr v, c3)
                   \<and> info' = \<lparr>version = v, pi_recipe = r, conn_map = cmap,
                               port_map = port_map info\<rparr>
                   \<and> versions c' = versions c3
                   \<and> next_module_id c' = next_module_id c3
                   \<and> next_connection_id c' = next_connection_id c3))"
proof -
  from assms obtain c0 where
    c0: "change_selected_version controller (version info) = Inr c0"
    unfolding update_pipeline_def by (auto split: sum.splits)
  from assms c0 have po: "plot_object (plot (pi_recipe info)) = plot_object (plot r)"
    unfolding update_pipeline_def by (auto split: if_splits)
  from assms c0 po obtain cmap added removed c1 g1 where
    u: "update_ports c0 (PipelineGenerator c0) (current_pipeline c0) info r tc
          (port_names info r) [] [] [] = (Inr (cmap, added, removed), c1, g1)"
    unfolding update_pipeline_def by (auto split: sum.splits prod.splits)
  show ?thesis
  proof (cases "added = [] \<and> removed = []")
    case True
    with assms c0 po u have "info' = info \<and> c' = c1"
      unfolding update_pipeline_def by simp
    with c0 po u True show ?thesis by auto
  next
    case False
    from assms c0 po u False obtain c2 where
      c2: "(if current_version c1 \<noteq> version info
            then change_selected_version c1 (version info) else Inr c1) = Inr c2"
      unfolding update_pipeline_def by (auto split: sum.splits)
    from assms c0 po u False c2 obtain v c3 where
      pa: "perform_action c2 g1 = (Inr v, c3)"
      unfolding update_pipeline_def by (auto split: sum.splits prod.splits)
    from assms c0 po u False c2 pa obtain d where
      d: "describe_dat_update added removed = Inr d"
      unfolding update_pipeline_def by (auto split: sum.splits)
    from assms c0 po u False c2 pa d obtain c5 where
      c5: "change_selected_version (change_description c3 d v) v = Inr c5" and
      res: "info' = \<lparr>version = v, pi_recipe = r, conn_map = cmap, port_map = port_map info\<rparr>"
           "c' = c5"
      unfolding update_pipeline_def by (auto split: sum.splits simp: Let_def)
    from c5 have "versions c5 = versions c3 \<and> next_module_id c5 = next_module_id c3
                  \<and> next_connection_id c5 = next_connection_id c3"
      by (auto simp: change_selected_version_def change_description_def split: option.splits)
    with c0 po u False c2 pa res show ?thesis by auto
  qed
qed

lemma update_pipeline_no_op:
  assumes "update_pipeline controller info r tc = (Inr info', c')"
  shows "if no_additions_no_removals info r then info' = info
         else (\<exists>c0 c1 g1 added removed v.
                 update_ports c0 (PipelineGenerator c0) (current_pipeline c0) info r tc
                   (port_names info r) [] [] []
                   = (Inr (conn_map info', added, removed), c1, g1)
               \<and> info' = \<lparr>version = v, pi_recipe = r, conn_map = conn_map info',
                           port_map = port_map info\<rparr>)"
proof -
  from update_pipeline_unfold[OF assms] obtain c0 cmap added removed c1 g1 where
    u: "update_ports c0 (PipelineGenerator c0) (current_pipeline c0) info r tc
          (port_names info r) [] [] [] = (Inr (cmap, added, removed), c1, g1)" and
    r: "if added = [] \<and> removed = [] then info' = info \<and> c' = c1
        else (\<exists>c2 c3 v.
                (if current_version c1 \<noteq> version info
                 then change_selected_version c1 (version info) else Inr c1) = Inr c2
              \<and> perform_action c2 g1 = (Inr v, c3)
              \<and> info' = \<lparr>version = v, pi_recipe = r, conn_map = cmap,
                          port_map = port_map info\<rparr>
              \<and> versions c' = versions c3
              \<and> next_module_id c' = next_module_id c3
              \<and> next_connection_id c' = next_connection_id c3)"
    by blast
  note iff = update_ports_no_op_iff[OF u]
  show ?thesis
  proof (cases "no_additions_no_removals info r")
    case True
    with iff r show ?thesis by simp
  next
    case False
    with iff have "\<not> (added = [] \<and> removed = [])" by simp
    with r obtain v where
      i: "info' = \<lparr>version = v, pi_recipe = r, conn_map = cmap, port_map = port_map info\<rparr>"
      by auto
    then have cm: "conn_map info' = cmap" by simp
    have "\<exists>c0 c1 g1 added removed v.
                 update_ports c0 (PipelineGenerator c0) (current_pipeline c0) info r tc
                   (port_names info r) [] [] []
                   = (Inr (conn_map info', added, removed), c1, g1)
               \<and> info' = \<lparr>version = v, pi_recipe = r, conn_map = conn_map info',
                           port_map = port_map info\<rparr>"
      using u i unfolding cm by blast
    with False show ?thesis by simp
  qed
qed

lemma ex_update_aa_a:
  "update_pipeline ex_controller_aa ex_info_aa ex_recipe1 None = (Inr ex_info_a, ex_controller_a)"
  by (simp add: update_pipeline_def ex_recipe1_def ex_cell_def ex_line_def
        ex_varA_def ex_varB_def ex_line_pipeline_def ex_varA_pipeline_def ex_varB_pipeline_def
        ex_root_pipeline_def ex_output_port_def ex_pipeline1_def ex_info1_def
        ex_recipe_aa_def ex_pipeline_aa_def ex_info_aa_def ex_controller_aa_def
        ex_info_a_def ex_controller_a_def ex_controller_fields model_defs Let_def)

lemma ex_update_ab_ba:
  "update_pipeline ex_controller_ab ex_info_ab ex_recipe_ba None = (Inr ex_info_ab, ex_controller_ab)"
  by (simp add: update_pipeline_def ex_recipe1_def ex_cell_def ex_line_def
        ex_varA_def ex_varB_def ex_line_pipeline_def ex_varA_pipeline_def ex_varB_pipeline_def
        ex_root_pipeline_def ex_output_port_def ex_pipeline1_def ex_info1_def
        ex_recipe_ab_def ex_recipe_ba_def ex_conn6_def ex_conn7_def
        ex_pipeline_ab_def ex_info_ab_def ex_controller_ab_def
        ex_controller_fields model_defs Let_def)

lemma ex_no_op_ab_b: "\<not> no_additions_no_removals ex_info_ab ex_recipe_b"
  by (simp add: no_additions_no_removals_def port_names_def dict_keys_def old_bindings_def
        dict_get_def ex_info_ab_def ex_recipe_ab_def ex_recipe_b_def ex_varA_def ex_varB_def)

lemma ex_no_op_aa_a: "\<not> no_additions_no_removals ex_info_aa ex_recipe1"
  by (simp add: no_additions_no_removals_def port_names_def dict_keys_def old_bindings_def
        dict_get_def ex_info_aa_def ex_recipe_aa_def ex_recipe1_def)

lemma ex_no_op_ab_ba: "no_additions_no_removals ex_info_ab ex_recipe_ba"
  by (simp add: no_additions_no_removals_def port_names_def dict_keys_def old_bindings_def
        dict_get_def ex_info_ab_def ex_recipe_ab_def ex_recipe_ba_def ex_varA_def ex_varB_def)

lemma ex_no_op_2_1: "\<not> no_additions_no_removals ex_info2 ex_recipe1"
  by (simp add: no_additions_no_removals_def port_names_def dict_keys_def old_bindings_def
        dict_get_def ex_info2_def ex_recipe2_def ex_recipe1_def)

text \<open>
  C10. An update with no additions and no removals returns the prior record. Any other
  update that returns a record returns one with the new recipe, whose connection map has
  exactly the port names of the two recipes as its keys; a port for which the new recipe
  holds no binding is a key of the map and is mapped to the empty list.
\<close>

theorem update_pipeline_conn_map_keys:
  assumes "update_pipeline controller info new_recipe typecast = (Inr info', controller')"
  shows "if no_additions_no_removals info new_recipe then info' = info
         else (pi_recipe info' = new_recipe
               \<and> fst ` set (conn_map info')
                   = fst ` set (parameters (pi_recipe info)) \<union> fst ` set (parameters new_recipe)
               \<and> (\<forall>pname \<in> fst ` set (conn_map info').
                     dict_get (parameters new_recipe) pname = [] \<longrightarrow>
                     map_of (conn_map info') pname = Some []))"
proof (cases "no_additions_no_removals info new_recipe")
  case True
  with update_pipeline_no_op[OF assms] show ?thesis by simp
next
  case False
  with update_pipeline_no_op[OF assms] obtain c0 c1 g1 added removed v where
    u: "update_ports c0 (PipelineGenerator c0) (current_pipeline c0) info new_recipe typecast
          (port_names info new_recipe) [] [] [] = (Inr (conn_map info', added, removed), c1, g1)"
    and i: "info' = \<lparr>version = v, pi_recipe = new_recipe, conn_map = conn_map info',
                      port_map = port_map info\<rparr>"
    by auto
  from i have pr: "pi_recipe info' = new_recipe" by (cases info') simp
  from update_ports_keys[OF u] have
    k: "fst ` set (conn_map info') = set (port_names info new_recipe)" by simp
  from update_ports_groups[OF u distinct_port_names] have
    g: "\<forall>pname \<in> set (port_names info new_recipe). \<exists>gs'.
          map_of (conn_map info') pname = Some (dict_get [] pname @ gs') \<and>
          length gs' = length (dict_get (parameters new_recipe) pname)"
    by blast
  have e: "map_of (conn_map info') pname = Some []"
    if "pname \<in> fst ` set (conn_map info')" "dict_get (parameters new_recipe) pname = []"
    for pname
  proof -
    from that(1) k g obtain gs' where
      "map_of (conn_map info') pname = Some (dict_get [] pname @ gs')"
      "length gs' = length (dict_get (parameters new_recipe) pname)" by blast
    with that(2) show ?thesis by (simp add: dict_get_def)
  qed
  have "fst ` set (conn_map info')
          = fst ` set (parameters (pi_recipe info)) \<union> fst ` set (parameters new_recipe)"
    using k by (simp add: set_port_names)
  with False pr e show ?thesis by simp
qed

theorem update_pipeline_conn_map_keys_witness:
  "update_pipeline ex_controller2 ex_info2 ex_recipe1 None = (Inr ex_info3, ex_controller3)
   \<and> \<not> no_additions_no_removals ex_info2 ex_recipe1
   \<and> pi_recipe ex_info3 = ex_recipe1
   \<and> fst ` set (conn_map ex_info3) = {''data'', ''color''}
   \<and> dict_get (parameters ex_recipe1) ''color'' = []
   \<and> map_of (conn_map ex_info3) ''color'' = Some []
   \<and> update_pipeline ex_controller_ab ex_info_ab ex_recipe_ba None
       = (Inr ex_info_ab, ex_controller_ab)
   \<and> no_additions_no_removals ex_info_ab ex_recipe_ba"
proof -
  have p: "dict_get (parameters ex_recipe1) ''color'' = []"
    by (simp add: ex_recipe1_def dict_get_def)
  have k: "fst ` set (parameters (pi_recipe ex_info2)) \<union> fst ` set (parameters ex_recipe1)
             = {''data'', ''color''}"
    by (simp add: ex_info2_def ex_recipe2_def ex_recipe1_def)
  note t = update_pipeline_conn_map_keys[OF ex_update21, unfolded if_not_P[OF ex_no_op_2_1]]
  from t
  have a: "pi_recipe ex_info3 = ex_recipe1"
    and b: "fst ` set (conn_map ex_info3)
            = fst ` set (parameters (pi_recipe ex_info2)) \<union> fst ` set (parameters ex_recipe1)"
    and c: "\<forall>pname \<in> fst ` set (conn_map ex_info3).
                dict_get (parameters ex_recipe1) pname = [] \<longrightarrow>
                map_of (conn_map ex_info3) pname = Some []"
    by blast+
  from b k have b': "fst ` set (conn_map ex_info3) = {''data'', ''color''}" by simp
  then have "''color'' \<in> fst ` set (conn_map ex_info3)" by simp
  with c p have d: "map_of (conn_map ex_info3) ''color'' = Some []" by blast
  from ex_update21 ex_no_op_2_1 a b' p d ex_update_ab_ba ex_no_op_ab_ba show ?thesis by blast
qed

text \<open>
  C1. The bindings of a port are reconciled by value, not by position. An update with no
  additions and no removals returns the prior record. Any other update that returns a
  record returns one with the new recipe whose connection map holds, for every port and at
  the position of every new binding that \<open>reconcile\<close> matches with an old binding left
  (the first in order of equal value), the group the prior connection map held for that
  old binding. And wherever the loop over the new bindings of a port stands, its step for
  a binding that matches consumes that old binding, appends its group and goes on with the
  controller and the generator as they were: no operation is recorded and no id is taken
  for a matched binding.
\<close>

theorem update_pipeline_reconciles_by_value:
  "(update_pipeline controller info new_recipe typecast = (Inr info', controller') \<longrightarrow>
      (if no_additions_no_removals info new_recipe then info' = info
       else (pi_recipe info' = new_recipe \<and>
             (\<forall>pname \<in> set (port_names info new_recipe). \<exists>gs.
                map_of (conn_map info') pname = Some gs \<and>
                length gs = length (dict_get (parameters new_recipe) pname) \<and>
                (\<forall>j grp. j < length gs \<longrightarrow>
                   fst (reconcile (dict_get (parameters new_recipe) pname)
                          (old_bindings info pname)) ! j = Some grp \<longrightarrow>
                   gs ! j = ConnList grp)))))
   \<and> (old_params_of d L \<and> consume_first param L = Some (grp, L') \<longrightarrow>
        (\<exists>d'. old_params_of d' L' \<and>
           update_new_params c g p info new_recipe typecast pname (param # ps) d cl added
             = update_new_params c g p info new_recipe typecast pname ps d'
                 (cl @ [ConnList grp]) added))"
proof (intro conjI impI)
  assume u: "update_pipeline controller info new_recipe typecast = (Inr info', controller')"
  show "if no_additions_no_removals info new_recipe then info' = info
       else (pi_recipe info' = new_recipe \<and>
             (\<forall>pname \<in> set (port_names info new_recipe). \<exists>gs.
                map_of (conn_map info') pname = Some gs \<and>
                length gs = length (dict_get (parameters new_recipe) pname) \<and>
                (\<forall>j grp. j < length gs \<longrightarrow>
                   fst (reconcile (dict_get (parameters new_recipe) pname)
                          (old_bindings info pname)) ! j = Some grp \<longrightarrow>
                   gs ! j = ConnList grp)))"
  proof (cases "no_additions_no_removals info new_recipe")
    case True
    with update_pipeline_no_op[OF u] show ?thesis by simp
  next
    case False
    with update_pipeline_no_op[OF u] obtain c0 c1 g1 added removed v where
      up: "update_ports c0 (PipelineGenerator c0) (current_pipeline c0) info new_recipe typecast
          (port_names info new_recipe) [] [] [] = (Inr (conn_map info', added, removed), c1, g1)"
      and i: "info' = \<lparr>version = v, pi_recipe = new_recipe, conn_map = conn_map info',
                        port_map = port_map info\<rparr>"
      by auto
    from i have pr: "pi_recipe info' = new_recipe" by (cases info') simp
    from update_ports_groups[OF up distinct_port_names]
    have "\<forall>pname \<in> set (port_names info new_recipe). \<exists>gs.
                map_of (conn_map info') pname = Some gs \<and>
                length gs = length (dict_get (parameters new_recipe) pname) \<and>
                (\<forall>j grp. j < length gs \<longrightarrow>
                   fst (reconcile (dict_get (parameters new_recipe) pname)
                          (old_bindings info pname)) ! j = Some grp \<longrightarrow>
                   gs ! j = ConnList grp)"
      by (simp add: dict_get_def)
    with False pr show ?thesis by simp
  qed
next
  assume a: "old_params_of d L \<and> consume_first param L = Some (grp, L')"
  from old_params_of_consume[OF conjunct1[OF a] conjunct2[OF a]] obtain rest where
    m: "map_of d param = Some (grp # rest)" and
    o: "old_params_of (if rest = [] then dict_del param d else dict_set param rest d) L'"
    by blast
  from update_new_params_matched[OF m] o
  show "\<exists>d'. old_params_of d' L' \<and>
           update_new_params c g p info new_recipe typecast pname (param # ps) d cl added
             = update_new_params c g p info new_recipe typecast pname ps d'
                 (cl @ [ConnList grp]) added"
    by blast
qed

theorem update_pipeline_reconciles_by_value_witness:
  "update_pipeline ex_controller_ab ex_info_ab ex_recipe_b None = (Inr ex_info_b, ex_controller_b)
   \<and> \<not> no_additions_no_removals ex_info_ab ex_recipe_b
   \<and> old_bindings ex_info_ab ''data''
       = [(Variable ex_varA, [ConnId 6]), (Variable ex_varB, [ConnId 7])]
   \<and> reconcile (dict_get (parameters ex_recipe_b) ''data'') (old_bindings ex_info_ab ''data'')
       = ([Some [ConnId 7]], [(Variable ex_varA, [ConnId 6])])
   \<and> map_of (conn_map ex_info_b) ''data'' = Some [ConnList [ConnId 7]]
   \<and> update_pipeline ex_controller_aa ex_info_aa ex_recipe1 None = (Inr ex_info_a, ex_controller_a)
   \<and> \<not> no_additions_no_removals ex_info_aa ex_recipe1
   \<and> old_bindings ex_info_aa ''data''
       = [(Variable ex_varA, [ConnId 6]), (Variable ex_varA, [ConnId 8])]
   \<and> reconcile (dict_get (parameters ex_recipe1) ''data'') (old_bindings ex_info_aa ''data'')
       = ([Some [ConnId 6]], [(Variable ex_varA, [ConnId 8])])
   \<and> map_of (conn_map ex_info_a) ''data'' = Some [ConnList [ConnId 6]]
   \<and> update_pipeline ex_controller_ab ex_info_ab ex_recipe_ba None
       = (Inr ex_info_ab, ex_controller_ab)
   \<and> no_additions_no_removals ex_info_ab ex_recipe_ba
   \<and> (\<exists>d'. old_params_of d' [(Variable ex_varA, [ConnId 6])] \<and>
         update_new_params ex_controller_ab (PipelineGenerator ex_controller_ab) ex_pipeline_ab
           ex_info_ab ex_recipe_b None ''data'' [Variable ex_varB]
           [(Variable ex_varA, [[ConnId 6]]), (Variable ex_varB, [[ConnId 7]])] [] []
         = update_new_params ex_controller_ab (PipelineGenerator ex_controller_ab) ex_pipeline_ab
           ex_info_ab ex_recipe_b None ''data'' [] d' ([] @ [ConnList [ConnId 7]]) [])"
proof -
  have ob1: "old_bindings ex_info_ab ''data''
       = [(Variable ex_varA, [ConnId 6]), (Variable ex_varB, [ConnId 7])]"
    by (simp add: old_bindings_def dict_get_def ex_info_ab_def ex_recipe_ab_def)
  have rc1: "reconcile (dict_get (parameters ex_recipe_b) ''data'') (old_bindings ex_info_ab ''data'')
       = ([Some [ConnId 7]], [(Variable ex_varA, [ConnId 6])])"
    unfolding ob1 by (simp add: dict_get_def ex_recipe_b_def ex_varA_def ex_varB_def)
  have pn1: "''data'' \<in> set (port_names ex_info_ab ex_recipe_b)"
    by (simp add: port_names_def dict_keys_def ex_info_ab_def ex_recipe_ab_def)
  have ob2: "old_bindings ex_info_aa ''data''
       = [(Variable ex_varA, [ConnId 6]), (Variable ex_varA, [ConnId 8])]"
    by (simp add: old_bindings_def dict_get_def ex_info_aa_def ex_recipe_aa_def)
  have rc2: "reconcile (dict_get (parameters ex_recipe1) ''data'') (old_bindings ex_info_aa ''data'')
       = ([Some [ConnId 6]], [(Variable ex_varA, [ConnId 8])])"
    unfolding ob2 by (simp add: dict_get_def ex_recipe1_def)
  have pn2: "''data'' \<in> set (port_names ex_info_aa ex_recipe1)"
    by (simp add: port_names_def dict_keys_def ex_info_aa_def ex_recipe_aa_def)
  have o: "old_params_of [(Variable ex_varA, [[ConnId 6]]), (Variable ex_varB, [[ConnId 7]])]
             [(Variable ex_varA, [ConnId 6]), (Variable ex_varB, [ConnId 7])]"
    by (simp add: old_params_of_def dict_get_def ex_varA_def ex_varB_def)
  have cf: "consume_first (Variable ex_varB)
              [(Variable ex_varA, [ConnId 6]), (Variable ex_varB, [ConnId 7])]
              = Some ([ConnId 7], [(Variable ex_varA, [ConnId 6])])"
    by (simp add: ex_varA_def ex_varB_def)
  note t1 = update_pipeline_reconciles_by_value[of ex_controller_ab ex_info_ab ex_recipe_b None
      ex_info_b ex_controller_b
      "[(Variable ex_varA, [[ConnId 6]]), (Variable ex_varB, [[ConnId 7]])]"
      "[(Variable ex_varA, [ConnId 6]), (Variable ex_varB, [ConnId 7])]"
      "Variable ex_varB" "[ConnId 7]" "[(Variable ex_varA, [ConnId 6])]"
      ex_controller_ab "PipelineGenerator ex_controller_ab" ex_pipeline_ab "''data''" "[]" "[]" "[]"]
  note t1a = conjunct1[OF t1, rule_format, OF ex_update_ab_b, unfolded if_not_P[OF ex_no_op_ab_b]]
  from t1a pn1 obtain gs where
    gs: "map_of (conn_map ex_info_b) ''data'' = Some gs"
        "length gs = length (dict_get (parameters ex_recipe_b) ''data'')"
        "\<forall>j grp. j < length gs \<longrightarrow>
             fst (reconcile (dict_get (parameters ex_recipe_b) ''data'')
                    (old_bindings ex_info_ab ''data'')) ! j = Some grp \<longrightarrow>
             gs ! j = ConnList grp"
    by blast
  have l: "length gs = 1" using gs(2) by (simp add: ex_recipe_b_def dict_get_def)
  then have "gs ! 0 = ConnList [ConnId 7]" using gs(3) rc1 by simp
  with l have g1: "gs = [ConnList [ConnId 7]]" by (cases gs) auto
  note t2 = update_pipeline_reconciles_by_value[of ex_controller_aa ex_info_aa ex_recipe1 None
      ex_info_a ex_controller_a
      "[(Variable ex_varA, [[ConnId 6]]), (Variable ex_varB, [[ConnId 7]])]"
      "[(Variable ex_varA, [ConnId 6]), (Variable ex_varB, [ConnId 7])]"
      "Variable ex_varB" "[ConnId 7]" "[(Variable ex_varA, [ConnId 6])]"
      ex_controller_ab "PipelineGenerator ex_controller_ab" ex_pipeline_ab "''data''" "[]" "[]" "[]"]
  note t2a = conjunct1[OF t2, rule_format, OF ex_update_aa_a, unfolded if_not_P[OF ex_no_op_aa_a]]
  from t2a pn2 obtain gs2 where
    gs2: "map_of (conn_map ex_info_a) ''data'' = Some gs2"
        "length gs2 = length (dict_get (parameters ex_recipe1) ''data'')"
        "\<forall>j grp. j < length gs2 \<longrightarrow>
             fst (reconcile (dict_get (parameters ex_recipe1) ''data'')
                    (old_bindings ex_info_aa ''data'')) ! j = Some grp \<longrightarrow>
             gs2 ! j = ConnList grp"
    by blast
  have l2: "length gs2 = 1" using gs2(2) by (simp add: ex_recipe1_def dict_get_def)
  then have "gs2 ! 0 = ConnList [ConnId 6]" using gs2(3) rc2 by simp
  with l2 have g2: "gs2 = [ConnList [ConnId 6]]" by (cases gs2) auto
  from t1 o cf have s:
    "\<exists>d'. old_params_of d' [(Variable ex_varA, [ConnId 6])] \<and>
         update_new_params ex_controller_ab (PipelineGenerator ex_controller_ab) ex_pipeline_ab
           ex_info_ab ex_recipe_b None ''data'' [Variable ex_varB]
           [(Variable ex_varA, [[ConnId 6]]), (Variable ex_varB, [[ConnId 7]])] [] []
         = update_new_params ex_controller_ab (PipelineGenerator ex_controller_ab) ex_pipeline_ab
           ex_info_ab ex_recipe_b None ''data'' [] d' ([] @ [ConnList [ConnId 7]]) []"
    by blast
  from ex_update_ab_b ex_no_op_ab_b ob1 rc1 gs(1) g1 ex_update_aa_a ex_no_op_aa_a ob2 rc2
    gs2(1) g2 ex_update_ab_ba ex_no_op_ab_ba s
  show ?thesis by simp
qed

end
